theory Spec2Isabelle
  imports Complex_Main
begin

section \<open>Python and numpy arithmetic on floats, read as real numbers\<close>

text \<open>
  The calibration module computes with Python floats and numpy arrays of floats.
  They are read here as real numbers: rounding, overflow, infinities and NaN are
  outside the model. The operators are the Python ones.
\<close>

text \<open>
  Python's \<^verbatim>\<open>a % b\<close> on floats: the result has the sign of \<open>b\<close>, that is
  \<open>a - b * floor (a / b)\<close>. Every use in the module has \<open>b = 2 * pi\<close> or \<open>b = pi\<close>.
\<close>

definition py_fmod :: "real \<Rightarrow> real \<Rightarrow> real" where
  "py_fmod a b = a - b * of_int \<lfloor>a / b\<rfloor>"

text \<open>\<^verbatim>\<open>math.radians\<close> and \<^verbatim>\<open>numpy.radians\<close>.\<close>

definition radians :: "real \<Rightarrow> real" where
  "radians d = d * pi / 180"

text \<open>
  The exceptions the modelled code can raise. A function that can raise returns
  \<open>error + 'a\<close>, with \<open>Inl\<close> the exception.
\<close>

datatype error = KeyError string | TypeError | ValueError | AttributeError | IndexError

fun bind_error :: "error + 'a \<Rightarrow> ('a \<Rightarrow> error + 'b) \<Rightarrow> error + 'b" where
  "bind_error (Inl e) f = Inl e"
| "bind_error (Inr v) f = f v"

text \<open>A loop whose body can raise: the results in order, or the first exception.\<close>

fun map_error :: "('a \<Rightarrow> error + 'b) \<Rightarrow> 'a list \<Rightarrow> error + 'b list" where
  "map_error f [] = Inr []"
| "map_error f (x # xs) =
     bind_error (f x) (\<lambda>y. bind_error (map_error f xs) (\<lambda>ys. Inr (y # ys)))"

section \<open>normalise_angle\<close>

text \<open>
  \<^verbatim>\<open>
  def normalise_angle(angle):
      """normalise an angle to the [-pi, pi] range"""
      angle = numpy.array(angle)
      modulo = 2 * numpy.pi
      angle %= modulo
      # force to [0, modulo] range
      angle = (angle + modulo) % modulo
      return angle - numpy.where(angle > modulo / 2., modulo, 0)
  \<close>
  The argument is a Python number or a sequence of numbers. \<^verbatim>\<open>numpy.array\<close> makes an
  integer array of a Python int and of a non-empty sequence of ints, and a float array
  as soon as one element is a float (and of the empty sequence). The in-place
  \<^verbatim>\<open>angle %= modulo\<close> computes a float remainder and has to store it in \<^verbatim>\<open>angle\<close>:
  numpy refuses to cast it into an integer array and raises UFuncTypeError, a TypeError.
  On a float array every step acts element-wise; on a scalar (a 0-d array) on the one
  value.
\<close>

datatype pynum = PyInt int | PyFloat real

fun is_py_int :: "pynum \<Rightarrow> bool" where
  "is_py_int (PyInt n) = True"
| "is_py_int (PyFloat a) = False"

fun to_float :: "pynum \<Rightarrow> real" where
  "to_float (PyInt n) = of_int n"
| "to_float (PyFloat a) = a"

definition normalise_angle :: "pynum \<Rightarrow> error + real" where
  "normalise_angle angle =
     (if is_py_int angle then Inl TypeError
      else
        let modulo = 2 * pi;
            angle = py_fmod (to_float angle) modulo;
            angle = py_fmod (angle + modulo) modulo
        in Inr (angle - (if angle > modulo / 2 then modulo else 0)))"

definition normalise_angle_array :: "pynum list \<Rightarrow> error + real list" where
  "normalise_angle_array angle =
     (if angle \<noteq> [] \<and> list_all is_py_int angle then Inl TypeError
      else
        let modulo = 2 * pi;
            angle = map (\<lambda>a. py_fmod (to_float a) modulo) angle;
            angle = map (\<lambda>a. py_fmod (a + modulo) modulo) angle;
            shift = map (\<lambda>a. if a > modulo / 2 then modulo else 0) angle
        in Inr (map2 (\<lambda>a s. a - s) angle shift))"

text \<open>The value the function is to return on the angle \<open>a\<close>: \<open>a\<close> reduced modulo
  \<open>2 * pi\<close> into \<open>[0, 2 * pi)\<close>, less \<open>2 * pi\<close> in the upper half.\<close>

definition normalised :: "real \<Rightarrow> real" where
  "normalised a = py_fmod a (2 * pi) - (if py_fmod a (2 * pi) > pi then 2 * pi else 0)"

section \<open>Vectors, matrices, rotations and frames\<close>

text \<open>
  A 3D point is a triple, a batch of points (an array of shape (N, 3)) a list of triples,
  a 3x3 matrix three rows, a homogeneous 4x4 matrix four rows of four.
\<close>

type_synonym vec3 = "real \<times> real \<times> real"
type_synonym mat3 = "vec3 \<times> vec3 \<times> vec3"
type_synonym vec4 = "real \<times> real \<times> real \<times> real"
type_synonym mat4 = "vec4 \<times> vec4 \<times> vec4 \<times> vec4"

fun dot3 :: "vec3 \<Rightarrow> vec3 \<Rightarrow> real" where
  "dot3 (a1, a2, a3) (b1, b2, b3) = a1 * b1 + a2 * b2 + a3 * b3"

fun dot4 :: "vec4 \<Rightarrow> vec4 \<Rightarrow> real" where
  "dot4 (a1, a2, a3, a4) (b1, b2, b3, b4) = a1 * b1 + a2 * b2 + a3 * b3 + a4 * b4"

fun transpose3 :: "mat3 \<Rightarrow> mat3" where
  "transpose3 ((a11, a12, a13), (a21, a22, a23), (a31, a32, a33)) =
     ((a11, a21, a31), (a12, a22, a32), (a13, a23, a33))"

fun transpose4 :: "mat4 \<Rightarrow> mat4" where
  "transpose4 ((a11, a12, a13, a14), (a21, a22, a23, a24),
               (a31, a32, a33, a34), (a41, a42, a43, a44)) =
     ((a11, a21, a31, a41), (a12, a22, a32, a42),
      (a13, a23, a33, a43), (a14, a24, a34, a44))"

text \<open>\<^verbatim>\<open>numpy.dot\<close> of a 3x3 matrix and a vector, and of two matrices.\<close>

fun mat3_vec :: "mat3 \<Rightarrow> vec3 \<Rightarrow> vec3" where
  "mat3_vec (r1, r2, r3) p = (dot3 r1 p, dot3 r2 p, dot3 r3 p)"

definition mat3_mul :: "mat3 \<Rightarrow> mat3 \<Rightarrow> mat3" where
  "mat3_mul a b =
     (case a of (r1, r2, r3) \<Rightarrow>
      case transpose3 b of (c1, c2, c3) \<Rightarrow>
        ((dot3 r1 c1, dot3 r1 c2, dot3 r1 c3),
         (dot3 r2 c1, dot3 r2 c2, dot3 r2 c3),
         (dot3 r3 c1, dot3 r3 c2, dot3 r3 c3)))"

definition mat4_mul :: "mat4 \<Rightarrow> mat4 \<Rightarrow> mat4" where
  "mat4_mul a b =
     (case a of (r1, r2, r3, r4) \<Rightarrow>
      case transpose4 b of (c1, c2, c3, c4) \<Rightarrow>
        ((dot4 r1 c1, dot4 r1 c2, dot4 r1 c3, dot4 r1 c4),
         (dot4 r2 c1, dot4 r2 c2, dot4 r2 c3, dot4 r2 c4),
         (dot4 r3 c1, dot4 r3 c2, dot4 r3 c3, dot4 r3 c4),
         (dot4 r4 c1, dot4 r4 c2, dot4 r4 c3, dot4 r4 c4)))"

definition identity4 :: mat4 where
  "identity4 = ((1, 0, 0, 0), (0, 1, 0, 0), (0, 0, 1, 0), (0, 0, 0, 1))"

text \<open>The slice \<^verbatim>\<open>rot[:3, :3]\<close> of a 4x4 array.\<close>

fun block3 :: "mat4 \<Rightarrow> mat3" where
  "block3 ((a11, a12, a13, a14), (a21, a22, a23, a24),
           (a31, a32, a33, a34), (a41, a42, a43, a44)) =
     ((a11, a12, a13), (a21, a22, a23), (a31, a32, a33))"

text \<open>\<^verbatim>\<open>rot = numpy.identity(4); rot[:3, :3] = m\<close>.\<close>

fun embed4 :: "mat3 \<Rightarrow> mat4" where
  "embed4 ((a11, a12, a13), (a21, a22, a23), (a31, a32, a33)) =
     ((a11, a12, a13, 0), (a21, a22, a23, 0), (a31, a32, a33, 0), (0, 0, 0, 1))"

text \<open>
  Modelled from the spec: the fixed world axis constants \<^verbatim>\<open>x_axis\<close>, \<^verbatim>\<open>y_axis\<close>,
  \<^verbatim>\<open>z_axis\<close> of frame.py, which is not among the source files.
\<close>

definition x_axis :: vec3 where "x_axis = (1, 0, 0)"
definition y_axis :: vec3 where "y_axis = (0, 1, 0)"
definition z_axis :: vec3 where "z_axis = (0, 0, 1)"

text \<open>
  Modelled from the spec: \<^verbatim>\<open>rotation_matrix(angle, direction)\<close> of transformations.py,
  which is not among the source files: the "rotation-matrix construction around an axis",
  here the axis-angle matrix of the normalised direction, as a homogeneous 4x4 matrix
  (the callers slice its 3x3 block).
\<close>

definition rotation_matrix :: "real \<Rightarrow> vec3 \<Rightarrow> mat4" where
  "rotation_matrix angle direction =
     (case direction of (dx, dy, dz) \<Rightarrow>
      let n = sqrt (dx * dx + dy * dy + dz * dz);
          ux = dx / n; uy = dy / n; uz = dz / n;
          sina = sin angle; cosa = cos angle
      in ((cosa + ux * ux * (1 - cosa), ux * uy * (1 - cosa) - uz * sina,
             ux * uz * (1 - cosa) + uy * sina, 0),
          (uy * ux * (1 - cosa) + uz * sina, cosa + uy * uy * (1 - cosa),
             uy * uz * (1 - cosa) - ux * sina, 0),
          (uz * ux * (1 - cosa) - uy * sina, uz * uy * (1 - cosa) + ux * sina,
             cosa + uz * uz * (1 - cosa), 0),
          (0, 0, 0, 1)))"

text \<open>
  Modelled from the spec: \<^verbatim>\<open>concatenate_matrices(*matrices)\<close> of transformations.py,
  which is not among the source files: the "composition (concatenation) of multiple
  rotations", the matrix product of the arguments in the order given.
\<close>

definition concatenate_matrices :: "mat4 list \<Rightarrow> mat4" where
  "concatenate_matrices ms = foldl mat4_mul identity4 ms"

text \<open>
  Modelled from the spec: the class \<^verbatim>\<open>Frame\<close> of frame.py, which is not among the
  source files. A frame owns a 3x3 rotation matrix \<open>R\<close> and an origin; the matrix handed
  to the constructor is "the frame's local-to-world rotation"; \<open>local_point\<close> returns
  \<open>R\<^sup>T (p - origin)\<close> and \<open>global_point\<close> returns \<open>R p + origin\<close>, row-wise on a batch;
  \<open>rotation_to_global\<close> returns \<open>R\<close>.
\<close>

record frame =
  rot :: mat3
  origin :: vec3

definition Frame :: "mat3 \<Rightarrow> vec3 \<Rightarrow> frame" where
  "Frame axes org = \<lparr>rot = axes, origin = org\<rparr>"

definition rotation_to_global :: "frame \<Rightarrow> mat3" where
  "rotation_to_global f = rot f"

fun vec3_sub :: "vec3 \<Rightarrow> vec3 \<Rightarrow> vec3" where
  "vec3_sub (a1, a2, a3) (b1, b2, b3) = (a1 - b1, a2 - b2, a3 - b3)"

fun vec3_add :: "vec3 \<Rightarrow> vec3 \<Rightarrow> vec3" where
  "vec3_add (a1, a2, a3) (b1, b2, b3) = (a1 + b1, a2 + b2, a3 + b3)"

definition local_point :: "frame \<Rightarrow> vec3 \<Rightarrow> vec3" where
  "local_point f p = mat3_vec (transpose3 (rot f)) (vec3_sub p (origin f))"

definition global_point :: "frame \<Rightarrow> vec3 \<Rightarrow> vec3" where
  "global_point f p = vec3_add (mat3_vec (rot f) p) (origin f)"

definition local_points :: "frame \<Rightarrow> vec3 list \<Rightarrow> vec3 list" where
  "local_points f ps = map (local_point f) ps"

definition global_points :: "frame \<Rightarrow> vec3 list \<Rightarrow> vec3 list" where
  "global_points f ps = map (global_point f) ps"

text \<open>
  \<^verbatim>\<open>
  def cam_origin_axis(axes):
      f = Frame(axes)
      rot = numpy.identity(4)
      rot[:3, :3] = f.rotation_to_global()
      return rot
  \<close>
  The function is \<open>cam_origin_axis_from_axes\<close> here: the name \<open>cam_origin_axis\<close> is
  the attribute of the camera object below.
\<close>

definition cam_origin_axis_from_axes :: "mat3 \<Rightarrow> mat4" where
  "cam_origin_axis_from_axes axes = embed4 (rotation_to_global (Frame axes (0, 0, 0)))"

text \<open>
  The elemental rotations about the world axes, written out; the rotation matrices the
  frame builders are compared with.
\<close>

definition elemental_rotation_x :: "real \<Rightarrow> mat3" where
  "elemental_rotation_x a = ((1, 0, 0), (0, cos a, - sin a), (0, sin a, cos a))"

definition elemental_rotation_y :: "real \<Rightarrow> mat3" where
  "elemental_rotation_y a = ((cos a, 0, sin a), (0, 1, 0), (- sin a, 0, cos a))"

definition elemental_rotation_z :: "real \<Rightarrow> mat3" where
  "elemental_rotation_z a = ((cos a, - sin a, 0), (sin a, cos a, 0), (0, 0, 1))"

section \<open>CalibrationCamera: the pinhole projection and the frame builders\<close>

text \<open>
  \<^verbatim>\<open>
  def pixel_coordinates(point_3d, width_image, height_image,
                        focal_length_x, focal_length_y):
      pt = numpy.array(point_3d)
      x, y, z = pt.T
      u = x / z * focal_length_x + width_image / 2.0
      v = y / z * focal_length_y + height_image / 2.0
      if len(pt.shape) > 1:
          return numpy.column_stack((u, v))
      else:
          return u, v
  \<close>
  The division is numpy's: at \<open>z = 0\<close> it yields an infinity or NaN and no exception.
  The model has no such values (\<open>x / 0 = 0\<close> in HOL), so what is proved of it is stated
  for \<open>z \<noteq> 0\<close>.
\<close>

fun pixel_coordinates :: "vec3 \<Rightarrow> real \<Rightarrow> real \<Rightarrow> real \<Rightarrow> real \<Rightarrow> real \<times> real" where
  "pixel_coordinates (x, y, z) width_image height_image focal_length_x focal_length_y =
     (let u = x / z * focal_length_x + width_image / 2;
          v = y / z * focal_length_y + height_image / 2
      in (u, v))"

text \<open>
  The batch branch: \<^verbatim>\<open>pt.T\<close> splits the (N, 3) array into its three columns, the
  arithmetic is element-wise on the columns and \<^verbatim>\<open>column_stack\<close> pairs them up again.
\<close>

definition pixel_coordinates_batch ::
  "vec3 list \<Rightarrow> real \<Rightarrow> real \<Rightarrow> real \<Rightarrow> real \<Rightarrow> (real \<times> real) list" where
  "pixel_coordinates_batch pt width_image height_image focal_length_x focal_length_y =
     (let x = map fst pt; y = map (\<lambda>p. fst (snd p)) pt; z = map (\<lambda>p. snd (snd p)) pt;
          u = map2 (\<lambda>a c. a / c * focal_length_x + width_image / 2) x z;
          v = map2 (\<lambda>b c. b / c * focal_length_y + height_image / 2) y z
      in zip u v)"

text \<open>
  \<^verbatim>\<open>
  def target_frame(pos_x, pos_y, pos_z, rot_x, rot_y, rot_z, alpha):
      origin = [pos_x * math.cos(alpha) - pos_y * math.sin(alpha),
                pos_x * math.sin(alpha) + pos_y * math.cos(alpha),
                pos_z]
      mat_rot_x = rotation_matrix(rot_x, x_axis)
      mat_rot_y = rotation_matrix(rot_y, y_axis)
      mat_rot_z = rotation_matrix(alpha + rot_z, z_axis)
      rot = concatenate_matrices(mat_rot_z, mat_rot_x, mat_rot_y)
      return Frame(rot[:3, :3].T, origin)
  \<close>
\<close>

definition target_frame ::
  "real \<Rightarrow> real \<Rightarrow> real \<Rightarrow> real \<Rightarrow> real \<Rightarrow> real \<Rightarrow> real \<Rightarrow> frame" where
  "target_frame pos_x pos_y pos_z rot_x rot_y rot_z alpha =
     (let org = (pos_x * cos alpha - pos_y * sin alpha,
                 pos_x * sin alpha + pos_y * cos alpha,
                 pos_z);
          mat_rot_x = rotation_matrix rot_x x_axis;
          mat_rot_y = rotation_matrix rot_y y_axis;
          mat_rot_z = rotation_matrix (alpha + rot_z) z_axis;
          rot = concatenate_matrices [mat_rot_z, mat_rot_x, mat_rot_y]
      in Frame (transpose3 (block3 rot)) org)"

text \<open>
  \<^verbatim>\<open>
  def camera_frame(pos_x, pos_y, pos_z, rot_x, rot_y, rot_z, origin_axis):
      origin = (pos_x, pos_y, pos_z)
      mat_rot_x = rotation_matrix(rot_x, x_axis)
      mat_rot_y = rotation_matrix(rot_y, y_axis)
      mat_rot_z = rotation_matrix(rot_z, z_axis)
      rot = concatenate_matrices(origin_axis, mat_rot_x, mat_rot_y, mat_rot_z)
      return Frame(rot[:3, :3].T, origin)
  \<close>
\<close>

definition camera_frame ::
  "real \<Rightarrow> real \<Rightarrow> real \<Rightarrow> real \<Rightarrow> real \<Rightarrow> real \<Rightarrow> mat4 \<Rightarrow> frame" where
  "camera_frame pos_x pos_y pos_z rot_x rot_y rot_z origin_axis =
     (let org = (pos_x, pos_y, pos_z);
          mat_rot_x = rotation_matrix rot_x x_axis;
          mat_rot_y = rotation_matrix rot_y y_axis;
          mat_rot_z = rotation_matrix rot_z z_axis;
          rot = concatenate_matrices [origin_axis, mat_rot_x, mat_rot_y, mat_rot_z]
      in Frame (transpose3 (block3 rot)) org)"

section \<open>Python values, exceptions and the camera object\<close>

text \<open>
  The values \<^verbatim>\<open>json.load\<close> returns and \<^verbatim>\<open>json.dump\<close> accepts: \<^verbatim>\<open>None\<close>, booleans,
  numbers, strings, lists and dicts. A dict is an association list read with \<open>map_of\<close>.
  The attributes of a calibration object hold such values: \<^verbatim>\<open>None\<close> after
  \<^verbatim>\<open>__init__\<close>, numbers after \<^verbatim>\<open>calibrate\<close>, whatever the file held after \<^verbatim>\<open>load\<close>.
  Python's \<^verbatim>\<open>json\<close> writes a float with \<^verbatim>\<open>repr\<close> and reads it back exactly; the
  model keeps the number as it is.
\<close>

datatype json =
    JNull
  | JBool bool
  | JNum real
  | JStr string
  | JArr "json list"
  | JObj "(string \<times> json) list"

text \<open>\<^verbatim>\<open>save_class[key]\<close>: a missing key of a dict raises KeyError, any other value
  cannot be indexed by a string.\<close>

fun json_getitem :: "json \<Rightarrow> string \<Rightarrow> error + json" where
  "json_getitem (JObj kvs) k =
     (case map_of kvs k of None \<Rightarrow> Inl (KeyError k) | Some v \<Rightarrow> Inr v)"
| "json_getitem _ k = Inl TypeError"

text \<open>A value used in float arithmetic: a number, or a boolean (an int in Python);
  anything else raises TypeError.\<close>

fun num :: "json \<Rightarrow> error + real" where
  "num (JNum r) = Inr r"
| "num (JBool b) = Inr (if b then 1 else 0)"
| "num _ = Inl TypeError"

text \<open>
  \<^verbatim>\<open>
  class CalibrationCamera(object):
      def __init__(self):
          self._cam_width_image = None
          ... (all twelve attributes None)
  \<close>
  \<open>cam_origin_axis\<close> is a 4x4 numpy array, or \<^verbatim>\<open>None\<close>.
\<close>

record calibration_camera =
  cam_width_image :: json
  cam_height_image :: json
  cam_focal_length_x :: json
  cam_focal_length_y :: json
  cam_pos_x :: json
  cam_pos_y :: json
  cam_pos_z :: json
  cam_rot_x :: json
  cam_rot_y :: json
  cam_rot_z :: json
  angle_factor :: json
  cam_origin_axis :: "mat4 option"

definition CalibrationCamera_init :: calibration_camera where
  "CalibrationCamera_init =
     \<lparr>cam_width_image = JNull, cam_height_image = JNull,
      cam_focal_length_x = JNull, cam_focal_length_y = JNull,
      cam_pos_x = JNull, cam_pos_y = JNull, cam_pos_z = JNull,
      cam_rot_x = JNull, cam_rot_y = JNull, cam_rot_z = JNull,
      angle_factor = JNull, cam_origin_axis = None\<rparr>"

text \<open>
  \<^verbatim>\<open>
  def get_camera_frame(self):
      return self.camera_frame(
          self._cam_pos_x, self._cam_pos_y, self._cam_pos_z,
          self._cam_rot_x, self._cam_rot_y, self._cam_rot_z,
          self._cam_origin_axis)
  \<close>
  An attribute that is not a number makes the construction of the frame raise TypeError
  (for a rotation at once, in \<^verbatim>\<open>math.sin\<close>; for a position the source fails when the
  frame is first used, the model at once).
\<close>

definition get_camera_frame :: "'a calibration_camera_scheme \<Rightarrow> error + frame" where
  "get_camera_frame c =
     bind_error (num (cam_pos_x c)) (\<lambda>pos_x.
     bind_error (num (cam_pos_y c)) (\<lambda>pos_y.
     bind_error (num (cam_pos_z c)) (\<lambda>pos_z.
     bind_error (num (cam_rot_x c)) (\<lambda>rot_x.
     bind_error (num (cam_rot_y c)) (\<lambda>rot_y.
     bind_error (num (cam_rot_z c)) (\<lambda>rot_z.
     (case cam_origin_axis c of
        None \<Rightarrow> Inl TypeError
      | Some origin_axis \<Rightarrow>
          Inr (camera_frame pos_x pos_y pos_z rot_x rot_y rot_z origin_axis))))))))"

text \<open>
  \<^verbatim>\<open>
  def get_projection(self, alpha):
      fr_cam = self.get_camera_frame()
      angle = math.radians(alpha * self._angle_factor)

      def projection(pts):
          pt = numpy.array(pts)
          x, y, z = pt.T
          x = x * math.cos(angle) - y * math.sin(angle)
          y = x * math.sin(angle) + y * math.cos(angle)
          if len(pt.shape) > 1:
              origin = numpy.column_stack((x, y, z))
          else:
              origin = x, y, z
          return self.pixel_coordinates(fr_cam.local_point(origin),
                                        self._cam_width_image,
                                        self._cam_height_image,
                                        self._cam_focal_length_x,
                                        self._cam_focal_length_y)
      return projection
  \<close>
  The second assignment reads the \<open>x\<close> the first one has just overwritten; the nested
  \<open>let\<close> of the model binds in the same order. The closure is modelled for one point
  and for a batch.
\<close>

definition projection ::
  "'a calibration_camera_scheme \<Rightarrow> frame \<Rightarrow> real \<Rightarrow> vec3 \<Rightarrow> error + real \<times> real" where
  "projection c fr_cam angle pts =
     (case pts of (x, y, z) \<Rightarrow>
      let x = x * cos angle - y * sin angle;
          y = x * sin angle + y * cos angle;
          org = (x, y, z)
      in bind_error (num (cam_width_image c)) (\<lambda>width_image.
         bind_error (num (cam_height_image c)) (\<lambda>height_image.
         bind_error (num (cam_focal_length_x c)) (\<lambda>focal_length_x.
         bind_error (num (cam_focal_length_y c)) (\<lambda>focal_length_y.
         Inr (pixel_coordinates (local_point fr_cam org)
                width_image height_image focal_length_x focal_length_y))))))"

definition projection_batch ::
  "'a calibration_camera_scheme \<Rightarrow> frame \<Rightarrow> real \<Rightarrow> vec3 list
     \<Rightarrow> error + (real \<times> real) list" where
  "projection_batch c fr_cam angle pts =
     (let x = map fst pts; y = map (\<lambda>p. fst (snd p)) pts; z = map (\<lambda>p. snd (snd p)) pts;
          x = map2 (\<lambda>a b. a * cos angle - b * sin angle) x y;
          y = map2 (\<lambda>a b. a * sin angle + b * cos angle) x y;
          org = zip x (zip y z)
      in bind_error (num (cam_width_image c)) (\<lambda>width_image.
         bind_error (num (cam_height_image c)) (\<lambda>height_image.
         bind_error (num (cam_focal_length_x c)) (\<lambda>focal_length_x.
         bind_error (num (cam_focal_length_y c)) (\<lambda>focal_length_y.
         Inr (pixel_coordinates_batch (local_points fr_cam org)
                width_image height_image focal_length_x focal_length_y))))))"

definition get_projection ::
  "'a calibration_camera_scheme \<Rightarrow> real \<Rightarrow> error + (vec3 \<Rightarrow> error + real \<times> real)" where
  "get_projection c alpha =
     bind_error (get_camera_frame c) (\<lambda>fr_cam.
     bind_error (num (angle_factor c)) (\<lambda>factor.
     let angle = radians (alpha * factor)
     in Inr (projection c fr_cam angle)))"

definition get_projection_batch ::
  "'a calibration_camera_scheme \<Rightarrow> real
     \<Rightarrow> error + (vec3 list \<Rightarrow> error + (real \<times> real) list)" where
  "get_projection_batch c alpha =
     bind_error (get_camera_frame c) (\<lambda>fr_cam.
     bind_error (num (angle_factor c)) (\<lambda>factor.
     let angle = radians (alpha * factor)
     in Inr (projection_batch c fr_cam angle)))"

text \<open>
  What the claim on \<open>get_projection\<close> describes: the rotation of a world point about
  the Z axis by \<open>a\<close>, followed by \<open>local_point\<close> and \<open>pixel_coordinates\<close>.
\<close>

definition rotate_about_z :: "real \<Rightarrow> vec3 \<Rightarrow> vec3" where
  "rotate_about_z a p =
     (case p of (x, y, z) \<Rightarrow> (x * cos a - y * sin a, x * sin a + y * cos a, z))"

section \<open>Persistence: dump and load\<close>

text \<open>
  \<^verbatim>\<open>self._cam_origin_axis.reshape((16,)).tolist()\<close>: the sixteen values, row by row.
\<close>

fun mat4_tolist :: "mat4 \<Rightarrow> real list" where
  "mat4_tolist ((a11, a12, a13, a14), (a21, a22, a23, a24),
                (a31, a32, a33, a34), (a41, a42, a43, a44)) =
     [a11, a12, a13, a14, a21, a22, a23, a24, a31, a32, a33, a34, a41, a42, a43, a44]"

definition mat4_of_list :: "real list \<Rightarrow> mat4" where
  "mat4_of_list xs =
     ((xs ! 0, xs ! 1, xs ! 2, xs ! 3), (xs ! 4, xs ! 5, xs ! 6, xs ! 7),
      (xs ! 8, xs ! 9, xs ! 10, xs ! 11), (xs ! 12, xs ! 13, xs ! 14, xs ! 15))"

text \<open>
  \<^verbatim>\<open>numpy.array(save_class['cam_origin_axis']).reshape((4, 4)).astype(numpy.float32)\<close>.
  \<^verbatim>\<open>numpy.array\<close> takes the shape from the nesting of the lists (every value that is
  not a list is an element) and raises ValueError when the nesting is ragged; the
  reshape raises ValueError unless there are sixteen elements; the cast then converts
  the elements: a number is cast to single precision, a boolean is 0 or 1, \<^verbatim>\<open>None\<close>
  or a dict raises TypeError and a string ValueError (a string that spells a number,
  which numpy would parse, is not modelled). The cast of a number to single precision
  is the parameter \<open>float32\<close>: the model does not define the rounding.
\<close>

fun json_shape :: "json \<Rightarrow> nat list option" where
  "json_shape (JArr vs) =
     (case map json_shape vs of
        [] \<Rightarrow> Some [0]
      | None # shapes \<Rightarrow> None
      | Some d # shapes \<Rightarrow>
          if list_all (\<lambda>sh. sh = Some d) shapes then Some (length vs # d) else None)"
| "json_shape v = Some []"

fun json_elements :: "json \<Rightarrow> json list" where
  "json_elements (JArr vs) = concat (map json_elements vs)"
| "json_elements v = [v]"

fun element_float :: "json \<Rightarrow> error + real" where
  "element_float (JNum r) = Inr r"
| "element_float (JBool b) = Inr (if b then 1 else 0)"
| "element_float (JStr s) = Inl ValueError"
| "element_float v = Inl TypeError"

definition origin_axis_of_json :: "(real \<Rightarrow> real) \<Rightarrow> json \<Rightarrow> error + mat4" where
  "origin_axis_of_json float32 v =
     (case json_shape v of
        None \<Rightarrow> Inl ValueError
      | Some shape \<Rightarrow>
          if prod_list shape \<noteq> 16 then Inl ValueError
          else bind_error (map_error element_float (json_elements v)) (\<lambda>xs.
               Inr (mat4_of_list (map float32 xs))))"

text \<open>
  The twelve assignments every \<^verbatim>\<open>load\<close> makes on the fresh object \<open>c\<close>, in the order
  of the source:
  \<^verbatim>\<open>
      c._cam_width_image = save_class['cam_width_image']
      c._cam_height_image = save_class['cam_height_image']
      c._cam_focal_length_x = save_class['cam_focal_length_x']
      c._cam_focal_length_y = save_class['cam_focal_length_y']
      c._cam_pos_x = save_class['cam_pos_x']
      c._cam_pos_y = save_class['cam_pos_y']
      c._cam_pos_z = save_class['cam_pos_z']
      c._cam_rot_x = save_class['cam_rot_x']
      c._cam_rot_y = save_class['cam_rot_y']
      c._cam_rot_z = save_class['cam_rot_z']
      c._angle_factor = save_class['angle_factor']
      c._cam_origin_axis = numpy.array(
          save_class['cam_origin_axis']).reshape((4, 4)).astype(numpy.float32)
  \<close>
  Opening the file and parsing its text are outside the model, which starts from the
  parsed value \<open>save_class\<close>.
\<close>

definition load_camera_fields ::
  "(real \<Rightarrow> real) \<Rightarrow> json \<Rightarrow> 'a calibration_camera_scheme
     \<Rightarrow> error + 'a calibration_camera_scheme" where
  "load_camera_fields float32 save_class c =
     bind_error (json_getitem save_class ''cam_width_image'') (\<lambda>v_cam_width_image.
     bind_error (json_getitem save_class ''cam_height_image'') (\<lambda>v_cam_height_image.
     bind_error (json_getitem save_class ''cam_focal_length_x'') (\<lambda>v_cam_focal_length_x.
     bind_error (json_getitem save_class ''cam_focal_length_y'') (\<lambda>v_cam_focal_length_y.
     bind_error (json_getitem save_class ''cam_pos_x'') (\<lambda>v_cam_pos_x.
     bind_error (json_getitem save_class ''cam_pos_y'') (\<lambda>v_cam_pos_y.
     bind_error (json_getitem save_class ''cam_pos_z'') (\<lambda>v_cam_pos_z.
     bind_error (json_getitem save_class ''cam_rot_x'') (\<lambda>v_cam_rot_x.
     bind_error (json_getitem save_class ''cam_rot_y'') (\<lambda>v_cam_rot_y.
     bind_error (json_getitem save_class ''cam_rot_z'') (\<lambda>v_cam_rot_z.
     bind_error (json_getitem save_class ''angle_factor'') (\<lambda>v_angle_factor.
     bind_error (json_getitem save_class ''cam_origin_axis'') (\<lambda>v_axis.
     bind_error (origin_axis_of_json float32 v_axis) (\<lambda>axis.
     Inr (c\<lparr>cam_width_image := v_cam_width_image,
            cam_height_image := v_cam_height_image,
            cam_focal_length_x := v_cam_focal_length_x,
            cam_focal_length_y := v_cam_focal_length_y,
            cam_pos_x := v_cam_pos_x,
            cam_pos_y := v_cam_pos_y,
            cam_pos_z := v_cam_pos_z,
            cam_rot_x := v_cam_rot_x,
            cam_rot_y := v_cam_rot_y,
            cam_rot_z := v_cam_rot_z,
            angle_factor := v_angle_factor,
            cam_origin_axis := Some axis\<rparr>))))))))))))))"

text \<open>
  The twelve entries every \<^verbatim>\<open>dump\<close> stores in \<^verbatim>\<open>save_class\<close>. The reshape of an
  origin axis that is still \<^verbatim>\<open>None\<close> raises AttributeError. The file is written with
  sorted keys; the model keeps the dict.
\<close>

definition dump_camera_fields ::
  "'a calibration_camera_scheme \<Rightarrow> error + (string \<times> json) list" where
  "dump_camera_fields c =
     (case cam_origin_axis c of
        None \<Rightarrow> Inl AttributeError
      | Some axis \<Rightarrow>
          Inr [(''cam_width_image'', cam_width_image c),
             (''cam_height_image'', cam_height_image c),
             (''cam_focal_length_x'', cam_focal_length_x c),
             (''cam_focal_length_y'', cam_focal_length_y c),
             (''cam_pos_x'', cam_pos_x c),
             (''cam_pos_y'', cam_pos_y c),
             (''cam_pos_z'', cam_pos_z c),
             (''cam_rot_x'', cam_rot_x c),
             (''cam_rot_y'', cam_rot_y c),
             (''cam_rot_z'', cam_rot_z c),
             (''angle_factor'', angle_factor c),
             (''cam_origin_axis'', JArr (map JNum (mat4_tolist axis)))])"

definition CalibrationCamera_load :: "(real \<Rightarrow> real) \<Rightarrow> json \<Rightarrow> error + calibration_camera" where
  "CalibrationCamera_load float32 save_class =
     load_camera_fields float32 save_class CalibrationCamera_init"

definition CalibrationCamera_dump :: "calibration_camera \<Rightarrow> error + json" where
  "CalibrationCamera_dump c = bind_error (dump_camera_fields c) (\<lambda>save_class. Inr (JObj save_class))"

text \<open>
  \<^verbatim>\<open>CalibrationCameraTop\<close>: its constructor sets the origin axis of a camera looking
  down, \<^verbatim>\<open>axes = [ [1, 0, 0], [0, -1, 0], [0, 0, -1]]\<close>; its \<^verbatim>\<open>load\<close> makes the same
  twelve assignments and it inherits \<^verbatim>\<open>dump\<close>.
\<close>

definition CalibrationCameraTop_init :: calibration_camera where
  "CalibrationCameraTop_init =
     CalibrationCamera_init
       \<lparr>cam_origin_axis := Some (cam_origin_axis_from_axes ((1, 0, 0), (0, -1, 0), (0, 0, -1)))\<rparr>"

definition CalibrationCameraTop_load :: "(real \<Rightarrow> real) \<Rightarrow> json \<Rightarrow> error + calibration_camera" where
  "CalibrationCameraTop_load float32 save_class =
     load_camera_fields float32 save_class CalibrationCameraTop_init"

text \<open>
  \<^verbatim>\<open>CalibrationCameraSideWith2TargetYXZ\<close>: a camera and the poses of two targets.
  The constructor fixes \<^verbatim>\<open>_cam_pos_z = 0.0\<close>, \<^verbatim>\<open>_cam_rot_y = 0.0\<close> and the origin
  axis of a horizontal camera, \<^verbatim>\<open>axes = [ [1, 0, 0], [0, 0, -1], [0, 1, 0]]\<close>.
\<close>

record calibration_yxz = calibration_camera +
  target_1_pos_x :: json
  target_1_pos_y :: json
  target_1_pos_z :: json
  target_1_rot_x :: json
  target_1_rot_y :: json
  target_1_rot_z :: json
  target_2_pos_x :: json
  target_2_pos_y :: json
  target_2_pos_z :: json
  target_2_rot_x :: json
  target_2_rot_y :: json
  target_2_rot_z :: json

definition CalibrationCameraSideWith2TargetYXZ_init :: calibration_yxz where
  "CalibrationCameraSideWith2TargetYXZ_init =
     \<lparr>cam_width_image = JNull, cam_height_image = JNull,
      cam_focal_length_x = JNull, cam_focal_length_y = JNull,
      cam_pos_x = JNull, cam_pos_y = JNull, cam_pos_z = JNum 0,
      cam_rot_x = JNull, cam_rot_y = JNum 0, cam_rot_z = JNull,
      angle_factor = JNull,
      cam_origin_axis = Some (cam_origin_axis_from_axes ((1, 0, 0), (0, 0, -1), (0, 1, 0))),
      target_1_pos_x = JNull, target_1_pos_y = JNull, target_1_pos_z = JNull,
      target_1_rot_x = JNull, target_1_rot_y = JNull, target_1_rot_z = JNull,
      target_2_pos_x = JNull, target_2_pos_y = JNull, target_2_pos_z = JNull,
      target_2_rot_x = JNull, target_2_rot_y = JNull, target_2_rot_z = JNull\<rparr>"

definition load_yxz_target_fields :: "json \<Rightarrow> calibration_yxz \<Rightarrow> error + calibration_yxz" where
  "load_yxz_target_fields save_class c =
     bind_error (json_getitem save_class ''target_1_pos_x'') (\<lambda>v_target_1_pos_x.
     bind_error (json_getitem save_class ''target_1_pos_y'') (\<lambda>v_target_1_pos_y.
     bind_error (json_getitem save_class ''target_1_pos_z'') (\<lambda>v_target_1_pos_z.
     bind_error (json_getitem save_class ''target_1_rot_x'') (\<lambda>v_target_1_rot_x.
     bind_error (json_getitem save_class ''target_1_rot_y'') (\<lambda>v_target_1_rot_y.
     bind_error (json_getitem save_class ''target_1_rot_z'') (\<lambda>v_target_1_rot_z.
     bind_error (json_getitem save_class ''target_2_pos_x'') (\<lambda>v_target_2_pos_x.
     bind_error (json_getitem save_class ''target_2_pos_y'') (\<lambda>v_target_2_pos_y.
     bind_error (json_getitem save_class ''target_2_pos_z'') (\<lambda>v_target_2_pos_z.
     bind_error (json_getitem save_class ''target_2_rot_x'') (\<lambda>v_target_2_rot_x.
     bind_error (json_getitem save_class ''target_2_rot_y'') (\<lambda>v_target_2_rot_y.
     bind_error (json_getitem save_class ''target_2_rot_z'') (\<lambda>v_target_2_rot_z.
     Inr (c\<lparr>target_1_pos_x := v_target_1_pos_x,
            target_1_pos_y := v_target_1_pos_y,
            target_1_pos_z := v_target_1_pos_z,
            target_1_rot_x := v_target_1_rot_x,
            target_1_rot_y := v_target_1_rot_y,
            target_1_rot_z := v_target_1_rot_z,
            target_2_pos_x := v_target_2_pos_x,
            target_2_pos_y := v_target_2_pos_y,
            target_2_pos_z := v_target_2_pos_z,
            target_2_rot_x := v_target_2_rot_x,
            target_2_rot_y := v_target_2_rot_y,
            target_2_rot_z := v_target_2_rot_z\<rparr>)))))))))))))"

definition CalibrationCameraSideWith2TargetYXZ_load ::
  "(real \<Rightarrow> real) \<Rightarrow> json \<Rightarrow> error + calibration_yxz" where
  "CalibrationCameraSideWith2TargetYXZ_load float32 save_class =
     bind_error (load_camera_fields float32 save_class CalibrationCameraSideWith2TargetYXZ_init)
       (\<lambda>c. load_yxz_target_fields save_class c)"

definition CalibrationCameraSideWith2TargetYXZ_dump :: "calibration_yxz \<Rightarrow> error + json" where
  "CalibrationCameraSideWith2TargetYXZ_dump c =
     bind_error (dump_camera_fields c) (\<lambda>save_class.
     Inr (JObj (save_class @
            [(''target_1_pos_x'', target_1_pos_x c),
             (''target_1_pos_y'', target_1_pos_y c),
             (''target_1_pos_z'', target_1_pos_z c),
             (''target_1_rot_x'', target_1_rot_x c),
             (''target_1_rot_y'', target_1_rot_y c),
             (''target_1_rot_z'', target_1_rot_z c),
             (''target_2_pos_x'', target_2_pos_x c),
             (''target_2_pos_y'', target_2_pos_y c),
             (''target_2_pos_z'', target_2_pos_z c),
             (''target_2_rot_x'', target_2_rot_x c),
             (''target_2_rot_y'', target_2_rot_y c),
             (''target_2_rot_z'', target_2_rot_z c)])))"

text \<open>
  \<^verbatim>\<open>TargetParameters\<close> and the generalized \<^verbatim>\<open>Calibration\<close>: a reference camera, a
  list of target poses and a list of additional cameras.
  \<^verbatim>\<open>
  def __init__(self, nb_targets=1, nb_cameras=1,
               cameras_origin_axis=((1., 0., 0.), (0., 0., -1.), (0., 1., 0.)),
               targets_origin_axis=..., clockwise_rotation=True):
      CalibrationCamera.__init__(self)
      self._cameras_origin_axis = cameras_origin_axis
      self.clockwise = clockwise_rotation
      self._nb_targets = nb_targets
      self._targets_parameters = [TargetParameters() for i in range(nb_targets)]
      self._nb_others = nb_cameras - 1
      self._others = [CalibrationCamera() for i in range(self._nb_others)]
  \<close>
  The counts are natural numbers. \<^verbatim>\<open>_nb_others\<close> is only ever used as
  \<^verbatim>\<open>range(self._nb_others)\<close>, which is the length of \<^verbatim>\<open>_others\<close>; the attribute
  \<^verbatim>\<open>_targets_origin_axis\<close> is never read. The observations and corner layouts that
  \<^verbatim>\<open>calibrate\<close> stores on the object for the time of the fit are arguments of the
  modelled objective instead.
\<close>

text \<open>The attributes \<^verbatim>\<open>_pos_x\<close>, ..., \<^verbatim>\<open>_rot_z\<close> of \<^verbatim>\<open>TargetParameters\<close> are the fields
  \<open>tp_pos_x\<close>, ..., \<open>tp_rot_z\<close>.\<close>

record target_parameters =
  tp_pos_x :: json
  tp_pos_y :: json
  tp_pos_z :: json
  tp_rot_x :: json
  tp_rot_y :: json
  tp_rot_z :: json

definition TargetParameters_init :: target_parameters where
  "TargetParameters_init =
     \<lparr>tp_pos_x = JNull, tp_pos_y = JNull, tp_pos_z = JNull,
      tp_rot_x = JNull, tp_rot_y = JNull, tp_rot_z = JNull\<rparr>"

record calibration = calibration_camera +
  cameras_origin_axis :: mat3
  clockwise :: bool
  nb_targets :: nat
  targets_parameters :: "target_parameters list"
  others :: "calibration_camera list"

definition default_cameras_origin_axis :: mat3 where
  "default_cameras_origin_axis = ((1, 0, 0), (0, 0, -1), (0, 1, 0))"

definition Calibration_init :: "nat \<Rightarrow> nat \<Rightarrow> mat3 \<Rightarrow> bool \<Rightarrow> calibration" where
  "Calibration_init n_targets n_cameras axes clockwise_rotation =
     \<lparr>cam_width_image = JNull, cam_height_image = JNull,
      cam_focal_length_x = JNull, cam_focal_length_y = JNull,
      cam_pos_x = JNull, cam_pos_y = JNull, cam_pos_z = JNull,
      cam_rot_x = JNull, cam_rot_y = JNull, cam_rot_z = JNull,
      angle_factor = JNull, cam_origin_axis = None,
      cameras_origin_axis = axes,
      clockwise = clockwise_rotation,
      nb_targets = n_targets,
      targets_parameters = replicate n_targets TargetParameters_init,
      others = replicate (n_cameras - 1) CalibrationCamera_init\<rparr>"

text \<open>
  \<^verbatim>\<open>
  def dump(self, filename):
      ... (the twelve camera entries)
      save_class['targets_parameters'] = [t.__dict__ for t in self._targets_parameters]
  \<close>
  The additional cameras \<^verbatim>\<open>self._others\<close> are not written.
\<close>

definition target_dict :: "target_parameters \<Rightarrow> json" where
  "target_dict t =
     JObj [(''_pos_x'', tp_pos_x t), (''_pos_y'', tp_pos_y t), (''_pos_z'', tp_pos_z t),
           (''_rot_x'', tp_rot_x t), (''_rot_y'', tp_rot_y t), (''_rot_z'', tp_rot_z t)]"

definition Calibration_dump :: "calibration \<Rightarrow> error + json" where
  "Calibration_dump c =
     bind_error (dump_camera_fields c) (\<lambda>save_class.
     Inr (JObj (save_class @
            [(''targets_parameters'', JArr (map target_dict (targets_parameters c)))])))"

text \<open>\<^verbatim>\<open>len(v)\<close> and \<^verbatim>\<open>for x in v\<close> on a value read from the file.\<close>

fun json_len :: "json \<Rightarrow> error + nat" where
  "json_len (JArr vs) = Inr (length vs)"
| "json_len (JStr s) = Inr (length s)"
| "json_len (JObj kvs) = Inr (length kvs)"
| "json_len _ = Inl TypeError"

fun json_iter :: "json \<Rightarrow> json list" where
  "json_iter (JArr vs) = vs"
| "json_iter (JStr s) = map (\<lambda>ch. JStr [ch]) s"
| "json_iter (JObj kvs) = map (\<lambda>kv. JStr (fst kv)) kvs"
| "json_iter _ = []"

definition load_target :: "json \<Rightarrow> error + target_parameters" where
  "load_target target_param =
     bind_error (json_getitem target_param ''_pos_x'') (\<lambda>v_pos_x.
     bind_error (json_getitem target_param ''_pos_y'') (\<lambda>v_pos_y.
     bind_error (json_getitem target_param ''_pos_z'') (\<lambda>v_pos_z.
     bind_error (json_getitem target_param ''_rot_x'') (\<lambda>v_rot_x.
     bind_error (json_getitem target_param ''_rot_y'') (\<lambda>v_rot_y.
     bind_error (json_getitem target_param ''_rot_z'') (\<lambda>v_rot_z.
     Inr \<lparr>tp_pos_x = v_pos_x, tp_pos_y = v_pos_y, tp_pos_z = v_pos_z,
          tp_rot_x = v_rot_x, tp_rot_y = v_rot_y, tp_rot_z = v_rot_z\<rparr>))))))"

fun load_targets :: "json list \<Rightarrow> error + target_parameters list" where
  "load_targets [] = Inr []"
| "load_targets (target_param # rest) =
     bind_error (load_target target_param) (\<lambda>tp.
     bind_error (load_targets rest) (\<lambda>tps. Inr (tp # tps)))"

text \<open>
  \<^verbatim>\<open>
  def load(filename):
      c = Calibration(len(save_class['targets_parameters']))
      ... (the twelve camera assignments)
      c._targets_parameters = list()
      for target_param in save_class['targets_parameters']:
          tp = TargetParameters()
          tp._pos_x = target_param["_pos_x"]
          ...
          c._targets_parameters.append(tp)
      return c
  \<close>
  The object is built with the default \<^verbatim>\<open>nb_cameras=1\<close>, origin axes and direction.
\<close>

definition Calibration_load :: "(real \<Rightarrow> real) \<Rightarrow> json \<Rightarrow> error + calibration" where
  "Calibration_load float32 save_class =
     bind_error (json_getitem save_class ''targets_parameters'') (\<lambda>targets.
     bind_error (json_len targets) (\<lambda>n.
     bind_error (load_camera_fields float32 save_class
                   (Calibration_init n 1 default_cameras_origin_axis True)) (\<lambda>c.
     bind_error (load_targets (json_iter targets)) (\<lambda>tps.
     Inr (c\<lparr>targets_parameters := tps\<rparr>)))))"

text \<open>The keys every loader requires of a camera record.\<close>

definition required_keys :: "string list" where
  "required_keys =
     [''cam_width_image'', ''cam_height_image'', ''cam_focal_length_x'',
      ''cam_focal_length_y'', ''cam_pos_x'', ''cam_pos_y'', ''cam_pos_z'',
      ''cam_rot_x'', ''cam_rot_y'', ''cam_rot_z'', ''angle_factor'', ''cam_origin_axis'']"

section \<open>Parameter vectors\<close>

text \<open>
  A flat parameter vector (a Python list, or the numpy array the optimizer returns) is
  a list of reals. \<^verbatim>\<open>xs[i]\<close> out of range raises IndexError; a slice \<^verbatim>\<open>xs[a:b]\<close> is
  clipped to the vector; unpacking a sequence into \<open>n\<close> names raises ValueError unless
  it has exactly \<open>n\<close> elements.
\<close>

definition getitem_list :: "'a list \<Rightarrow> nat \<Rightarrow> error + 'a" where
  "getitem_list xs i = (if i < length xs then Inr (xs ! i) else Inl IndexError)"

definition py_slice :: "'a list \<Rightarrow> nat \<Rightarrow> nat \<Rightarrow> 'a list" where
  "py_slice xs a b = take (b - a) (drop a xs)"

fun unpack6 :: "real list \<Rightarrow> error + real \<times> real \<times> real \<times> real \<times> real \<times> real" where
  "unpack6 [a, b, c, d, e, f] = Inr (a, b, c, d, e, f)"
| "unpack6 _ = Inl ValueError"

fun unpack7 ::
  "real list \<Rightarrow> error + real \<times> real \<times> real \<times> real \<times> real \<times> real \<times> real" where
  "unpack7 [a, b, c, d, e, f, g] = Inr (a, b, c, d, e, f, g)"
| "unpack7 _ = Inl ValueError"

fun unpack8 ::
  "real list \<Rightarrow> error + real \<times> real \<times> real \<times> real \<times> real \<times> real \<times> real \<times> real" where
  "unpack8 [a, b, c, d, e, f, g, h] = Inr (a, b, c, d, e, f, g, h)"
| "unpack8 _ = Inl ValueError"

text \<open>A loop that adds the value of its body to \<^verbatim>\<open>err\<close>.\<close>

fun sum_errors :: "('a \<Rightarrow> error + real) \<Rightarrow> 'a list \<Rightarrow> error + real" where
  "sum_errors f [] = Inr 0"
| "sum_errors f (x # xs) =
     bind_error (f x) (\<lambda>e. bind_error (sum_errors f xs) (\<lambda>r. Inr (e + r)))"

section \<open>The multi-start search\<close>

text \<open>
  \<^verbatim>\<open>
  def find_parameters(self, number_of_repetition):
      best_parameters = None
      min_err = float('inf')
      for i in range(number_of_repetition + 1):
          ... (the initial guess, with draws of numpy.random.uniform)
          parameters = scipy.optimize.minimize(
              self.fit_function, parameters, method='BFGS').x
          err = self.fit_function(parameters)
          if err < min_err:
              min_err = err
              best_parameters = parameters
      return best_parameters
  \<close>
  The loop is the same in every variant; the variants differ in the initial guess.

  The value of the objective is compared as a float, so here it is a float with its
  special values: a sum of distances is \<^verbatim>\<open>inf\<close> or \<^verbatim>\<open>nan\<close> when a projected point has
  \<open>z = 0\<close> or an observation is \<^verbatim>\<open>nan\<close>. \<^verbatim>\<open><\<close> is the comparison of floats: false
  whenever one side is \<^verbatim>\<open>nan\<close>.
\<close>

datatype pyfloat = Finite real | PosInf | NegInf | NaN

fun float_less :: "pyfloat \<Rightarrow> pyfloat \<Rightarrow> bool" where
  "float_less (Finite a) (Finite b) = (a < b)"
| "float_less (Finite a) PosInf = True"
| "float_less NegInf (Finite b) = True"
| "float_less NegInf PosInf = True"
| "float_less _ _ = False"

text \<open>
  The model takes as parameters the objective \<open>fit_function\<close> (the method
  \<^verbatim>\<open>self.fit_function\<close> on the object's observations: it returns a float or raises),
  the library minimizer \<open>minimize\<close> (\<^verbatim>\<open>scipy.optimize.minimize(...).x\<close>: it calls the
  objective, so it returns the converged vector or raises) and the initial guess
  \<open>initial\<close>, which draws from the random generator; the state \<open>g\<close> of the generator is
  threaded through the loop. An exception leaves the loop at once. The loop state is
  \<open>(best_parameters, min_err, g)\<close>; \<open>find_parameters\<close> returns \<open>best_parameters\<close>
  (\<open>None\<close> for \<^verbatim>\<open>None\<close>), here together with the state of the generator it leaves
  behind.
\<close>

fun find_parameters_loop ::
  "(real list \<Rightarrow> error + pyfloat)
     \<Rightarrow> ((real list \<Rightarrow> error + pyfloat) \<Rightarrow> real list \<Rightarrow> error + real list)
     \<Rightarrow> ('g \<Rightarrow> real list \<times> 'g) \<Rightarrow> nat
     \<Rightarrow> real list option \<times> pyfloat \<times> 'g
     \<Rightarrow> error + real list option \<times> pyfloat \<times> 'g" where
  "find_parameters_loop fit_function minimize initial 0 st = Inr st"
| "find_parameters_loop fit_function minimize initial (Suc k) (best_parameters, min_err, g) =
     (let (parameters, g') = initial g
      in bind_error (minimize fit_function parameters) (\<lambda>parameters.
         bind_error (fit_function parameters) (\<lambda>err.
         let (best_parameters, min_err) =
               (if float_less err min_err then (Some parameters, err)
                else (best_parameters, min_err))
         in find_parameters_loop fit_function minimize initial k
              (best_parameters, min_err, g'))))"

text \<open>\<^verbatim>\<open>range(number_of_repetition + 1)\<close> is empty for a negative bound.\<close>

definition find_parameters_run ::
  "(real list \<Rightarrow> error + pyfloat)
     \<Rightarrow> ((real list \<Rightarrow> error + pyfloat) \<Rightarrow> real list \<Rightarrow> error + real list)
     \<Rightarrow> ('g \<Rightarrow> real list \<times> 'g) \<Rightarrow> int \<Rightarrow> 'g
     \<Rightarrow> error + real list option \<times> 'g" where
  "find_parameters_run fit_function minimize initial number_of_repetition g =
     bind_error
       (find_parameters_loop fit_function minimize initial (nat (number_of_repetition + 1))
          (None, PosInf, g))
       (\<lambda>st. case st of (best_parameters, min_err, g') \<Rightarrow> Inr (best_parameters, g'))"

text \<open>
  \<^verbatim>\<open>CalibrationCameraTop.find_parameters\<close>: the initial guess is
  \<^verbatim>\<open>
          cam_focal_length_x = numpy.random.uniform(0.0, 10000.0)
          cam_focal_length_y = numpy.random.uniform(0.0, 10000.0)
          cam_pos_x = numpy.random.uniform(-500.0, 500.0)
          cam_pos_y = numpy.random.uniform(-500.0, 500.0)
          cam_pos_z = numpy.random.uniform(0.0, 10000.0)
          cam_rot_x = 0.0; cam_rot_y = 0.0; cam_rot_z = 0.0
          parameters = [cam_focal_length_x, cam_focal_length_y,
                        cam_pos_x, cam_pos_y, cam_pos_z,
                        cam_rot_x, cam_rot_y, cam_rot_z]
  \<close>
\<close>

definition CalibrationCameraTop_initial ::
  "(real \<Rightarrow> real \<Rightarrow> 'g \<Rightarrow> real \<times> 'g) \<Rightarrow> 'g \<Rightarrow> real list \<times> 'g" where
  "CalibrationCameraTop_initial uniform g0 =
     (let (cam_focal_length_x, g1) = uniform 0 10000 g0;
          (cam_focal_length_y, g2) = uniform 0 10000 g1;
          (cam_pos_x, g3) = uniform (- 500) 500 g2;
          (cam_pos_y, g4) = uniform (- 500) 500 g3;
          (cam_pos_z, g5) = uniform 0 10000 g4
      in ([cam_focal_length_x, cam_focal_length_y, cam_pos_x, cam_pos_y, cam_pos_z, 0, 0, 0],
          g5))"

definition CalibrationCameraTop_find_parameters ::
  "(real list \<Rightarrow> error + pyfloat)
     \<Rightarrow> ((real list \<Rightarrow> error + pyfloat) \<Rightarrow> real list \<Rightarrow> error + real list)
     \<Rightarrow> (real \<Rightarrow> real \<Rightarrow> 'g \<Rightarrow> real \<times> 'g) \<Rightarrow> int \<Rightarrow> 'g
     \<Rightarrow> error + real list option \<times> 'g" where
  "CalibrationCameraTop_find_parameters fit_function minimize uniform number_of_repetition g =
     find_parameters_run fit_function minimize (CalibrationCameraTop_initial uniform)
       number_of_repetition g"

text \<open>
  \<^verbatim>\<open>Calibration.find_parameters\<close>: the initial guess is
  \<^verbatim>\<open>
          parameters = [5500, 5500, -5500, 0.0, 0.0, 0.0, 1.0]
          for i in range(self._nb_targets):
              parameters += [numpy.random.uniform(-1000.0, 1000.0),  # X Position
                             numpy.random.uniform(-1000.0, 1000.0),  # Y Position
                             numpy.random.uniform(-1000, 1000.0),  # Z Position
                             numpy.pi / 2, 0, 0]
          for i in range(self._nb_others):
              parameters += [numpy.random.uniform(1000.0, 10000.0),  # focal length X
                             numpy.random.uniform(1000.0, 10000.0),  # focal length Y
                             numpy.random.uniform(-200.0, 200.0),  # X Position
                             numpy.random.uniform(-200.0, 500.0),  # Y Position
                             numpy.random.uniform(0, 5000.0),  # Z Position
                             0, 0, 0]
  \<close>
\<close>

fun initial_targets ::
  "(real \<Rightarrow> real \<Rightarrow> 'g \<Rightarrow> real \<times> 'g) \<Rightarrow> nat \<Rightarrow> real list \<times> 'g \<Rightarrow> real list \<times> 'g" where
  "initial_targets uniform 0 st = st"
| "initial_targets uniform (Suc n) (parameters, g0) =
     (let (x, g1) = uniform (- 1000) 1000 g0;
          (y, g2) = uniform (- 1000) 1000 g1;
          (z, g3) = uniform (- 1000) 1000 g2
      in initial_targets uniform n (parameters @ [x, y, z, pi / 2, 0, 0], g3))"

fun initial_others ::
  "(real \<Rightarrow> real \<Rightarrow> 'g \<Rightarrow> real \<times> 'g) \<Rightarrow> nat \<Rightarrow> real list \<times> 'g \<Rightarrow> real list \<times> 'g" where
  "initial_others uniform 0 st = st"
| "initial_others uniform (Suc n) (parameters, g0) =
     (let (fx, g1) = uniform 1000 10000 g0;
          (fy, g2) = uniform 1000 10000 g1;
          (x, g3) = uniform (- 200) 200 g2;
          (y, g4) = uniform (- 200) 500 g3;
          (z, g5) = uniform 0 5000 g4
      in initial_others uniform n (parameters @ [fx, fy, x, y, z, 0, 0, 0], g5))"

definition Calibration_initial ::
  "(real \<Rightarrow> real \<Rightarrow> 'g \<Rightarrow> real \<times> 'g) \<Rightarrow> calibration \<Rightarrow> 'g \<Rightarrow> real list \<times> 'g" where
  "Calibration_initial uniform c g =
     initial_others uniform (length (others c))
       (initial_targets uniform (nb_targets c) ([5500, 5500, - 5500, 0, 0, 0, 1], g))"

definition Calibration_find_parameters ::
  "(real list \<Rightarrow> error + pyfloat)
     \<Rightarrow> ((real list \<Rightarrow> error + pyfloat) \<Rightarrow> real list \<Rightarrow> error + real list)
     \<Rightarrow> (real \<Rightarrow> real \<Rightarrow> 'g \<Rightarrow> real \<times> 'g) \<Rightarrow> calibration \<Rightarrow> int \<Rightarrow> 'g
     \<Rightarrow> error + real list option \<times> 'g" where
  "Calibration_find_parameters fit_function minimize uniform c number_of_repetition g =
     find_parameters_run fit_function minimize (Calibration_initial uniform c)
       number_of_repetition g"

section \<open>The objective of the generalized calibration\<close>

text \<open>
  \<^verbatim>\<open>err += numpy.linalg.norm(numpy.array(pts) - ref_pts, axis=1).sum()\<close>: the sum of
  the distances between projected and observed corners. The subtraction needs as many
  projected as observed rows, or a single row on one side (which numpy broadcasts);
  otherwise it raises ValueError.
\<close>

definition distance_2d :: "real \<times> real \<Rightarrow> real \<times> real \<Rightarrow> real" where
  "distance_2d p q = sqrt ((fst p - fst q)\<^sup>2 + (snd p - snd q)\<^sup>2)"

definition residual :: "(real \<times> real) list \<Rightarrow> (real \<times> real) list \<Rightarrow> error + real" where
  "residual pts ref_pts =
     (if length pts = length ref_pts then Inr (sum_list (map2 distance_2d pts ref_pts))
      else if length ref_pts = 1 then Inr (sum_list (map (\<lambda>p. distance_2d p (hd ref_pts)) pts))
      else if length pts = 1 then Inr (sum_list (map (\<lambda>q. distance_2d (hd pts) q) ref_pts))
      else Inl ValueError)"

text \<open>
  The slices of \<^verbatim>\<open>Calibration.fit_function\<close>:
  \<^verbatim>\<open>
      cam_focal_length_x, cam_focal_length_y, cam_pos_y, \
      cam_rot_x, cam_rot_y, cam_rot_z, angle_factor = x0[0:7]
      pos_x, pos_y, pos_z, rot_x, rot_y, rot_z = x0[7 + i * 6: 13 + i * 6]
      offset = 7 + self._nb_targets * 6
      cam_focal_length_x, cam_focal_length_y, cam_pos_x, cam_pos_y, cam_pos_z, \
      cam_rot_x, cam_rot_y, cam_rot_z = x0[offset + i * 8: offset + i * 8 + 8]
  \<close>
\<close>

definition fit_unpack_reference ::
  "real list \<Rightarrow> error + real \<times> real \<times> real \<times> real \<times> real \<times> real \<times> real" where
  "fit_unpack_reference x0 = unpack7 (py_slice x0 0 7)"

definition fit_unpack_target ::
  "real list \<Rightarrow> nat \<Rightarrow> error + real \<times> real \<times> real \<times> real \<times> real \<times> real" where
  "fit_unpack_target x0 i = unpack6 (py_slice x0 (7 + i * 6) (13 + i * 6))"

definition fit_unpack_other ::
  "calibration \<Rightarrow> real list \<Rightarrow> nat
     \<Rightarrow> error + real \<times> real \<times> real \<times> real \<times> real \<times> real \<times> real \<times> real" where
  "fit_unpack_other c x0 i =
     (let offset = 7 + nb_targets c * 6
      in unpack8 (py_slice x0 (offset + i * 8) (offset + i * 8 + 8)))"

text \<open>
  The body of the two innermost loops: one observed angle \<open>alpha\<close> with its detected
  corners \<open>ref_pts\<close>, seen by the camera with frame \<open>fr_cam\<close>, image size and focal lengths
  given, for the target with the unpacked pose and the corner layout number \<open>layout\<close>.
  \<^verbatim>\<open>
      alpha *= angle_factor
      if self.clockwise:
          alpha *= -1  # alpha labels of ref_pts dict are positive
      fr_target = CalibrationCamera.target_frame(pos_x, pos_y, pos_z,
                                                 rot_x, rot_y, rot_z,
                                                 numpy.radians(alpha))
      target_pts = fr_target.global_point(self._targets_points_local_3d[layout])
      pts = CalibrationCamera.pixel_coordinates(fr_cam.local_point(target_pts),
          width_image, height_image, cam_focal_length_x, cam_focal_length_y)
      err += numpy.linalg.norm(numpy.array(pts) - ref_pts, axis=1).sum()
  \<close>
\<close>

definition observation_error ::
  "calibration \<Rightarrow> vec3 list list \<Rightarrow> frame \<Rightarrow> json \<Rightarrow> json \<Rightarrow> real \<Rightarrow> real \<Rightarrow> real
     \<Rightarrow> real \<times> real \<times> real \<times> real \<times> real \<times> real \<Rightarrow> nat
     \<Rightarrow> real \<times> (real \<times> real) list \<Rightarrow> error + real" where
  "observation_error c targets_points_local_3d fr_cam width_image height_image
     focal_length_x focal_length_y factor pose layout observation =
     (case pose of (pos_x, pos_y, pos_z, rot_x, rot_y, rot_z) \<Rightarrow>
      case observation of (alpha, ref_pts) \<Rightarrow>
      let alpha = alpha * factor;
          alpha = (if clockwise c then alpha * (- 1) else alpha);
          fr_target = target_frame pos_x pos_y pos_z rot_x rot_y rot_z (radians alpha)
      in bind_error (getitem_list targets_points_local_3d layout) (\<lambda>local_3d.
         let target_pts = global_points fr_target local_3d
         in bind_error (num width_image) (\<lambda>w.
            bind_error (num height_image) (\<lambda>h.
            let pts = pixel_coordinates_batch (local_points fr_cam target_pts)
                        w h focal_length_x focal_length_y
            in residual pts ref_pts))))"

text \<open>
  \<^verbatim>\<open>
  def fit_function(self, x0):
      err = 0
      cam_pos_x = 0.0
      cam_pos_z = 0.0
      cam_origin_axis_ = cam_origin_axis(self._cameras_origin_axis)
      (the reference camera's seven values) = x0[0:7]
      fr_cam = CalibrationCamera.camera_frame(
          cam_pos_x, cam_pos_y, cam_pos_z, cam_rot_x, cam_rot_y, cam_rot_z,
          cam_origin_axis_)
      for i in range(self._nb_targets):
          for alpha, ref_pts in self._ref_targets_points_2d[i].items():
              pos_x, pos_y, pos_z, rot_x, rot_y, rot_z = x0[7 + i * 6: 13 + i * 6]
              ...
              target_pts = fr_target.global_point(self._targets_points_local_3d[i])
              pts = CalibrationCamera.pixel_coordinates(fr_cam.local_point(target_pts),
                  self._cam_width_image, self._cam_height_image,
                  cam_focal_length_x, cam_focal_length_y)
              err += ...
      offset = 7 + self._nb_targets * 6
      for i, camera in enumerate(self._others):
          (the camera's eight values) = x0[offset + i * 8: offset + i * 8 + 8]
          fr_cam = CalibrationCamera.camera_frame(
              cam_pos_x, cam_pos_y, cam_pos_z, cam_rot_x, cam_rot_y, cam_rot_z,
              cam_origin_axis_)
          for j in range(self._nb_targets):
              pos_x, pos_y, pos_z, rot_x, rot_y, rot_z = x0[7 + j * 6: 13 + j * 6]
              for alpha, ref_pts in self._others_targets_points_2d[i][j].items():
                  ...
                  target_pts = fr_target.global_point(self._targets_points_local_3d[i])
                  pts = self.pixel_coordinates(fr_cam.local_point(target_pts),
                                               self._others[i]._cam_width_image,
                                               self._others[i]._cam_height_image,
                                               cam_focal_length_x, cam_focal_length_y)
                  err += ...
      return err
  \<close>
  The corner layouts \<open>targets_points_local_3d\<close> (one per target) and the observations
  \<open>ref_targets_points_2d\<close> (per target, a dict from angle to detected corners) and
  \<open>others_targets_points_2d\<close> (per additional camera and target) are the attributes
  \<^verbatim>\<open>calibrate\<close> stores before the fit. A dict is an association list in iteration
  order. In the loop over the additional cameras the layout is indexed with the camera
  number \<open>i\<close>, as in the source. The local names \<^verbatim>\<open>cam_focal_length_x\<close>,
  \<^verbatim>\<open>cam_pos_x\<close>, \<^verbatim>\<open>cam_rot_x\<close>, ... are \<open>focal_length_x\<close>, \<open>c_pos_x\<close>, \<open>c_rot_x\<close>, ...
  here, the source's names being the attributes of the camera object, and
  \<^verbatim>\<open>cam_origin_axis_\<close> is \<open>origin_axis4\<close>.
\<close>

definition Calibration_fit_function ::
  "calibration \<Rightarrow> vec3 list list \<Rightarrow> (real \<times> (real \<times> real) list) list list
     \<Rightarrow> (real \<times> (real \<times> real) list) list list list \<Rightarrow> real list \<Rightarrow> error + real" where
  "Calibration_fit_function c targets_points_local_3d ref_targets_points_2d
     others_targets_points_2d x0 =
     (let c_pos_x = 0; c_pos_z = 0;
          origin_axis4 = cam_origin_axis_from_axes (cameras_origin_axis c)
      in bind_error (fit_unpack_reference x0) (\<lambda>reference.
         case reference of
           (focal_length_x, focal_length_y, c_pos_y,
            c_rot_x, c_rot_y, c_rot_z, factor) \<Rightarrow>
         let fr_cam = camera_frame c_pos_x c_pos_y c_pos_z
                        c_rot_x c_rot_y c_rot_z origin_axis4
         in bind_error
              (sum_errors (\<lambda>i.
                 bind_error (getitem_list ref_targets_points_2d i) (\<lambda>observations.
                 sum_errors (\<lambda>observation.
                   bind_error (fit_unpack_target x0 i) (\<lambda>pose.
                   observation_error c targets_points_local_3d fr_cam
                     (cam_width_image c) (cam_height_image c)
                     focal_length_x focal_length_y factor pose i observation))
                   observations))
                 [0 ..< nb_targets c]) (\<lambda>err_reference.
            bind_error
              (sum_errors (\<lambda>(i, camera).
                 bind_error (fit_unpack_other c x0 i) (\<lambda>other.
                 case other of
                   (focal_length_x, focal_length_y, c_pos_x, c_pos_y, c_pos_z,
                    c_rot_x, c_rot_y, c_rot_z) \<Rightarrow>
                 let fr_cam = camera_frame c_pos_x c_pos_y c_pos_z
                                c_rot_x c_rot_y c_rot_z origin_axis4
                 in sum_errors (\<lambda>j.
                      bind_error (fit_unpack_target x0 j) (\<lambda>pose.
                      bind_error (getitem_list others_targets_points_2d i) (\<lambda>per_target.
                      bind_error (getitem_list per_target j) (\<lambda>observations.
                      sum_errors (\<lambda>observation.
                        observation_error c targets_points_local_3d fr_cam
                          (cam_width_image camera) (cam_height_image camera)
                          focal_length_x focal_length_y factor pose i observation)
                        observations))))
                      [0 ..< nb_targets c]))
                 (enumerate 0 (others c))) (\<lambda>err_others.
            Inr (err_reference + err_others)))))"

section \<open>calibrate: storing the fitted parameters\<close>

text \<open>
  \<^verbatim>\<open>for i in [...]: parameters[i] %= math.pi * 2.0\<close> on the array the search returned.
\<close>

fun wrap_rotations :: "nat list \<Rightarrow> real list \<Rightarrow> error + real list" where
  "wrap_rotations [] parameters = Inr parameters"
| "wrap_rotations (i # rest) parameters =
     (if i < length parameters
      then wrap_rotations rest (parameters[i := py_fmod (parameters ! i) (pi * 2)])
      else Inl IndexError)"

text \<open>
  \<^verbatim>\<open>CalibrationCameraTop.calibrate\<close>, from the vector \<open>parameters\<close> that
  \<^verbatim>\<open>self.find_parameters(number_of_repetition)\<close> returned:
  \<^verbatim>\<open>
      self._angle_factor = angle_factor
      self._cam_width_image = size_image[0]
      self._cam_height_image = size_image[1]
      parameters = self.find_parameters(number_of_repetition)
      for i in [5, 6, 7]:
          parameters[i] %= math.pi * 2.0
      self._cam_focal_length_x = parameters[0]
      self._cam_focal_length_y = parameters[1]
      self._cam_pos_x = parameters[2]
      self._cam_pos_y = parameters[3]
      self._cam_pos_z = parameters[4]
      self._cam_rot_x = parameters[5]
      self._cam_rot_y = parameters[6]
      self._cam_rot_z = parameters[7]
  \<close>
  After the wrapping loop has passed, the indices of the assignments are in range.
  The model returns the object; the mean error that \<^verbatim>\<open>calibrate\<close> returns is not
  modelled.
\<close>

definition CalibrationCameraTop_calibrate ::
  "calibration_camera \<Rightarrow> real \<times> real \<Rightarrow> real \<Rightarrow> real list \<Rightarrow> error + calibration_camera" where
  "CalibrationCameraTop_calibrate c size_image factor parameters =
     bind_error (wrap_rotations [5, 6, 7] parameters) (\<lambda>parameters.
     Inr (c\<lparr>angle_factor := JNum factor,
            cam_width_image := JNum (fst size_image),
            cam_height_image := JNum (snd size_image),
            cam_focal_length_x := JNum (parameters ! 0),
            cam_focal_length_y := JNum (parameters ! 1),
            cam_pos_x := JNum (parameters ! 2),
            cam_pos_y := JNum (parameters ! 3),
            cam_pos_z := JNum (parameters ! 4),
            cam_rot_x := JNum (parameters ! 5),
            cam_rot_y := JNum (parameters ! 6),
            cam_rot_z := JNum (parameters ! 7)\<rparr>))"

text \<open>
  \<^verbatim>\<open>CalibrationCameraSideWith2TargetYXZ.calibrate\<close>: the vector has the layout of
  its \<^verbatim>\<open>fit_function\<close>,
  \<^verbatim>\<open>
      cam_focal_length_x, cam_focal_length_y, cam_pos_x, cam_pos_y,
      cam_rot_x, cam_rot_z, angle_factor,
      target_1_pos_x, target_1_pos_y, target_1_pos_z,
      target_1_rot_x, target_1_rot_y, target_1_rot_z,
      target_2_pos_x, target_2_pos_y, target_2_pos_z,
      target_2_rot_x, target_2_rot_y, target_2_rot_z = x0
  \<close>
  and is stored by
  \<^verbatim>\<open>
      for i in [4, 6, 10, 11, 12, 16, 17, 18]:
          parameters[i] %= math.pi * 2.0
      self._cam_focal_length_x = parameters[0]
      self._cam_focal_length_y = parameters[1]
      self._cam_pos_x = parameters[2]
      self._cam_pos_y = parameters[3]
      self._cam_rot_x = parameters[4]
      self._cam_rot_z = parameters[5]
      self._angle_factor = parameters[6]
      self._target_1_pos_x = parameters[7]
      ...
      self._target_2_rot_z = parameters[18]
  \<close>
\<close>

definition CalibrationCameraSideWith2TargetYXZ_calibrate ::
  "calibration_yxz \<Rightarrow> real \<times> real \<Rightarrow> real list \<Rightarrow> error + calibration_yxz" where
  "CalibrationCameraSideWith2TargetYXZ_calibrate c size_image parameters =
     bind_error (wrap_rotations [4, 6, 10, 11, 12, 16, 17, 18] parameters) (\<lambda>parameters.
     Inr (c\<lparr>cam_width_image := JNum (fst size_image),
            cam_height_image := JNum (snd size_image),
            cam_focal_length_x := JNum (parameters ! 0),
            cam_focal_length_y := JNum (parameters ! 1),
            cam_pos_x := JNum (parameters ! 2),
            cam_pos_y := JNum (parameters ! 3),
            cam_rot_x := JNum (parameters ! 4),
            cam_rot_z := JNum (parameters ! 5),
            angle_factor := JNum (parameters ! 6),
            target_1_pos_x := JNum (parameters ! 7),
            target_1_pos_y := JNum (parameters ! 8),
            target_1_pos_z := JNum (parameters ! 9),
            target_1_rot_x := JNum (parameters ! 10),
            target_1_rot_y := JNum (parameters ! 11),
            target_1_rot_z := JNum (parameters ! 12),
            target_2_pos_x := JNum (parameters ! 13),
            target_2_pos_y := JNum (parameters ! 14),
            target_2_pos_z := JNum (parameters ! 15),
            target_2_rot_x := JNum (parameters ! 16),
            target_2_rot_y := JNum (parameters ! 17),
            target_2_rot_z := JNum (parameters ! 18)\<rparr>))"

text \<open>
  \<^verbatim>\<open>Calibration.calibrate\<close>. Python reads \<^verbatim>\<open>p % math.pi * 2.0\<close> as
  \<^verbatim>\<open>(p % math.pi) * 2.0\<close>.
  \<^verbatim>\<open>
      self._cam_width_image = size_image[0]
      self._cam_height_image = size_image[1]
      for i, (image_size, targets_points_2d) in enumerate(other_cameras):
          camera = self._others[i]
          camera._cam_width_image = image_size[0]
          camera._cam_height_image = image_size[1]
      parameters = self.find_parameters(number_of_repetition)
      self._cam_focal_length_x = parameters[0]
      self._cam_focal_length_y = parameters[1]
      self._cam_pos_y = parameters[2]
      self._cam_rot_x = parameters[3] % math.pi * 2.0
      self._cam_rot_y = parameters[4] % math.pi * 2.0
      self._cam_rot_z = parameters[5] % math.pi * 2.0
      self._angle_factor = parameters[6]
      for i, target_param in enumerate(self._targets_parameters):
          target_param._pos_x = parameters[7 + i * 6]
          target_param._pos_y = parameters[8 + i * 6]
          target_param._pos_z = parameters[9 + i * 6]
          target_param._rot_x = parameters[10 + i * 6] % math.pi * 2.0
          target_param._rot_y = parameters[11 + i * 6] % math.pi * 2.0
          target_param._rot_z = parameters[12 + i * 6] % math.pi * 2.0
      offset = 7 + self._nb_targets * 6
      for i, camera in enumerate(self._others):
          camera._cam_focal_length_x = parameters[offset + i * 8]
          camera._cam_focal_length_y = parameters[offset + i * 8 + 1]
          camera._cam_pos_x = parameters[offset + i * 8 + 2]
          camera._cam_pos_y = parameters[offset + i * 8 + 3]
          camera._cam_pos_z = parameters[offset + i * 8 + 4]
          camera._cam_rot_x = parameters[offset + i * 8 + 5] % math.pi * 2.0
          camera._cam_rot_y = parameters[offset + i * 8 + 6] % math.pi * 2.0
          camera._cam_rot_z = parameters[offset + i * 8 + 7] % math.pi * 2.0
          camera._angle_factor = parameters[6]
  \<close>
  \<open>other_image_sizes\<close> lists the image sizes of \<^verbatim>\<open>other_cameras\<close>; more sizes than
  additional cameras raise IndexError at \<^verbatim>\<open>self._others[i]\<close>.
\<close>

fun set_image_sizes ::
  "(real \<times> real) list \<Rightarrow> calibration_camera list \<Rightarrow> error + calibration_camera list" where
  "set_image_sizes [] cameras = Inr cameras"
| "set_image_sizes (image_size # sizes) [] = Inl IndexError"
| "set_image_sizes (image_size # sizes) (camera # cameras) =
     bind_error (set_image_sizes sizes cameras) (\<lambda>rest.
     Inr (camera\<lparr>cam_width_image := JNum (fst image_size),
                  cam_height_image := JNum (snd image_size)\<rparr> # rest))"

definition calibrate_target ::
  "real list \<Rightarrow> nat \<times> target_parameters \<Rightarrow> error + target_parameters" where
  "calibrate_target parameters it =
     (case it of (i, target_param) \<Rightarrow>
      bind_error (getitem_list parameters (7 + i * 6)) (\<lambda>p7.
      bind_error (getitem_list parameters (8 + i * 6)) (\<lambda>p8.
      bind_error (getitem_list parameters (9 + i * 6)) (\<lambda>p9.
      bind_error (getitem_list parameters (10 + i * 6)) (\<lambda>p10.
      bind_error (getitem_list parameters (11 + i * 6)) (\<lambda>p11.
      bind_error (getitem_list parameters (12 + i * 6)) (\<lambda>p12.
      Inr (target_param\<lparr>tp_pos_x := JNum p7, tp_pos_y := JNum p8, tp_pos_z := JNum p9,
                         tp_rot_x := JNum (py_fmod p10 pi * 2),
                         tp_rot_y := JNum (py_fmod p11 pi * 2),
                         tp_rot_z := JNum (py_fmod p12 pi * 2)\<rparr>))))))))"

definition calibrate_other ::
  "real list \<Rightarrow> nat \<Rightarrow> nat \<times> calibration_camera \<Rightarrow> error + calibration_camera" where
  "calibrate_other parameters offset ic =
     (case ic of (i, camera) \<Rightarrow>
      bind_error (getitem_list parameters (offset + i * 8)) (\<lambda>q0.
      bind_error (getitem_list parameters (offset + i * 8 + 1)) (\<lambda>q1.
      bind_error (getitem_list parameters (offset + i * 8 + 2)) (\<lambda>q2.
      bind_error (getitem_list parameters (offset + i * 8 + 3)) (\<lambda>q3.
      bind_error (getitem_list parameters (offset + i * 8 + 4)) (\<lambda>q4.
      bind_error (getitem_list parameters (offset + i * 8 + 5)) (\<lambda>q5.
      bind_error (getitem_list parameters (offset + i * 8 + 6)) (\<lambda>q6.
      bind_error (getitem_list parameters (offset + i * 8 + 7)) (\<lambda>q7.
      bind_error (getitem_list parameters 6) (\<lambda>p6.
      Inr (camera\<lparr>cam_focal_length_x := JNum q0, cam_focal_length_y := JNum q1,
                   cam_pos_x := JNum q2, cam_pos_y := JNum q3, cam_pos_z := JNum q4,
                   cam_rot_x := JNum (py_fmod q5 pi * 2),
                   cam_rot_y := JNum (py_fmod q6 pi * 2),
                   cam_rot_z := JNum (py_fmod q7 pi * 2),
                   angle_factor := JNum p6\<rparr>)))))))))))"

definition Calibration_calibrate ::
  "calibration \<Rightarrow> real \<times> real \<Rightarrow> (real \<times> real) list \<Rightarrow> real list \<Rightarrow> error + calibration" where
  "Calibration_calibrate c size_image other_image_sizes parameters =
     bind_error (set_image_sizes other_image_sizes (others c)) (\<lambda>cameras.
     bind_error (getitem_list parameters 0) (\<lambda>p0.
     bind_error (getitem_list parameters 1) (\<lambda>p1.
     bind_error (getitem_list parameters 2) (\<lambda>p2.
     bind_error (getitem_list parameters 3) (\<lambda>p3.
     bind_error (getitem_list parameters 4) (\<lambda>p4.
     bind_error (getitem_list parameters 5) (\<lambda>p5.
     bind_error (getitem_list parameters 6) (\<lambda>p6.
     bind_error (map_error (calibrate_target parameters)
                   (enumerate 0 (targets_parameters c))) (\<lambda>targets.
     let offset = 7 + nb_targets c * 6
     in bind_error (map_error (calibrate_other parameters offset)
                      (enumerate 0 cameras)) (\<lambda>cameras.
        Inr (c\<lparr>cam_width_image := JNum (fst size_image),
               cam_height_image := JNum (snd size_image),
               cam_focal_length_x := JNum p0,
               cam_focal_length_y := JNum p1,
               cam_pos_y := JNum p2,
               cam_rot_x := JNum (py_fmod p3 pi * 2),
               cam_rot_y := JNum (py_fmod p4 pi * 2),
               cam_rot_z := JNum (py_fmod p5 pi * 2),
               angle_factor := JNum p6,
               targets_parameters := targets,
               others := cameras\<rparr>)))))))))))"

section \<open>Auxiliary definitions for the statements\<close>

text \<open>The lookups of a list of keys, in order, stopping at the first one that raises.\<close>

fun getitems :: "json \<Rightarrow> string list \<Rightarrow> error + json list" where
  "getitems save_class [] = Inr []"
| "getitems save_class (k # ks) =
     bind_error (json_getitem save_class k) (\<lambda>v.
     bind_error (getitems save_class ks) (\<lambda>vs. Inr (v # vs)))"

text \<open>The cast applied to each entry of a 4x4 array.\<close>

fun map_mat4 :: "(real \<Rightarrow> real) \<Rightarrow> mat4 \<Rightarrow> mat4" where
  "map_mat4 f ((a11, a12, a13, a14), (a21, a22, a23, a24),
               (a31, a32, a33, a34), (a41, a42, a43, a44)) =
     ((f a11, f a12, f a13, f a14), (f a21, f a22, f a23, f a24),
      (f a31, f a32, f a33, f a34), (f a41, f a42, f a43, f a44))"

text \<open>The keys and entries that the two-target side camera adds to the camera record.\<close>

definition yxz_target_keys :: "string list" where
  "yxz_target_keys =
     [''target_1_pos_x'', ''target_1_pos_y'', ''target_1_pos_z'',
      ''target_1_rot_x'', ''target_1_rot_y'', ''target_1_rot_z'',
      ''target_2_pos_x'', ''target_2_pos_y'', ''target_2_pos_z'',
      ''target_2_rot_x'', ''target_2_rot_y'', ''target_2_rot_z'']"

definition yxz_target_entries :: "calibration_yxz \<Rightarrow> (string \<times> json) list" where
  "yxz_target_entries c =
     [(''target_1_pos_x'', target_1_pos_x c), (''target_1_pos_y'', target_1_pos_y c),
      (''target_1_pos_z'', target_1_pos_z c), (''target_1_rot_x'', target_1_rot_x c),
      (''target_1_rot_y'', target_1_rot_y c), (''target_1_rot_z'', target_1_rot_z c),
      (''target_2_pos_x'', target_2_pos_x c), (''target_2_pos_y'', target_2_pos_y c),
      (''target_2_pos_z'', target_2_pos_z c), (''target_2_rot_x'', target_2_rot_x c),
      (''target_2_rot_y'', target_2_rot_y c), (''target_2_rot_z'', target_2_rot_z c)]"

text \<open>
  A populated camera: image 100 x 100, focal lengths 10, at the world origin with no
  rotation, the identity as origin axis, angle factor 1.
\<close>

definition c2_camera :: calibration_camera where
  "c2_camera =
     \<lparr>cam_width_image = JNum 100, cam_height_image = JNum 100,
      cam_focal_length_x = JNum 10, cam_focal_length_y = JNum 10,
      cam_pos_x = JNum 0, cam_pos_y = JNum 0, cam_pos_z = JNum 0,
      cam_rot_x = JNum 0, cam_rot_y = JNum 0, cam_rot_z = JNum 0,
      angle_factor = JNum 1, cam_origin_axis = Some identity4\<rparr>"

text \<open>
  Vectors as the search can return them: for the generalized calibration with one target
  and no additional camera, and for the top camera.
\<close>

definition c3_parameters :: "real list" where
  "c3_parameters = [5500, 5500, - 5500, 1, 0, 0, 1, 10, 20, 30, 0, 0, 0]"

definition c3_top_parameters :: "real list" where
  "c3_top_parameters = [5500, 5500, 10, 20, 3000, 0, 0, 0]"

text \<open>
  The attempts of the search, stated apart from the loop. \<open>rng_after initial k g\<close> is
  the state of the random generator after \<open>k\<close> initial guesses have been drawn from the
  state \<open>g\<close>. Attempt number \<open>k\<close> draws its initial guess in that state, minimizes from
  it and evaluates the objective at the converged vector: it yields that vector and the
  objective value, or raises. \<open>keep_best\<close> is the update of the best vector and its
  objective value by one attempt, and \<open>best_kept\<close> says of a list of attempt results, a
  returned value and the least objective value kept that nothing below \<^verbatim>\<open>inf\<close> was
  found, or that the value returned is the vector of one of the attempts, with its
  objective value below \<^verbatim>\<open>inf\<close>, and in both cases that no attempt has an objective
  value strictly less.
\<close>

definition rng_after :: "('g \<Rightarrow> real list \<times> 'g) \<Rightarrow> nat \<Rightarrow> 'g \<Rightarrow> 'g" where
  "rng_after initial k g = ((\<lambda>g. snd (initial g)) ^^ k) g"

definition attempt ::
  "(real list \<Rightarrow> error + pyfloat)
     \<Rightarrow> ((real list \<Rightarrow> error + pyfloat) \<Rightarrow> real list \<Rightarrow> error + real list)
     \<Rightarrow> ('g \<Rightarrow> real list \<times> 'g) \<Rightarrow> 'g \<Rightarrow> nat \<Rightarrow> error + real list \<times> pyfloat" where
  "attempt fit_function minimize initial g k =
     bind_error (minimize fit_function (fst (initial (rng_after initial k g)))) (\<lambda>parameters.
     bind_error (fit_function parameters) (\<lambda>err. Inr (parameters, err)))"

definition keep_best ::
  "real list \<times> pyfloat \<Rightarrow> real list option \<times> pyfloat \<Rightarrow> real list option \<times> pyfloat" where
  "keep_best result st =
     (if float_less (snd result) (snd st) then (Some (fst result), snd result) else st)"

definition best_kept ::
  "(real list \<times> pyfloat) list \<Rightarrow> real list option \<Rightarrow> pyfloat \<Rightarrow> bool" where
  "best_kept results best_parameters min_err =
     (list_all (\<lambda>result. \<not> float_less (snd result) min_err) results
      \<and> (case best_parameters of
            None \<Rightarrow> min_err = PosInf
          | Some parameters \<Rightarrow>
              (parameters, min_err) \<in> set results \<and> float_less min_err PosInf))"

text \<open>
  What \<open>Calibration.calibrate\<close> stores for target \<open>i\<close> and for additional camera \<open>j\<close>
  (with image size \<open>image_size\<close>) of a fresh object, from the vector \<open>x0\<close>.
\<close>

definition stored_target :: "real list \<Rightarrow> nat \<Rightarrow> target_parameters" where
  "stored_target x0 i =
     \<lparr>tp_pos_x = JNum (x0 ! (7 + i * 6)),
      tp_pos_y = JNum (x0 ! (8 + i * 6)),
      tp_pos_z = JNum (x0 ! (9 + i * 6)),
      tp_rot_x = JNum (py_fmod (x0 ! (10 + i * 6)) pi * 2),
      tp_rot_y = JNum (py_fmod (x0 ! (11 + i * 6)) pi * 2),
      tp_rot_z = JNum (py_fmod (x0 ! (12 + i * 6)) pi * 2)\<rparr>"

definition stored_other :: "real list \<Rightarrow> nat \<Rightarrow> nat \<Rightarrow> real \<times> real \<Rightarrow> calibration_camera" where
  "stored_other x0 offset j image_size =
     \<lparr>cam_width_image = JNum (fst image_size),
      cam_height_image = JNum (snd image_size),
      cam_focal_length_x = JNum (x0 ! (offset + j * 8)),
      cam_focal_length_y = JNum (x0 ! (offset + j * 8 + 1)),
      cam_pos_x = JNum (x0 ! (offset + j * 8 + 2)),
      cam_pos_y = JNum (x0 ! (offset + j * 8 + 3)),
      cam_pos_z = JNum (x0 ! (offset + j * 8 + 4)),
      cam_rot_x = JNum (py_fmod (x0 ! (offset + j * 8 + 5)) pi * 2),
      cam_rot_y = JNum (py_fmod (x0 ! (offset + j * 8 + 6)) pi * 2),
      cam_rot_z = JNum (py_fmod (x0 ! (offset + j * 8 + 7)) pi * 2),
      angle_factor = JNum (x0 ! 6),
      cam_origin_axis = None\<rparr>"

text \<open>
  The objective of the generalized calibration as the layout of the parameter vector
  gives it, every parameter named by its role and read from its slot of \<open>x0\<close>: from
  the reference camera's block, the focal lengths are slots 0 and 1, its position is
  \<open>(0, x0[2], 0)\<close>, its rotations are slots 3, 4, 5 and the angle factor, shared by all
  cameras, is slot 6; the pose of target \<open>i\<close> is the six slots from \<open>7 + i * 6\<close>; of
  additional camera \<open>j\<close>, with \<open>offset = 7 + T * 6 + j * 8\<close>, the focal lengths are the
  slots \<open>offset\<close> and \<open>offset + 1\<close>, the position the three slots from \<open>offset + 2\<close> and
  the rotations the three slots from \<open>offset + 5\<close>. The reference camera contributes
  the residual of every observation of every target, and additional camera \<open>j\<close> the
  residual of every one of its observations of every target, with the corner layout
  number \<open>j\<close>.
\<close>

definition layout_objective ::
  "calibration \<Rightarrow> vec3 list list \<Rightarrow> (real \<times> (real \<times> real) list) list list
     \<Rightarrow> (real \<times> (real \<times> real) list) list list list \<Rightarrow> real list \<Rightarrow> error + real" where
  "layout_objective c targets_points_local_3d ref_targets_points_2d
     others_targets_points_2d x0 =
     (let T = nb_targets c;
          origin_axis4 = cam_origin_axis_from_axes (cameras_origin_axis c);
          factor = x0 ! 6;
          target_pose = (\<lambda>i. (x0 ! (7 + i * 6), x0 ! (7 + i * 6 + 1), x0 ! (7 + i * 6 + 2),
                               x0 ! (7 + i * 6 + 3), x0 ! (7 + i * 6 + 4), x0 ! (7 + i * 6 + 5)));
          fr_reference = camera_frame 0 (x0 ! 2) 0 (x0 ! 3) (x0 ! 4) (x0 ! 5) origin_axis4
      in bind_error
           (sum_errors (\<lambda>i.
              bind_error (getitem_list ref_targets_points_2d i) (\<lambda>observations.
              sum_errors
                (observation_error c targets_points_local_3d fr_reference
                   (cam_width_image c) (cam_height_image c) (x0 ! 0) (x0 ! 1) factor
                   (target_pose i) i)
                observations))
              [0 ..< T]) (\<lambda>err_reference.
         bind_error
           (sum_errors (\<lambda>(j, camera).
              let offset = 7 + T * 6 + j * 8;
                  fr_camera = camera_frame (x0 ! (offset + 2)) (x0 ! (offset + 3))
                                (x0 ! (offset + 4)) (x0 ! (offset + 5)) (x0 ! (offset + 6))
                                (x0 ! (offset + 7)) origin_axis4
              in sum_errors (\<lambda>i.
                   bind_error (getitem_list others_targets_points_2d j) (\<lambda>per_target.
                   bind_error (getitem_list per_target i) (\<lambda>observations.
                   sum_errors
                     (observation_error c targets_points_local_3d fr_camera
                        (cam_width_image camera) (cam_height_image camera)
                        (x0 ! offset) (x0 ! (offset + 1)) factor (target_pose i) j)
                     observations)))
                   [0 ..< T])
              (enumerate 0 (others c))) (\<lambda>err_others.
         Inr (err_reference + err_others))))"

text \<open>The six values appended per target and the eight per additional camera by the
  initial guess of \<open>Calibration.find_parameters\<close>.\<close>

definition target_block :: "real list \<Rightarrow> bool" where
  "target_block b = (\<exists>x y z. b = [x, y, z, pi / 2, 0, 0])"

definition other_block :: "real list \<Rightarrow> bool" where
  "other_block b = (\<exists>fx fy x y z. b = [fx, fy, x, y, z, 0, 0, 0])"

text \<open>
  Test inputs. A stand-in random generator, objective and minimizer for running the
  search; a vector of 21 values for one target and one additional camera.
\<close>

definition w6_uniform :: "real \<Rightarrow> real \<Rightarrow> nat \<Rightarrow> real \<times> nat" where
  "w6_uniform lo hi g = (lo + real g, Suc g)"

definition w6_fit_function :: "real list \<Rightarrow> error + pyfloat" where
  "w6_fit_function p = Inr (Finite (10 - p ! 0))"

definition w6_minimize ::
  "(real list \<Rightarrow> error + pyfloat) \<Rightarrow> real list \<Rightarrow> error + real list" where
  "w6_minimize f p = Inr (map (\<lambda>x. x + 1) p)"

text \<open>An objective that is \<^verbatim>\<open>nan\<close> everywhere, as with a \<^verbatim>\<open>nan\<close> among the observed
  corners.\<close>

definition w6_nan_function :: "real list \<Rightarrow> error + pyfloat" where
  "w6_nan_function p = Inr NaN"

definition c4_x0 :: "real list" where
  "c4_x0 = [1, 2, 3, 4, 5, 6, 7, 8, 9, 10, 11, 12, 13, 14, 15, 16, 17, 18, 19, 20, 21]"

text \<open>
  A calibration object with one target and one additional camera, identity camera axes
  and 100 x 100 images, and a parameter vector for it: the reference camera at
  \<open>(0, - 1, 0)\<close> with focal lengths 2, the target at \<open>(0, 0, 2)\<close>, the additional camera
  at \<open>(1, 0, - 1)\<close> with focal lengths 3, all rotations 0.
\<close>

definition c4_calibration :: calibration where
  "c4_calibration =
     (Calibration_init 1 2 ((1, 0, 0), (0, 1, 0), (0, 0, 1)) True)
       \<lparr>cam_width_image := JNum 100, cam_height_image := JNum 100,
        others := [CalibrationCamera_init\<lparr>cam_width_image := JNum 100,
                                          cam_height_image := JNum 100\<rparr>]\<rparr>"

definition c4_fit_x0 :: "real list" where
  "c4_fit_x0 = [2, 2, - 1, 0, 0, 0, 1,
                0, 0, 2, 0, 0, 0,
                3, 3, 1, 0, - 1, 0, 0, 0]"

text \<open>
  A vector as the search of the two-target side camera can return it, with
  \<open>cam_rot_z = - 1\<close> (index 5) and \<open>angle_factor = - 1\<close> (index 6), and one for the
  generalized calibration with one target, with \<open>cam_rot_x = 1\<close> (index 3).
\<close>

definition c1_parameters :: "real list" where
  "c1_parameters = [1000, 1000, 0, - 5000, 0, - 1, - 1, 0, 0, 0, 0, 0, 0, 0, 0, 0, 0, 0, 0]"

definition c1_general_parameters :: "real list" where
  "c1_general_parameters = [5500, 5500, - 5500, 1, 0, 0, 1, 0, 0, 0, 0, 0, 0]"

text \<open>
  A generalized calibration with two targets and one additional camera, identity camera
  axes, images of 100 x 100 pixels, corner layouts \<open>[(0, 0, 0)]\<close> for target 0 and \<open>[(1, 0, 0)]\<close> for target 1, and a
  parameter vector with the reference camera at \<open>y = - 1\<close>, both targets at the origin
  and the additional camera at \<open>z = - 1\<close>, all rotations zero, focal lengths and angle
  factor 1.
\<close>

definition c5_calibration :: calibration where
  "c5_calibration =
     (Calibration_init 2 2 ((1, 0, 0), (0, 1, 0), (0, 0, 1)) True)
       \<lparr>cam_width_image := JNum 100, cam_height_image := JNum 100,
        others := [CalibrationCamera_init\<lparr>cam_width_image := JNum 100,
                                          cam_height_image := JNum 100\<rparr>]\<rparr>"

definition c5_layouts :: "vec3 list list" where
  "c5_layouts = [ [(0, 0, 0)], [(1, 0, 0)]]"

definition c5_x0 :: "real list" where
  "c5_x0 = [1, 1, - 1, 0, 0, 0, 1,
            0, 0, 0, 0, 0, 0,
            0, 0, 0, 0, 0, 0,
            1, 1, 0, 0, - 1, 0, 0, 0]"

section \<open>Properties of the float modulo\<close>

lemma py_fmod_range:
  assumes "0 < b"
  shows "0 \<le> py_fmod a b \<and> py_fmod a b < b"
proof -
  have lo: "of_int \<lfloor>a / b\<rfloor> \<le> a / b" by simp
  have hi: "a / b < of_int \<lfloor>a / b\<rfloor> + 1" by linarith
  from lo assms have "of_int \<lfloor>a / b\<rfloor> * b \<le> a"
    by (simp only: pos_le_divide_eq)
  moreover from hi assms have "a < (of_int \<lfloor>a / b\<rfloor> + 1) * b"
    by (simp only: pos_divide_less_eq)
  ultimately show ?thesis
    by (simp add: py_fmod_def algebra_simps)
qed

lemma py_fmod_id:
  assumes "0 \<le> a" "a < b"
  shows "py_fmod a b = a"
proof -
  have "\<lfloor>a / b\<rfloor> = 0"
    using assms by (simp add: floor_eq_iff)
  then show ?thesis by (simp add: py_fmod_def)
qed

lemma py_fmod_cong: "\<exists>k::int. py_fmod a b = a + b * of_int k"
  by (rule exI [of _ "- \<lfloor>a / b\<rfloor>"]) (simp add: py_fmod_def)

lemma py_fmod_shift:
  assumes "0 < b"
  shows "py_fmod (py_fmod a b + b) b = py_fmod a b"
proof -
  let ?r = "py_fmod a b"
  from py_fmod_range [OF assms, of a] have r: "0 \<le> ?r" "?r < b" by simp_all
  have "\<lfloor>(?r + b) / b\<rfloor> = 1"
    using r assms by (simp add: floor_eq_iff add_divide_distrib)
  then show ?thesis
    by (simp add: py_fmod_def [of "?r + b" b])
qed

section \<open>Properties of normalise_angle\<close>

lemma normalise_angle_float: "normalise_angle (PyFloat a) = Inr (normalised a)"
  by (simp add: normalise_angle_def normalised_def Let_def py_fmod_shift)

lemma normalise_angle_array_floats:
  "normalise_angle_array (map PyFloat xs) = Inr (map normalised xs)"
proof -
  have guard: "\<not> (map PyFloat xs \<noteq> [] \<and> list_all is_py_int (map PyFloat xs))"
    by (cases xs) simp_all
  show ?thesis
    unfolding normalise_angle_array_def Let_def if_not_P [OF guard]
    by (auto simp add: normalised_def py_fmod_shift intro!: nth_equalityI)
qed

lemma normalised_cong: "\<exists>k::int. normalised a = a + 2 * pi * of_int k"
proof -
  obtain k :: int where k: "py_fmod a (2 * pi) = a + 2 * pi * of_int k"
    using py_fmod_cong [of a "2 * pi"] by blast
  show ?thesis
  proof (cases "py_fmod a (2 * pi) > pi")
    case True
    then have "normalised a = a + 2 * pi * of_int k - 2 * pi"
      using k by (simp add: normalised_def)
    then have "normalised a = a + 2 * pi * of_int (k - 1)"
      by (simp add: algebra_simps)
    then show ?thesis by blast
  next
    case False
    then have "normalised a = a + 2 * pi * of_int k"
      using k by (simp add: normalised_def)
    then show ?thesis by blast
  qed
qed

lemma normalised_range: "- pi < normalised a \<and> normalised a \<le> pi"
proof -
  have "0 \<le> py_fmod a (2 * pi) \<and> py_fmod a (2 * pi) < 2 * pi"
    by (rule py_fmod_range) simp
  then show ?thesis
    using pi_gt_zero by (auto simp add: normalised_def)
qed

lemma normalised_pi: "normalised pi = pi"
proof -
  have "py_fmod pi (2 * pi) = pi"
    by (rule py_fmod_id) (use pi_gt_zero in simp_all)
  then show ?thesis by (simp add: normalised_def)
qed

lemma normalised_upper_half:
  assumes "pi < a" "a < 2 * pi"
  shows "normalised a = a - 2 * pi"
proof -
  have "py_fmod a (2 * pi) = a"
    by (rule py_fmod_id) (use assms pi_gt_zero in simp_all)
  with assms show ?thesis by (simp add: normalised_def)
qed

text \<open>
  Claim C10 (the code departs from it). For every input angle \<open>normalise_angle\<close> should
  return a value congruent to it modulo \<open>2 * pi\<close> in \<open>(- pi, pi]\<close>, element-wise on an
  array. It does so for a float \<open>a\<close> (the third conjunct, and \<open>pi\<close> is kept). On the
  angle \<open>0\<close> given as a Python int, and on the list \<open>[1, 2]\<close> of ints, the in-place modulo
  on the integer array raises and nothing is returned.
\<close>

theorem C10_normalise_angle_int:
  "normalise_angle (PyInt 0) = Inl TypeError
   \<and> normalise_angle_array [PyInt 1, PyInt 2] = Inl TypeError
   \<and> (\<exists>r. normalise_angle (PyFloat a) = Inr r
           \<and> (\<exists>k::int. r = a + 2 * pi * of_int k) \<and> - pi < r \<and> r \<le> pi)
   \<and> normalise_angle (PyFloat pi) = Inr pi
   \<and> normalise_angle_array (map PyFloat xs) = Inr (map normalised xs)"
proof -
  have "normalise_angle (PyInt 0) = Inl TypeError"
    by (simp add: normalise_angle_def)
  moreover have "normalise_angle_array [PyInt 1, PyInt 2] = Inl TypeError"
    by (simp add: normalise_angle_array_def)
  moreover have "\<exists>r. normalise_angle (PyFloat a) = Inr r
           \<and> (\<exists>k::int. r = a + 2 * pi * of_int k) \<and> - pi < r \<and> r \<le> pi"
    using normalised_cong [of a] normalised_range [of a]
    by (simp add: normalise_angle_float)
  moreover have "normalise_angle (PyFloat pi) = Inr pi"
    by (simp add: normalise_angle_float normalised_pi)
  ultimately show ?thesis
    by (simp add: normalise_angle_array_floats)
qed

section \<open>Rotations and frame builders\<close>

lemma rotation_matrix_x: "rotation_matrix a x_axis = embed4 (elemental_rotation_x a)"
  by (simp add: rotation_matrix_def x_axis_def elemental_rotation_x_def Let_def)

lemma rotation_matrix_y: "rotation_matrix a y_axis = embed4 (elemental_rotation_y a)"
  by (simp add: rotation_matrix_def y_axis_def elemental_rotation_y_def Let_def)

lemma rotation_matrix_z: "rotation_matrix a z_axis = embed4 (elemental_rotation_z a)"
  by (simp add: rotation_matrix_def z_axis_def elemental_rotation_z_def Let_def)

lemma mat4_mul_identity4: "mat4_mul identity4 m = m"
  by (cases m rule: transpose4.cases) (simp add: mat4_mul_def identity4_def)

lemma mat4_mul_embed4: "mat4_mul (embed4 a) (embed4 b) = embed4 (mat3_mul a b)"
proof -
  obtain a11 a12 a13 a21 a22 a23 a31 a32 a33
    where a: "a = ((a11, a12, a13), (a21, a22, a23), (a31, a32, a33))"
    by (metis prod_cases3)
  obtain b11 b12 b13 b21 b22 b23 b31 b32 b33
    where b: "b = ((b11, b12, b13), (b21, b22, b23), (b31, b32, b33))"
    by (metis prod_cases3)
  show ?thesis
    by (simp add: a b mat4_mul_def mat3_mul_def)
qed

lemma block3_embed4: "block3 (embed4 a) = a"
  by (cases a rule: transpose3.cases) simp

text \<open>
  Claim C7. For every target pose and turntable angle \<open>alpha\<close>, \<open>target_frame\<close> returns
  the frame whose origin is the base position rotated about the world Z axis by \<open>alpha\<close>
  and whose rotation is the transpose of the product, in the order Z, X, Y, of the
  elemental rotations by \<open>alpha + rot_z\<close> about Z, \<open>rot_x\<close> about X and \<open>rot_y\<close> about Y.
\<close>

theorem C7_target_frame:
  "target_frame pos_x pos_y pos_z rot_x rot_y rot_z alpha =
     \<lparr>rot = transpose3 (mat3_mul (mat3_mul (elemental_rotation_z (alpha + rot_z))
                                            (elemental_rotation_x rot_x))
                                  (elemental_rotation_y rot_y)),
      origin = (pos_x * cos alpha - pos_y * sin alpha,
                pos_x * sin alpha + pos_y * cos alpha,
                pos_z)\<rparr>"
proof -
  have "concatenate_matrices
          [rotation_matrix (alpha + rot_z) z_axis, rotation_matrix rot_x x_axis,
           rotation_matrix rot_y y_axis]
        = embed4 (mat3_mul (mat3_mul (elemental_rotation_z (alpha + rot_z))
                                     (elemental_rotation_x rot_x))
                           (elemental_rotation_y rot_y))"
    by (simp add: concatenate_matrices_def mat4_mul_identity4 mat4_mul_embed4
        rotation_matrix_x rotation_matrix_y rotation_matrix_z)
  then show ?thesis
    by (simp add: target_frame_def Let_def Frame_def block3_embed4)
qed

section \<open>The pinhole projection\<close>

lemma pixel_coordinates_batch_map:
  "pixel_coordinates_batch pts w h fx fy = map (\<lambda>p. pixel_coordinates p w h fx fy) pts"
  by (induction pts) (auto simp add: pixel_coordinates_batch_def Let_def)

text \<open>
  Claim C8. For every camera-frame point \<open>(x, y, z)\<close> with \<open>z \<noteq> 0\<close>, image size and focal
  lengths, \<open>pixel_coordinates\<close> returns \<open>u = (x / z) * fx + width / 2\<close> and
  \<open>v = (y / z) * fy + height / 2\<close>; on a batch of N points (all with \<open>z \<noteq> 0\<close>) it returns
  the N rows obtained by the same formula from each input row.
\<close>

theorem C8_pixel_coordinates:
  "(z \<noteq> 0 \<longrightarrow>
      pixel_coordinates (x, y, z) width height fx fy =
        ((x / z) * fx + width / 2, (y / z) * fy + height / 2))
   \<and> ((\<forall>p \<in> set pts. snd (snd p) \<noteq> 0) \<longrightarrow>
        length (pixel_coordinates_batch pts width height fx fy) = length pts
        \<and> (\<forall>k < length pts.
             pixel_coordinates_batch pts width height fx fy ! k =
               ((fst (pts ! k) / snd (snd (pts ! k))) * fx + width / 2,
                (fst (snd (pts ! k)) / snd (snd (pts ! k))) * fy + height / 2)))"
proof -
  have "pixel_coordinates p width height fx fy =
          ((fst p / snd (snd p)) * fx + width / 2,
           (fst (snd p) / snd (snd p)) * fy + height / 2)" for p
    by (cases p rule: prod_cases3) simp
  then show ?thesis
    by (simp add: pixel_coordinates_batch_map)
qed

theorem C8_pixel_coordinates_witness:
  "pixel_coordinates (2, 4, 2) 100 50 10 20 = (60, 65)
   \<and> pixel_coordinates_batch [(2, 4, 2), (1, 1, 1)] 100 50 10 20 = [(60, 65), (60, 45)]"
proof -
  have h: "\<forall>p \<in> set [(2, 4, 2), (1, 1, 1) :: vec3]. snd (snd p) \<noteq> 0" by simp
  have k: "(0::nat) < length [(2, 4, 2), (1, 1, 1) :: vec3]"
    "(1::nat) < length [(2, 4, 2), (1, 1, 1) :: vec3]" by simp_all
  from C8_pixel_coordinates [of 2 2 4 100 50 10 20 "[(2, 4, 2), (1, 1, 1)]"] h k
  have "pixel_coordinates (2, 4, 2) 100 50 10 20 = (60, 65)"
    and "length (pixel_coordinates_batch [(2, 4, 2), (1, 1, 1)] 100 50 10 20) = 2"
    and "pixel_coordinates_batch [(2, 4, 2), (1, 1, 1)] 100 50 10 20 ! 0 = (60, 65)"
    and "pixel_coordinates_batch [(2, 4, 2), (1, 1, 1)] 100 50 10 20 ! 1 = (60, 45)"
    by simp_all
  then show ?thesis
    by (simp add: list_eq_iff_nth_eq less_Suc_eq numeral_2_eq_2)
qed

section \<open>The projection function\<close>

lemma rotation_matrix_zero:
  "rotation_matrix 0 x_axis = identity4"
  "rotation_matrix 0 y_axis = identity4"
  "rotation_matrix 0 z_axis = identity4"
  by (simp_all add: rotation_matrix_def x_axis_def y_axis_def z_axis_def identity4_def)

lemma camera_frame_zero:
  "camera_frame 0 0 0 0 0 0 identity4 = Frame ((1, 0, 0), (0, 1, 0), (0, 0, 1)) (0, 0, 0)"
  by (simp add: camera_frame_def rotation_matrix_zero concatenate_matrices_def mat4_mul_identity4)
     (simp add: identity4_def)

lemma radians_90: "radians 90 = pi / 2"
  by (simp add: radians_def)

text \<open>
  Claim C2 (the code departs from it). The function returned by \<open>get_projection\<close>
  should rotate the world point about the Z axis by \<open>radians (alpha * f)\<close> and project
  the rotated point. At the camera \<open>c2_camera\<close>, \<open>alpha = 90\<close> and the point \<open>(1, 0, 1)\<close>
  the rotated point is \<open>(0, 1, 1)\<close>, whose pixel is \<open>(50, 60)\<close>; the code computes the new
  \<open>y\<close> from the \<open>x\<close> it has already overwritten, projects \<open>(0, 0, 1)\<close> and returns
  \<open>(50, 50)\<close>.
\<close>

theorem C2_get_projection_overwritten_x:
  "bind_error (get_projection c2_camera 90) (\<lambda>proj. proj (1, 0, 1)) = Inr (50, 50)
   \<and> bind_error (get_camera_frame c2_camera) (\<lambda>fr_cam.
        Inr (pixel_coordinates
               (local_point fr_cam (rotate_about_z (radians (90 * 1)) (1, 0, 1)))
               100 100 10 10)) = Inr (50, 60)
   \<and> rotate_about_z (radians (90 * 1)) (1, 0, 1) = (0, 1, 1)"
  by (simp add: get_projection_def get_camera_frame_def c2_camera_def camera_frame_zero
      radians_90 projection_def Frame_def local_point_def rotate_about_z_def)

section \<open>Persistence\<close>

lemma json_getitem_missing:
  "k \<notin> fst ` set kvs \<Longrightarrow> json_getitem (JObj kvs) k = Inl (KeyError k)"
  using map_of_eq_None_iff [of kvs k] by simp

lemma json_getitem_present:
  "k \<in> fst ` set kvs \<Longrightarrow> \<exists>v. json_getitem (JObj kvs) k = Inr v"
  using map_of_eq_None_iff [of kvs k] by (cases "map_of kvs k") auto

lemma getitems_missing:
  assumes "\<exists>k \<in> set ks. k \<notin> fst ` set kvs"
  shows "\<exists>k \<in> set ks. k \<notin> fst ` set kvs \<and> getitems (JObj kvs) ks = Inl (KeyError k)"
  using assms
proof (induction ks)
  case Nil
  then show ?case by simp
next
  case (Cons k ks)
  show ?case
  proof (cases "k \<in> fst ` set kvs")
    case False
    then show ?thesis by (simp add: json_getitem_missing del: json_getitem.simps)
  next
    case True
    then obtain v where v: "json_getitem (JObj kvs) k = Inr v"
      using json_getitem_present by blast
    from True Cons.prems have "\<exists>k' \<in> set ks. k' \<notin> fst ` set kvs" by auto
    then obtain k' where "k' \<in> set ks" "k' \<notin> fst ` set kvs"
      "getitems (JObj kvs) ks = Inl (KeyError k')"
      using Cons.IH by blast
    then show ?thesis using v by (auto simp del: json_getitem.simps)
  qed
qed

lemma load_camera_fields_getitems:
  "load_camera_fields float32 save_class c =
     bind_error (getitems save_class required_keys) (\<lambda>vs.
     bind_error (origin_axis_of_json float32 (vs ! 11)) (\<lambda>axis.
     Inr (c\<lparr>cam_width_image := vs ! 0, cam_height_image := vs ! 1,
            cam_focal_length_x := vs ! 2, cam_focal_length_y := vs ! 3,
            cam_pos_x := vs ! 4, cam_pos_y := vs ! 5, cam_pos_z := vs ! 6,
            cam_rot_x := vs ! 7, cam_rot_y := vs ! 8, cam_rot_z := vs ! 9,
            angle_factor := vs ! 10, cam_origin_axis := Some axis\<rparr>)))"
  unfolding load_camera_fields_def required_keys_def
  apply (cases "json_getitem save_class ''cam_width_image''"; simp)
  apply (cases "json_getitem save_class ''cam_height_image''"; simp)
  apply (cases "json_getitem save_class ''cam_focal_length_x''"; simp)
  apply (cases "json_getitem save_class ''cam_focal_length_y''"; simp)
  apply (cases "json_getitem save_class ''cam_pos_x''"; simp)
  apply (cases "json_getitem save_class ''cam_pos_y''"; simp)
  apply (cases "json_getitem save_class ''cam_pos_z''"; simp)
  apply (cases "json_getitem save_class ''cam_rot_x''"; simp)
  apply (cases "json_getitem save_class ''cam_rot_y''"; simp)
  apply (cases "json_getitem save_class ''cam_rot_z''"; simp)
  apply (cases "json_getitem save_class ''angle_factor''"; simp)
  apply (cases "json_getitem save_class ''cam_origin_axis''"; simp)
  done

lemma load_camera_fields_missing:
  assumes "\<exists>k \<in> set required_keys. k \<notin> fst ` set kvs"
  shows "\<exists>k \<in> set required_keys. k \<notin> fst ` set kvs
           \<and> load_camera_fields float32 (JObj kvs) c = Inl (KeyError k)"
proof -
  obtain k where "k \<in> set required_keys" "k \<notin> fst ` set kvs"
    "getitems (JObj kvs) required_keys = Inl (KeyError k)"
    using getitems_missing [OF assms] by blast
  then show ?thesis
    by (auto simp add: load_camera_fields_getitems)
qed

lemma Calibration_load_missing:
  assumes "\<exists>k \<in> set required_keys. k \<notin> fst ` set kvs"
  shows "\<exists>e. Calibration_load float32 (JObj kvs) = Inl e"
proof (cases "json_getitem (JObj kvs) ''targets_parameters''")
  case (Inl e)
  then show ?thesis by (simp add: Calibration_load_def del: json_getitem.simps)
next
  case (Inr targets)
  show ?thesis
  proof (cases "json_len targets")
    case (Inl e)
    with Inr show ?thesis by (simp add: Calibration_load_def del: json_getitem.simps)
  next
    case n: (Inr n)
    from load_camera_fields_missing [OF assms]
    obtain k where "load_camera_fields float32 (JObj kvs)
        (Calibration_init n 1 default_cameras_origin_axis True) = Inl (KeyError k)"
      by blast
    with Inr n show ?thesis by (simp add: Calibration_load_def del: json_getitem.simps)
  qed
qed

text \<open>
  Claim C9. A persisted record that lacks at least one of the twelve required keys is
  not loaded: \<open>load\<close> raises KeyError naming an absent required key (for the generalized
  variant, which first reads the target list, some exception), so no object with a
  defaulted field is returned.
\<close>

theorem C9_load_missing_key:
  assumes "\<exists>k \<in> set required_keys. k \<notin> fst ` set kvs"
  shows "(\<exists>k \<in> set required_keys. k \<notin> fst ` set kvs
            \<and> CalibrationCamera_load float32 (JObj kvs) = Inl (KeyError k))
       \<and> (\<exists>k \<in> set required_keys. k \<notin> fst ` set kvs
            \<and> CalibrationCameraTop_load float32 (JObj kvs) = Inl (KeyError k))
       \<and> (\<exists>k \<in> set required_keys. k \<notin> fst ` set kvs
            \<and> CalibrationCameraSideWith2TargetYXZ_load float32 (JObj kvs) = Inl (KeyError k))
       \<and> (\<exists>e. Calibration_load float32 (JObj kvs) = Inl e)"
proof -
  obtain k where "k \<in> set required_keys" "k \<notin> fst ` set kvs"
    "load_camera_fields float32 (JObj kvs) CalibrationCameraSideWith2TargetYXZ_init
       = Inl (KeyError k)"
    using load_camera_fields_missing [OF assms] by blast
  then have "\<exists>k \<in> set required_keys. k \<notin> fst ` set kvs
            \<and> CalibrationCameraSideWith2TargetYXZ_load float32 (JObj kvs) = Inl (KeyError k)"
    by (auto simp add: CalibrationCameraSideWith2TargetYXZ_load_def)
  then show ?thesis
    using load_camera_fields_missing [OF assms] Calibration_load_missing [OF assms]
    unfolding CalibrationCamera_load_def CalibrationCameraTop_load_def
    by blast
qed

theorem C9_load_missing_key_witness:
  "(\<exists>k \<in> set required_keys. k \<notin> fst ` set [(''cam_width_image'', JNum 640)])
   \<and> CalibrationCamera_load id (JObj [(''cam_width_image'', JNum 640)])
       = Inl (KeyError ''cam_height_image'')
   \<and> CalibrationCameraSideWith2TargetYXZ_load id (JObj [(''cam_width_image'', JNum 640)])
       = Inl (KeyError ''cam_height_image'')
   \<and> Calibration_load id (JObj [(''cam_width_image'', JNum 640)])
       = Inl (KeyError ''targets_parameters'')"
proof -
  have h: "\<exists>k \<in> set required_keys. k \<notin> fst ` set [(''cam_width_image'', JNum 640)]"
    by (simp add: required_keys_def)
  from C9_load_missing_key [OF h, of id] h show ?thesis
    by (simp add: CalibrationCamera_load_def CalibrationCameraSideWith2TargetYXZ_load_def
        Calibration_load_def load_camera_fields_def)
qed

lemma json_shape_numbers: "json_shape (JArr (map JNum xs)) = Some [length xs]"
  by (cases xs) (simp_all add: list_all_iff)

lemma json_elements_numbers: "json_elements (JArr (map JNum xs)) = map JNum xs"
  by (induction xs) simp_all

lemma element_float_numbers: "map_error element_float (map JNum xs) = Inr xs"
  by (induction xs) simp_all

lemma origin_axis_roundtrip:
  "origin_axis_of_json f (JArr (map JNum (mat4_tolist m))) = Inr (map_mat4 f m)"
  unfolding origin_axis_of_json_def json_shape_numbers json_elements_numbers
    element_float_numbers
  by (cases m rule: mat4_tolist.cases) (simp add: mat4_of_list_def)

lemma load_dump_camera_fields:
  assumes "dump_camera_fields c = Inr kvs"
  shows "\<exists>axis. cam_origin_axis c = Some axis \<and>
         load_camera_fields f (JObj (kvs @ extra)) c0 =
         Inr (c0\<lparr>cam_width_image := cam_width_image c,
                 cam_height_image := cam_height_image c,
                 cam_focal_length_x := cam_focal_length_x c,
                 cam_focal_length_y := cam_focal_length_y c,
                 cam_pos_x := cam_pos_x c, cam_pos_y := cam_pos_y c,
                 cam_pos_z := cam_pos_z c,
                 cam_rot_x := cam_rot_x c, cam_rot_y := cam_rot_y c,
                 cam_rot_z := cam_rot_z c,
                 angle_factor := angle_factor c,
                 cam_origin_axis := Some (map_mat4 f axis)\<rparr>)"
proof (cases "cam_origin_axis c")
  case None
  with assms show ?thesis by (simp add: dump_camera_fields_def)
next
  case (Some axis)
  with assms have kvs: "kvs = [(''cam_width_image'', cam_width_image c),
             (''cam_height_image'', cam_height_image c),
             (''cam_focal_length_x'', cam_focal_length_x c),
             (''cam_focal_length_y'', cam_focal_length_y c),
             (''cam_pos_x'', cam_pos_x c),
             (''cam_pos_y'', cam_pos_y c),
             (''cam_pos_z'', cam_pos_z c),
             (''cam_rot_x'', cam_rot_x c),
             (''cam_rot_y'', cam_rot_y c),
             (''cam_rot_z'', cam_rot_z c),
             (''angle_factor'', angle_factor c),
             (''cam_origin_axis'', JArr (map JNum (mat4_tolist axis)))]"
    by (simp add: dump_camera_fields_def)
  show ?thesis
    by (simp add: Some kvs load_camera_fields_def origin_axis_roundtrip)
qed

lemma CalibrationCamera_roundtrip:
  assumes "CalibrationCamera_dump c = Inr save_class"
  shows "\<exists>axis. cam_origin_axis c = Some axis \<and>
           CalibrationCamera_load f save_class = Inr (c\<lparr>cam_origin_axis := Some (map_mat4 f axis)\<rparr>)"
proof -
  from assms obtain kvs where kvs: "dump_camera_fields c = Inr kvs" "save_class = JObj kvs"
    by (cases "dump_camera_fields c") (auto simp add: CalibrationCamera_dump_def)
  from load_dump_camera_fields [OF kvs(1), of f "[]" CalibrationCamera_init]
  show ?thesis
    by (cases c) (auto simp add: kvs CalibrationCamera_load_def CalibrationCamera_init_def)
qed

lemma load_yxz_target_fields_dump:
  assumes "\<forall>k \<in> set yxz_target_keys. k \<notin> fst ` set kvs"
  shows "load_yxz_target_fields (JObj (kvs @ yxz_target_entries c)) c0 =
           Inr (c0\<lparr>target_1_pos_x := target_1_pos_x c, target_1_pos_y := target_1_pos_y c,
              target_1_pos_z := target_1_pos_z c, target_1_rot_x := target_1_rot_x c,
              target_1_rot_y := target_1_rot_y c, target_1_rot_z := target_1_rot_z c,
              target_2_pos_x := target_2_pos_x c, target_2_pos_y := target_2_pos_y c,
              target_2_pos_z := target_2_pos_z c, target_2_rot_x := target_2_rot_x c,
              target_2_rot_y := target_2_rot_y c, target_2_rot_z := target_2_rot_z c\<rparr>)"
proof -
  have none: "map_of kvs k = None" if "k \<in> set yxz_target_keys" for k
    using assms that by (simp only: map_of_eq_None_iff) blast
  have keys: "map_of kvs k = None"
    if "k \<in> set [''target_1_pos_x'', ''target_1_pos_y'', ''target_1_pos_z'',
          ''target_1_rot_x'', ''target_1_rot_y'', ''target_1_rot_z'',
          ''target_2_pos_x'', ''target_2_pos_y'', ''target_2_pos_z'',
          ''target_2_rot_x'', ''target_2_rot_y'', ''target_2_rot_z'']" for k
    using none [of k] that by (simp add: yxz_target_keys_def)
  show ?thesis
    by (simp add: load_yxz_target_fields_def yxz_target_entries_def map_add_def keys)
qed

lemma dump_camera_fields_keys:
  "dump_camera_fields c = Inr kvs \<Longrightarrow> map fst kvs = required_keys"
  by (auto simp add: dump_camera_fields_def required_keys_def split: option.splits)

lemma CalibrationCameraSideWith2TargetYXZ_roundtrip:
  assumes "CalibrationCameraSideWith2TargetYXZ_dump c = Inr save_class"
  shows "\<exists>axis. cam_origin_axis c = Some axis \<and>
           CalibrationCameraSideWith2TargetYXZ_load f save_class =
             Inr (c\<lparr>cam_origin_axis := Some (map_mat4 f axis)\<rparr>)"
proof -
  let ?extra = "yxz_target_entries c"
  let ?init = CalibrationCameraSideWith2TargetYXZ_init
  from assms obtain kvs where kvs: "dump_camera_fields c = Inr kvs"
    "save_class = JObj (kvs @ ?extra)"
    by (cases "dump_camera_fields c")
       (auto simp add: CalibrationCameraSideWith2TargetYXZ_dump_def yxz_target_entries_def)
  have keys: "fst ` set kvs = set required_keys"
    using dump_camera_fields_keys [OF kvs(1)] by (metis set_map)
  from load_dump_camera_fields [OF kvs(1), of f ?extra ?init]
  obtain axis where axis: "cam_origin_axis c = Some axis"
    and ld: "load_camera_fields f (JObj (kvs @ ?extra)) ?init =
         Inr (?init\<lparr>cam_width_image := cam_width_image c,
                 cam_height_image := cam_height_image c,
                 cam_focal_length_x := cam_focal_length_x c,
                 cam_focal_length_y := cam_focal_length_y c,
                 cam_pos_x := cam_pos_x c, cam_pos_y := cam_pos_y c,
                 cam_pos_z := cam_pos_z c,
                 cam_rot_x := cam_rot_x c, cam_rot_y := cam_rot_y c,
                 cam_rot_z := cam_rot_z c,
                 angle_factor := angle_factor c,
                 cam_origin_axis := Some (map_mat4 f axis)\<rparr>)"
    by blast
  have nokey: "\<forall>k \<in> set yxz_target_keys. k \<notin> fst ` set kvs"
    by (simp add: keys required_keys_def yxz_target_keys_def)
  have "CalibrationCameraSideWith2TargetYXZ_load f save_class =
          Inr (c\<lparr>cam_origin_axis := Some (map_mat4 f axis)\<rparr>)"
    unfolding CalibrationCameraSideWith2TargetYXZ_load_def kvs(2) ld bind_error.simps
      load_yxz_target_fields_dump [OF nokey]
    by (cases c) (simp add: CalibrationCameraSideWith2TargetYXZ_init_def)
  with axis show ?thesis by simp
qed

lemma load_target_dict: "load_target (target_dict t) = Inr t"
  by (cases t) (simp add: load_target_def target_dict_def)

lemma load_targets_dicts: "load_targets (map target_dict ts) = Inr ts"
  by (induction ts) (simp_all add: load_target_dict)

lemma Calibration_roundtrip:
  assumes "Calibration_dump c = Inr save_class"
  shows "\<exists>axis. cam_origin_axis c = Some axis \<and>
           Calibration_load f save_class =
             Inr (c\<lparr>cam_origin_axis := Some (map_mat4 f axis),
                    cameras_origin_axis := default_cameras_origin_axis,
                    clockwise := True,
                    nb_targets := length (targets_parameters c),
                    others := []\<rparr>)"
proof -
  let ?extra = "[(''targets_parameters'', JArr (map target_dict (targets_parameters c)))]"
  let ?init = "Calibration_init (length (targets_parameters c)) 1 default_cameras_origin_axis True"
  from assms obtain kvs where kvs: "dump_camera_fields c = Inr kvs"
    "save_class = JObj (kvs @ ?extra)"
    by (cases "dump_camera_fields c") (auto simp add: Calibration_dump_def)
  have "fst ` set kvs = set required_keys"
    using dump_camera_fields_keys [OF kvs(1)] by (metis set_map)
  then have "''targets_parameters'' \<notin> fst ` set kvs"
    by (simp add: required_keys_def)
  then have none: "map_of kvs ''targets_parameters'' = None"
    using map_of_eq_None_iff [of kvs "''targets_parameters''"] by blast
  have get: "json_getitem (JObj (kvs @ ?extra)) ''targets_parameters'' =
               Inr (JArr (map target_dict (targets_parameters c)))"
    by (simp add: map_add_def none)
  from load_dump_camera_fields [OF kvs(1), of f ?extra ?init]
  obtain axis where axis: "cam_origin_axis c = Some axis"
    and ld: "load_camera_fields f (JObj (kvs @ ?extra)) ?init =
         Inr (?init\<lparr>cam_width_image := cam_width_image c,
                 cam_height_image := cam_height_image c,
                 cam_focal_length_x := cam_focal_length_x c,
                 cam_focal_length_y := cam_focal_length_y c,
                 cam_pos_x := cam_pos_x c, cam_pos_y := cam_pos_y c,
                 cam_pos_z := cam_pos_z c,
                 cam_rot_x := cam_rot_x c, cam_rot_y := cam_rot_y c,
                 cam_rot_z := cam_rot_z c,
                 angle_factor := angle_factor c,
                 cam_origin_axis := Some (map_mat4 f axis)\<rparr>)"
    by blast
  have "Calibration_load f save_class =
          Inr (c\<lparr>cam_origin_axis := Some (map_mat4 f axis),
                 cameras_origin_axis := default_cameras_origin_axis,
                 clockwise := True,
                 nb_targets := length (targets_parameters c),
                 others := []\<rparr>)"
    unfolding Calibration_load_def kvs(2) get bind_error.simps json_len.simps length_map ld
      json_iter.simps load_targets_dicts
    by (cases c) (simp add: Calibration_init_def)
  with axis show ?thesis by simp
qed


lemma map_mat4_id: "map_mat4 id m = m"
  by (cases m rule: mat4_tolist.cases) simp

lemma map_mat4_fixed:
  "\<forall>x \<in> set (mat4_tolist m). f x = x \<Longrightarrow> map_mat4 f m = m"
  by (cases m rule: mat4_tolist.cases) simp

lemma dump_camera_fields_Some:
  "cam_origin_axis c = Some axis \<Longrightarrow> \<exists>kvs. dump_camera_fields c = Inr kvs"
  by (simp add: dump_camera_fields_def)

lemma CalibrationCameraTop_roundtrip:
  assumes "CalibrationCamera_dump c = Inr save_class"
  shows "\<exists>axis. cam_origin_axis c = Some axis \<and>
           CalibrationCameraTop_load f save_class =
             Inr (c\<lparr>cam_origin_axis := Some (map_mat4 f axis)\<rparr>)"
proof -
  from assms obtain kvs where kvs: "dump_camera_fields c = Inr kvs" "save_class = JObj kvs"
    by (cases "dump_camera_fields c") (auto simp add: CalibrationCamera_dump_def)
  from load_dump_camera_fields [OF kvs(1), of f "[]" CalibrationCameraTop_init]
  show ?thesis
    by (cases c)
       (auto simp add: kvs CalibrationCameraTop_load_def CalibrationCameraTop_init_def
          CalibrationCamera_init_def)
qed

text \<open>
  The round trip of an object whose origin axis is set: \<open>dump\<close> succeeds and \<open>load\<close> of
  the dumped record returns the object with every scalar camera field and every target
  pose unchanged and the sixteen origin-axis values cast to single precision (unchanged
  when the cast leaves them as they are). For the generalized variant the loaded object
  has the default camera axes and direction and no additional camera: \<open>dump\<close> does not
  write them.
\<close>

lemma load_dump_roundtrip:
  "(cam_origin_axis c = Some axis \<longrightarrow>
      (\<exists>s. CalibrationCamera_dump c = Inr s
         \<and> CalibrationCamera_load float32 s =
             Inr (c\<lparr>cam_origin_axis := Some (map_mat4 float32 axis)\<rparr>)
         \<and> CalibrationCameraTop_load float32 s =
             Inr (c\<lparr>cam_origin_axis := Some (map_mat4 float32 axis)\<rparr>)))
   \<and> (cam_origin_axis y = Some axis_y \<longrightarrow>
      (\<exists>s. CalibrationCameraSideWith2TargetYXZ_dump y = Inr s
         \<and> CalibrationCameraSideWith2TargetYXZ_load float32 s =
             Inr (y\<lparr>cam_origin_axis := Some (map_mat4 float32 axis_y)\<rparr>)))
   \<and> (cam_origin_axis g = Some axis_g \<longrightarrow>
      (\<exists>s. Calibration_dump g = Inr s
         \<and> Calibration_load float32 s =
             Inr (g\<lparr>cam_origin_axis := Some (map_mat4 float32 axis_g),
                    cameras_origin_axis := default_cameras_origin_axis,
                    clockwise := True,
                    nb_targets := length (targets_parameters g),
                    others := []\<rparr>)))
   \<and> ((\<forall>x \<in> set (mat4_tolist axis). float32 x = x) \<longrightarrow> map_mat4 float32 axis = axis)"
proof (intro conjI impI)
  assume "\<forall>x \<in> set (mat4_tolist axis). float32 x = x"
  then show "map_mat4 float32 axis = axis" by (rule map_mat4_fixed)
next
  assume a: "cam_origin_axis c = Some axis"
  then obtain s where s: "CalibrationCamera_dump c = Inr s"
    using dump_camera_fields_Some [OF a] by (auto simp add: CalibrationCamera_dump_def)
  from CalibrationCamera_roundtrip [OF s, of float32]
    CalibrationCameraTop_roundtrip [OF s, of float32] a s
  show "\<exists>s. CalibrationCamera_dump c = Inr s
         \<and> CalibrationCamera_load float32 s =
             Inr (c\<lparr>cam_origin_axis := Some (map_mat4 float32 axis)\<rparr>)
         \<and> CalibrationCameraTop_load float32 s =
             Inr (c\<lparr>cam_origin_axis := Some (map_mat4 float32 axis)\<rparr>)"
    by auto
next
  assume a: "cam_origin_axis y = Some axis_y"
  then obtain s where s: "CalibrationCameraSideWith2TargetYXZ_dump y = Inr s"
    using dump_camera_fields_Some [OF a]
    by (auto simp add: CalibrationCameraSideWith2TargetYXZ_dump_def)
  from CalibrationCameraSideWith2TargetYXZ_roundtrip [OF s, of float32] a s
  show "\<exists>s. CalibrationCameraSideWith2TargetYXZ_dump y = Inr s
         \<and> CalibrationCameraSideWith2TargetYXZ_load float32 s =
             Inr (y\<lparr>cam_origin_axis := Some (map_mat4 float32 axis_y)\<rparr>)"
    by auto
next
  assume a: "cam_origin_axis g = Some axis_g"
  then obtain s where s: "Calibration_dump g = Inr s"
    using dump_camera_fields_Some [OF a] by (auto simp add: Calibration_dump_def)
  from Calibration_roundtrip [OF s, of float32] a s
  show "\<exists>s. Calibration_dump g = Inr s
         \<and> Calibration_load float32 s =
             Inr (g\<lparr>cam_origin_axis := Some (map_mat4 float32 axis_g),
                    cameras_origin_axis := default_cameras_origin_axis,
                    clockwise := True,
                    nb_targets := length (targets_parameters g),
                    others := []\<rparr>)"
    by auto
qed

section \<open>The multi-start search keeps the best attempt\<close>

text \<open>The comparison of floats is transitive and irreflexive, and what is below some
  float is below \<^verbatim>\<open>inf\<close>.\<close>

lemma float_less_trans: "float_less a b \<Longrightarrow> float_less b c \<Longrightarrow> float_less a c"
  by (cases a; cases b; cases c; simp)

lemma float_less_irrefl: "\<not> float_less a a"
  by (cases a; simp)

lemma float_less_PosInf: "float_less a b \<Longrightarrow> float_less a PosInf"
  by (cases a; cases b; simp)

lemma rng_after_Suc: "rng_after initial (Suc k) g = rng_after initial k (snd (initial g))"
  using funpow_swap1 [of "\<lambda>g. snd (initial g)" k g] by (simp add: rng_after_def)

lemma attempt_Suc:
  "attempt fit_function minimize initial g (Suc k) =
     attempt fit_function minimize initial (snd (initial g)) k"
  by (simp only: attempt_def rng_after_Suc)

lemma attempt_0:
  "attempt fit_function minimize initial g 0 =
     bind_error (minimize fit_function (fst (initial g))) (\<lambda>parameters.
     bind_error (fit_function parameters) (\<lambda>err. Inr (parameters, err)))"
  by (simp add: attempt_def rng_after_def)

lemma map_error_map: "map_error f (map h xs) = map_error (\<lambda>x. f (h x)) xs"
  by (induction xs) simp_all

lemma map_error_cong:
  "(\<And>x. x \<in> set xs \<Longrightarrow> f x = g x) \<Longrightarrow> map_error f xs = map_error g xs"
  by (induction xs) simp_all

lemma map_error_length: "map_error f xs = Inr ys \<Longrightarrow> length ys = length xs"
proof (induction xs arbitrary: ys)
  case Nil then show ?case by simp
next
  case (Cons x xs)
  then show ?case
    by (cases "f x"; cases "map_error f xs"; auto)
qed

lemma attempts_Suc:
  "map_error (attempt fit_function minimize initial g) [0 ..< Suc k] =
     bind_error (attempt fit_function minimize initial g 0) (\<lambda>r.
     bind_error (map_error (attempt fit_function minimize initial (snd (initial g))) [0 ..< k])
       (\<lambda>rs. Inr (r # rs)))"
proof -
  have "[0 ..< Suc k] = 0 # map Suc [0 ..< k]"
    by (simp add: upt_conv_Cons map_Suc_upt del: upt_Suc)
  then show ?thesis
    by (simp add: map_error_map attempt_Suc del: upt_Suc)
qed

lemma find_parameters_loop_fold:
  "find_parameters_loop fit_function minimize initial k (b, m, g) =
     (case map_error (attempt fit_function minimize initial g) [0 ..< k] of
        Inl e \<Rightarrow> Inl e
      | Inr results \<Rightarrow>
          Inr (fst (foldl (\<lambda>st r. keep_best r st) (b, m) results),
               snd (foldl (\<lambda>st r. keep_best r st) (b, m) results),
               rng_after initial k g))"
proof (induction k arbitrary: b m g)
  case 0
  show ?case by (simp add: rng_after_def)
next
  case (Suc k)
  obtain p g' where ig: "initial g = (p, g')" by (cases "initial g")
  show ?case
  proof (cases "minimize fit_function p")
    case (Inl e)
    then show ?thesis
      by (simp add: attempts_Suc attempt_0 ig del: upt_Suc)
  next
    case (Inr q)
    note mq = Inr
    show ?thesis
    proof (cases "fit_function q")
      case (Inl e)
      then show ?thesis
        by (simp add: attempts_Suc attempt_0 ig mq del: upt_Suc)
    next
      case (Inr err)
      show ?thesis
      proof (cases "float_less err m")
        case True
        show ?thesis
          using Suc.IH [of "Some q" err g'] True
          by (cases "map_error (attempt fit_function minimize initial g') [0 ..< k]")
             (simp_all add: attempts_Suc attempt_0 ig mq Inr rng_after_Suc keep_best_def
                del: upt_Suc)
      next
        case False
        show ?thesis
          using Suc.IH [of b m g'] False
          by (cases "map_error (attempt fit_function minimize initial g') [0 ..< k]")
             (simp_all add: attempts_Suc attempt_0 ig mq Inr rng_after_Suc keep_best_def
                del: upt_Suc)
      qed
    qed
  qed
qed

lemma best_kept_step:
  assumes "best_kept pre b m"
  shows "best_kept (pre @ [r]) (fst (keep_best r (b, m))) (snd (keep_best r (b, m)))"
proof (cases "float_less (snd r) m")
  case True
  have "\<And>x. x \<in> set pre \<Longrightarrow> \<not> float_less (snd x) (snd r)"
    using assms True float_less_trans unfolding best_kept_def list_all_iff by blast
  then show ?thesis
    using True float_less_PosInf [OF True]
    by (simp add: best_kept_def keep_best_def list_all_iff float_less_irrefl)
next
  case False
  then show ?thesis
    using assms
    by (auto simp add: best_kept_def keep_best_def list_all_iff
          split: option.splits)
qed

lemma best_kept_foldl:
  "best_kept pre b m \<Longrightarrow>
     best_kept (pre @ rs) (fst (foldl (\<lambda>st r. keep_best r st) (b, m) rs))
       (snd (foldl (\<lambda>st r. keep_best r st) (b, m) rs))"
proof (induction rs arbitrary: pre b m)
  case Nil then show ?case by simp
next
  case (Cons r rs)
  from Cons.IH [OF best_kept_step [OF Cons.prems, of r]]
  show ?case by (cases "keep_best r (b, m)") simp
qed

lemma best_kept_Nil: "best_kept [] None PosInf"
  by (simp add: best_kept_def)

lemma find_parameters_run_best:
  "(case map_error (attempt fit_function minimize initial g) [0 ..< nat (n + 1)] of
      Inl e \<Rightarrow> find_parameters_run fit_function minimize initial n g = Inl e
    | Inr results \<Rightarrow>
        length results = nat (n + 1)
        \<and> (\<exists>best_parameters min_err.
              find_parameters_run fit_function minimize initial n g
                = Inr (best_parameters, rng_after initial (nat (n + 1)) g)
              \<and> best_kept results best_parameters min_err))"
proof (cases "map_error (attempt fit_function minimize initial g) [0 ..< nat (n + 1)]")
  case (Inl e)
  then show ?thesis
    by (simp add: find_parameters_run_def find_parameters_loop_fold)
next
  case (Inr results)
  have len: "length results = nat (n + 1)"
    using map_error_length [OF Inr] by simp
  have "best_kept results (fst (foldl (\<lambda>st r. keep_best r st) (None, PosInf) results))
          (snd (foldl (\<lambda>st r. keep_best r st) (None, PosInf) results))"
    using best_kept_foldl [OF best_kept_Nil, of results] by simp
  then show ?thesis
    using len Inr
    by (auto simp add: find_parameters_run_def find_parameters_loop_fold)
qed

text \<open>
  Claim C6. For every integer \<open>n\<close>, \<open>find_parameters n\<close> of \<open>CalibrationCameraTop\<close> and of
  \<open>Calibration\<close> makes the attempts number \<open>0, ..., n\<close> in this order (none when \<open>n < 0\<close>);
  each attempt draws its initial guess from the random generator in the state the
  attempts before it left, minimizes from that guess and evaluates the objective at the
  converged vector. When an attempt raises, \<open>find_parameters\<close> raises the exception of
  the first attempt that does. Otherwise it has made exactly \<open>n + 1\<close> attempts (it leaves
  the generator in the state after \<open>n + 1\<close> initial guesses), and it returns either the
  converged vector of one of these attempts, whose objective value is below \<^verbatim>\<open>inf\<close> and
  such that no attempt has an objective value strictly less than it, or \<^verbatim>\<open>None\<close>, and
  then no attempt has an objective value below \<^verbatim>\<open>inf\<close>: each one is \<^verbatim>\<open>inf\<close> or \<^verbatim>\<open>nan\<close>.
\<close>

theorem C6_find_parameters_best:
  "(case map_error (attempt fit_function minimize (CalibrationCameraTop_initial uniform) g)
           [0 ..< nat (n + 1)] of
      Inl e \<Rightarrow> CalibrationCameraTop_find_parameters fit_function minimize uniform n g = Inl e
    | Inr results \<Rightarrow>
        length results = nat (n + 1)
        \<and> (\<exists>best_parameters min_err.
              CalibrationCameraTop_find_parameters fit_function minimize uniform n g
                = Inr (best_parameters,
                       rng_after (CalibrationCameraTop_initial uniform) (nat (n + 1)) g)
              \<and> best_kept results best_parameters min_err))
   \<and> (case map_error (attempt fit_function minimize (Calibration_initial uniform c) g)
           [0 ..< nat (n + 1)] of
      Inl e \<Rightarrow> Calibration_find_parameters fit_function minimize uniform c n g = Inl e
    | Inr results \<Rightarrow>
        length results = nat (n + 1)
        \<and> (\<exists>best_parameters min_err.
              Calibration_find_parameters fit_function minimize uniform c n g
                = Inr (best_parameters,
                       rng_after (Calibration_initial uniform c) (nat (n + 1)) g)
              \<and> best_kept results best_parameters min_err))"
  unfolding CalibrationCameraTop_find_parameters_def Calibration_find_parameters_def
  using find_parameters_run_best [where initial = "CalibrationCameraTop_initial uniform"]
    find_parameters_run_best [where initial = "Calibration_initial uniform c"]
  by simp


text \<open>
  Two attempts from the generator state 0, with a minimizer that adds one to every
  component and the objective \<open>10 - p[0]\<close>: the second attempt has the smaller objective
  value and its vector is returned. With an objective that raises, the exception of the
  first attempt is raised. One attempt of the generalized calibration with one target
  and one additional camera returns its converged vector.
\<close>

theorem C6_find_parameters_best_witness:
  "map_error (attempt w6_fit_function w6_minimize (CalibrationCameraTop_initial w6_uniform) 0)
     [0 ..< nat (1 + 1)]
     = Inr [([1, 2, - 497, - 496, 5, 1, 1, 1], Finite 9),
            ([6, 7, - 492, - 491, 10, 1, 1, 1], Finite 4)]
   \<and> CalibrationCameraTop_find_parameters w6_fit_function w6_minimize w6_uniform 1 0
       = Inr (Some [6, 7, - 492, - 491, 10, 1, 1, 1], 10)
   \<and> best_kept [([1, 2, - 497, - 496, 5, 1, 1, 1], Finite 9),
                 ([6, 7, - 492, - 491, 10, 1, 1, 1], Finite 4)]
        (Some [6, 7, - 492, - 491, 10, 1, 1, 1]) (Finite 4)
   \<and> CalibrationCameraTop_find_parameters (\<lambda>p. Inl ValueError) w6_minimize w6_uniform 1 (0::nat)
       = Inl ValueError
   \<and> Calibration_find_parameters w6_fit_function w6_minimize w6_uniform
       (Calibration_init 1 2 default_cameras_origin_axis True) 0 0
       = Inr (Some [5501, 5501, - 5499, 1, 1, 1, 2, - 999, - 998, - 997, pi / 2 + 1, 1, 1,
                    1004, 1005, - 194, - 193, 8, 1, 1, 1], 8)"
proof -
  have ca: "map_error (attempt w6_fit_function w6_minimize
       (Calibration_initial w6_uniform (Calibration_init 1 2 default_cameras_origin_axis True)) 0)
     [0 ..< nat (0 + 1)]
     = Inr [([5501, 5501, - 5499, 1, 1, 1, 2, - 999, - 998, - 997, pi / 2 + 1, 1, 1,
              1004, 1005, - 194, - 193, 8, 1, 1, 1], Finite (- 5491))]"
    by (simp add: attempt_def rng_after_def Calibration_initial_def Calibration_init_def
          w6_uniform_def w6_minimize_def w6_fit_function_def eval_nat_numeral)
  have cr: "rng_after (Calibration_initial w6_uniform
             (Calibration_init 1 2 default_cameras_origin_axis True)) (nat (0 + 1)) 0 = 8"
    by (simp add: rng_after_def Calibration_initial_def Calibration_init_def w6_uniform_def
          eval_nat_numeral)
  have cb: "best_kept [(p, Finite x)] bp m = (bp = Some p \<and> m = Finite x)" for p x bp m
    by (cases bp; cases m; auto simp add: best_kept_def)
  have a: "map_error (attempt w6_fit_function w6_minimize (CalibrationCameraTop_initial w6_uniform) 0)
     [0 ..< nat (1 + 1)]
     = Inr [([1, 2, - 497, - 496, 5, 1, 1, 1], Finite 9),
            ([6, 7, - 492, - 491, 10, 1, 1, 1], Finite 4)]"
    by (simp add: attempt_def rng_after_def CalibrationCameraTop_initial_def w6_uniform_def
          w6_minimize_def w6_fit_function_def eval_nat_numeral)
  have r: "rng_after (CalibrationCameraTop_initial w6_uniform) (nat (1 + 1)) 0 = 10"
    by (simp add: rng_after_def CalibrationCameraTop_initial_def w6_uniform_def eval_nat_numeral)
  have b: "best_kept [([1, 2, - 497, - 496, 5, 1, 1, 1], Finite 9),
                 ([6, 7, - 492, - 491, 10, 1, 1, 1], Finite 4)] bp m
           = (bp = Some [6, 7, - 492, - 491, 10, 1, 1, 1] \<and> m = Finite 4)" for bp m
    by (cases bp; cases m; auto simp add: best_kept_def)
  have e: "map_error (attempt (\<lambda>p. Inl ValueError) w6_minimize (CalibrationCameraTop_initial w6_uniform) (0::nat))
     [0 ..< nat (1 + 1)] = Inl ValueError"
    by (simp add: attempt_def rng_after_def w6_minimize_def eval_nat_numeral)
  from C6_find_parameters_best [where fit_function = w6_fit_function
      and minimize = w6_minimize and uniform = w6_uniform and g = "0::nat" and n = 1]
    C6_find_parameters_best [where fit_function = "\<lambda>p. Inl ValueError"
      and minimize = w6_minimize and uniform = w6_uniform and g = "0::nat" and n = 1]
    C6_find_parameters_best [where fit_function = w6_fit_function
      and minimize = w6_minimize and uniform = w6_uniform and g = "0::nat" and n = 0
      and c = "Calibration_init 1 2 default_cameras_origin_axis True"]
  show ?thesis
    unfolding a r e ca cr by (simp add: b cb)
qed

text \<open>
  With an objective that is \<^verbatim>\<open>nan\<close> at every vector the two attempts are made and
  \<open>find_parameters\<close> returns \<^verbatim>\<open>None\<close>, not the vector of an attempt: \<^verbatim>\<open>nan < inf\<close> is
  false.
\<close>

theorem C6_counterexample:
  "map_error (attempt w6_nan_function w6_minimize (CalibrationCameraTop_initial w6_uniform) 0)
     [0 ..< 2]
     = Inr [([1, 2, - 497, - 496, 5, 1, 1, 1], NaN), ([6, 7, - 492, - 491, 10, 1, 1, 1], NaN)]
   \<and> CalibrationCameraTop_find_parameters w6_nan_function w6_minimize w6_uniform 1 0
       = Inr (None, 10)"
  by (simp add: attempt_def rng_after_def CalibrationCameraTop_initial_def w6_uniform_def
        w6_minimize_def w6_nan_function_def eval_nat_numeral
        CalibrationCameraTop_find_parameters_def find_parameters_run_def)

section \<open>The layout of the generalized parameter vector\<close>

lemma take_drop_6:
  assumes "a + 6 \<le> length xs"
  shows "take 6 (drop a xs) = [xs ! a, xs ! (a + 1), xs ! (a + 2), xs ! (a + 3), xs ! (a + 4), xs ! (a + 5)]"
proof -
  have "take 6 (drop a xs) = map (\<lambda>k. xs ! (a + k)) [0 ..< 6]"
    using assms by (intro nth_equalityI) auto
  also have "[0 ..< 6] = [0, 1, 2, 3, 4, 5 :: nat]"
    by (simp add: upt_rec)
  finally show ?thesis by simp
qed

lemma take_drop_7:
  assumes "a + 7 \<le> length xs"
  shows "take 7 (drop a xs) = [xs ! a, xs ! (a + 1), xs ! (a + 2), xs ! (a + 3), xs ! (a + 4), xs ! (a + 5), xs ! (a + 6)]"
proof -
  have "take 7 (drop a xs) = map (\<lambda>k. xs ! (a + k)) [0 ..< 7]"
    using assms by (intro nth_equalityI) auto
  also have "[0 ..< 7] = [0, 1, 2, 3, 4, 5, 6 :: nat]"
    by (simp add: upt_rec)
  finally show ?thesis by simp
qed

lemma take_drop_8:
  assumes "a + 8 \<le> length xs"
  shows "take 8 (drop a xs) = [xs ! a, xs ! (a + 1), xs ! (a + 2), xs ! (a + 3), xs ! (a + 4), xs ! (a + 5), xs ! (a + 6), xs ! (a + 7)]"
proof -
  have "take 8 (drop a xs) = map (\<lambda>k. xs ! (a + k)) [0 ..< 8]"
    using assms by (intro nth_equalityI) auto
  also have "[0 ..< 8] = [0, 1, 2, 3, 4, 5, 6, 7 :: nat]"
    by (simp add: upt_rec)
  finally show ?thesis by simp
qed

lemma fit_unpack_reference_slots:
  assumes "7 \<le> length x0"
  shows "fit_unpack_reference x0 = Inr (x0 ! 0, x0 ! 1, x0 ! 2, x0 ! 3, x0 ! 4, x0 ! 5, x0 ! 6)"
  using take_drop_7 [of 0 x0] assms
  by (simp add: fit_unpack_reference_def py_slice_def numeral_2_eq_2)

lemma fit_unpack_target_slots:
  assumes "7 + i * 6 + 6 \<le> length x0"
  shows "fit_unpack_target x0 i =
           Inr (x0 ! (7 + i * 6), x0 ! (7 + i * 6 + 1), x0 ! (7 + i * 6 + 2),
                x0 ! (7 + i * 6 + 3), x0 ! (7 + i * 6 + 4), x0 ! (7 + i * 6 + 5))"
  using take_drop_6 [of "7 + i * 6" x0] assms
  by (simp add: fit_unpack_target_def py_slice_def)

lemma fit_unpack_other_slots:
  assumes "7 + nb_targets c * 6 + j * 8 + 8 \<le> length x0"
  shows "fit_unpack_other c x0 j =
           (let offset = 7 + nb_targets c * 6 + j * 8
            in Inr (x0 ! offset, x0 ! (offset + 1), x0 ! (offset + 2), x0 ! (offset + 3),
                    x0 ! (offset + 4), x0 ! (offset + 5), x0 ! (offset + 6), x0 ! (offset + 7)))"
  using take_drop_8 [of "7 + nb_targets c * 6 + j * 8" x0] assms
  by (simp add: fit_unpack_other_def py_slice_def Let_def)

lemma map_error_Inr:
  assumes "\<And>x. x \<in> set xs \<Longrightarrow> f x = Inr (g x)"
  shows "map_error f xs = Inr (map g xs)"
  using assms by (induction xs) simp_all

lemma getitem_list_Inr: "i < length xs \<Longrightarrow> getitem_list xs i = Inr (xs ! i)"
  by (simp add: getitem_list_def)

lemma calibrate_target_slots:
  assumes "7 + i * 6 + 6 \<le> length x0"
  shows "calibrate_target x0 (i, tp) =
           Inr (tp\<lparr>tp_pos_x := JNum (x0 ! (7 + i * 6)),
                   tp_pos_y := JNum (x0 ! (8 + i * 6)),
                   tp_pos_z := JNum (x0 ! (9 + i * 6)),
                   tp_rot_x := JNum (py_fmod (x0 ! (10 + i * 6)) pi * 2),
                   tp_rot_y := JNum (py_fmod (x0 ! (11 + i * 6)) pi * 2),
                   tp_rot_z := JNum (py_fmod (x0 ! (12 + i * 6)) pi * 2)\<rparr>)"
  using assms by (simp add: calibrate_target_def getitem_list_Inr)

lemma calibrate_other_slots:
  assumes "offset + j * 8 + 8 \<le> length x0" "6 < length x0"
  shows "calibrate_other x0 offset (j, camera) =
           Inr (camera\<lparr>cam_focal_length_x := JNum (x0 ! (offset + j * 8)),
                       cam_focal_length_y := JNum (x0 ! (offset + j * 8 + 1)),
                       cam_pos_x := JNum (x0 ! (offset + j * 8 + 2)),
                       cam_pos_y := JNum (x0 ! (offset + j * 8 + 3)),
                       cam_pos_z := JNum (x0 ! (offset + j * 8 + 4)),
                       cam_rot_x := JNum (py_fmod (x0 ! (offset + j * 8 + 5)) pi * 2),
                       cam_rot_y := JNum (py_fmod (x0 ! (offset + j * 8 + 6)) pi * 2),
                       cam_rot_z := JNum (py_fmod (x0 ! (offset + j * 8 + 7)) pi * 2),
                       angle_factor := JNum (x0 ! 6)\<rparr>)"
  using assms by (simp add: calibrate_other_def getitem_list_Inr)

lemma set_image_sizes_replicate:
  "set_image_sizes sizes (replicate (length sizes) camera) =
     Inr (map (\<lambda>s. camera\<lparr>cam_width_image := JNum (fst s),
                            cam_height_image := JNum (snd s)\<rparr>) sizes)"
  by (induction sizes) simp_all

lemma in_set_enumerate_lt:
  "(i, x) \<in> set (enumerate 0 xs) \<Longrightarrow> i < length xs"
  by (simp add: in_set_enumerate_eq)

lemma calibrate_targets_fresh:
  assumes "7 + T * 6 \<le> length x0"
  shows "map_error (calibrate_target x0) (enumerate 0 (replicate T TargetParameters_init))
           = Inr (map (stored_target x0) [0 ..< T])"
proof -
  have "map_error (calibrate_target x0) (enumerate 0 (replicate T TargetParameters_init))
          = Inr (map (\<lambda>it. stored_target x0 (fst it)) (enumerate 0 (replicate T TargetParameters_init)))"
  proof (rule map_error_Inr)
    fix it assume mem: "it \<in> set (enumerate 0 (replicate T TargetParameters_init))"
    obtain i t where it0: "it = (i, t)" by (cases it)
    with mem have it: "it = (i, TargetParameters_init)" and i: "i < T"
      by (auto simp add: in_set_enumerate_eq)
    from i assms have "7 + i * 6 + 6 \<le> length x0" by simp
    from calibrate_target_slots [OF this, of TargetParameters_init]
    show "calibrate_target x0 it = Inr (stored_target x0 (fst it))"
      by (simp add: it stored_target_def TargetParameters_init_def)
  qed
  also have "map (\<lambda>it. stored_target x0 (fst it)) (enumerate 0 (replicate T TargetParameters_init))
               = map (stored_target x0) [0 ..< T]"
    by (simp add: enumerate_eq_zip map_fst_zip flip: map_map [unfolded comp_def])
  finally show ?thesis .
qed

lemma calibrate_others_fresh:
  assumes "offset + length sizes * 8 \<le> length x0" "6 < length x0"
  shows "map_error (calibrate_other x0 offset)
           (enumerate 0 (map (\<lambda>s. CalibrationCamera_init\<lparr>cam_width_image := JNum (fst s),
                            cam_height_image := JNum (snd s)\<rparr>) sizes))
           = Inr (map (\<lambda>js. stored_other x0 offset (fst js) (snd js)) (enumerate 0 sizes))"
proof -
  let ?cams = "map (\<lambda>s. CalibrationCamera_init\<lparr>cam_width_image := JNum (fst s),
                            cam_height_image := JNum (snd s)\<rparr>) sizes"
  let ?g = "\<lambda>jc. (snd jc)\<lparr>cam_focal_length_x := JNum (x0 ! (offset + fst jc * 8)),
                       cam_focal_length_y := JNum (x0 ! (offset + fst jc * 8 + 1)),
                       cam_pos_x := JNum (x0 ! (offset + fst jc * 8 + 2)),
                       cam_pos_y := JNum (x0 ! (offset + fst jc * 8 + 3)),
                       cam_pos_z := JNum (x0 ! (offset + fst jc * 8 + 4)),
                       cam_rot_x := JNum (py_fmod (x0 ! (offset + fst jc * 8 + 5)) pi * 2),
                       cam_rot_y := JNum (py_fmod (x0 ! (offset + fst jc * 8 + 6)) pi * 2),
                       cam_rot_z := JNum (py_fmod (x0 ! (offset + fst jc * 8 + 7)) pi * 2),
                       angle_factor := JNum (x0 ! 6)\<rparr>"
  have "map_error (calibrate_other x0 offset) (enumerate 0 ?cams) = Inr (map ?g (enumerate 0 ?cams))"
  proof (rule map_error_Inr)
    fix jc assume mem: "jc \<in> set (enumerate 0 ?cams)"
    obtain j cam where "jc = (j, cam)" by (cases jc)
    with mem have "fst jc < length sizes"
      by (simp add: in_set_enumerate_eq)
    with assms have "offset + fst jc * 8 + 8 \<le> length x0" by simp
    from calibrate_other_slots [OF this assms(2), of "snd jc"]
    show "calibrate_other x0 offset jc = Inr (?g jc)"
      by simp
  qed
  also have "map ?g (enumerate 0 ?cams)
               = map (\<lambda>js. stored_other x0 offset (fst js) (snd js)) (enumerate 0 sizes)"
    by (rule nth_equalityI)
       (simp_all add: nth_enumerate_eq stored_other_def CalibrationCamera_init_def)
  finally show ?thesis .
qed

lemma initial_targets_blocks:
  "\<exists>tb g'. initial_targets uniform n (ps, g) = (ps @ concat tb, g')
            \<and> length tb = n \<and> list_all target_block tb"
proof (induction n arbitrary: ps g)
  case 0
  show ?case by (rule exI [of _ "[]"]) simp
next
  case (Suc n)
  obtain x g1 where u1: "uniform (- 1000) 1000 g = (x, g1)" by (cases "uniform (- 1000) 1000 g")
  obtain y g2 where u2: "uniform (- 1000) 1000 g1 = (y, g2)" by (cases "uniform (- 1000) 1000 g1")
  obtain z g3 where u3: "uniform (- 1000) 1000 g2 = (z, g3)" by (cases "uniform (- 1000) 1000 g2")
  let ?b = "[x, y, z, pi / 2, 0, 0]"
  from Suc.IH [of "ps @ ?b" g3] obtain tb g'
    where ih: "initial_targets uniform n (ps @ ?b, g3) = ((ps @ ?b) @ concat tb, g')"
      "length tb = n" "list_all target_block tb"
    by blast
  have "initial_targets uniform (Suc n) (ps, g) = (ps @ concat (?b # tb), g')"
    using ih(1) by (simp add: u1 u2 u3)
  moreover have "length (?b # tb) = Suc n" using ih(2) by simp
  moreover have "list_all target_block (?b # tb)"
    using ih(3) by (auto simp add: target_block_def)
  ultimately show ?case by blast
qed

lemma initial_others_blocks:
  "\<exists>ob g'. initial_others uniform n (ps, g) = (ps @ concat ob, g')
            \<and> length ob = n \<and> list_all other_block ob"
proof (induction n arbitrary: ps g)
  case 0
  show ?case by (rule exI [of _ "[]"]) simp
next
  case (Suc n)
  obtain fx g1 where u1: "uniform 1000 10000 g = (fx, g1)" by (cases "uniform 1000 10000 g")
  obtain fy g2 where u2: "uniform 1000 10000 g1 = (fy, g2)" by (cases "uniform 1000 10000 g1")
  obtain x g3 where u3: "uniform (- 200) 200 g2 = (x, g3)" by (cases "uniform (- 200) 200 g2")
  obtain y g4 where u4: "uniform (- 200) 500 g3 = (y, g4)" by (cases "uniform (- 200) 500 g3")
  obtain z g5 where u5: "uniform 0 5000 g4 = (z, g5)" by (cases "uniform 0 5000 g4")
  let ?b = "[fx, fy, x, y, z, 0, 0, 0]"
  from Suc.IH [of "ps @ ?b" g5] obtain ob g'
    where ih: "initial_others uniform n (ps @ ?b, g5) = ((ps @ ?b) @ concat ob, g')"
      "length ob = n" "list_all other_block ob"
    by blast
  have "initial_others uniform (Suc n) (ps, g) = (ps @ concat (?b # ob), g')"
    using ih(1) by (simp add: u1 u2 u3 u4 u5)
  moreover have "length (?b # ob) = Suc n" using ih(2) by simp
  moreover have "list_all other_block (?b # ob)"
    using ih(3) by (auto simp add: other_block_def)
  ultimately show ?case by blast
qed

lemma Calibration_initial_layout:
  "\<exists>tb ob g'. Calibration_initial uniform c g
                 = ([5500, 5500, - 5500, 0, 0, 0, 1] @ concat tb @ concat ob, g')
      \<and> length tb = nb_targets c \<and> list_all target_block tb
      \<and> length ob = length (others c) \<and> list_all other_block ob"
proof -
  let ?ref = "[5500, 5500, - 5500, 0, 0, 0, 1 :: real]"
  obtain tb g1 where t: "initial_targets uniform (nb_targets c) (?ref, g) = (?ref @ concat tb, g1)"
    "length tb = nb_targets c" "list_all target_block tb"
    using initial_targets_blocks [of uniform "nb_targets c" ?ref g] by blast
  obtain ob g2 where ot: "initial_others uniform (length (others c)) (?ref @ concat tb, g1)
        = ((?ref @ concat tb) @ concat ob, g2)"
    "length ob = length (others c)" "list_all other_block ob"
    using initial_others_blocks [of uniform "length (others c)" "?ref @ concat tb" g1] by blast
  have "Calibration_initial uniform c g = (?ref @ concat tb @ concat ob, g2)"
    by (simp only: Calibration_initial_def t(1) ot(1) append_assoc)
  with t(2,3) ot(2,3) show ?thesis by blast
qed

lemma Calibration_calibrate_fresh:
  assumes len: "length x0 = 7 + T * 6 + A * 8" and sz: "length sizes = A"
  shows "Calibration_calibrate (Calibration_init T (Suc A) axes cw) size_image sizes x0 =
           Inr ((Calibration_init T (Suc A) axes cw)
                  \<lparr>cam_width_image := JNum (fst size_image),
                   cam_height_image := JNum (snd size_image),
                   cam_focal_length_x := JNum (x0 ! 0),
                   cam_focal_length_y := JNum (x0 ! 1),
                   cam_pos_y := JNum (x0 ! 2),
                   cam_rot_x := JNum (py_fmod (x0 ! 3) pi * 2),
                   cam_rot_y := JNum (py_fmod (x0 ! 4) pi * 2),
                   cam_rot_z := JNum (py_fmod (x0 ! 5) pi * 2),
                   angle_factor := JNum (x0 ! 6),
                   targets_parameters := map (stored_target x0) [0 ..< T],
                   others := map (\<lambda>js. stored_other x0 (7 + T * 6) (fst js) (snd js))
                               (enumerate 0 sizes)\<rparr>)"
proof -
  let ?c = "Calibration_init T (Suc A) axes cw"
  have f: "nb_targets ?c = T" "targets_parameters ?c = replicate T TargetParameters_init"
    "others ?c = replicate (length sizes) CalibrationCamera_init"
    by (simp_all add: Calibration_init_def sz)
  have t: "map_error (calibrate_target x0) (enumerate 0 (replicate T TargetParameters_init))
           = Inr (map (stored_target x0) [0 ..< T])"
    by (rule calibrate_targets_fresh) (simp add: len)
  have o: "map_error (calibrate_other x0 (7 + T * 6))
           (enumerate 0 (map (\<lambda>s. CalibrationCamera_init\<lparr>cam_width_image := JNum (fst s),
                            cam_height_image := JNum (snd s)\<rparr>) sizes))
           = Inr (map (\<lambda>js. stored_other x0 (7 + T * 6) (fst js) (snd js)) (enumerate 0 sizes))"
    by (rule calibrate_others_fresh) (simp_all add: len sz)
  show ?thesis
    unfolding Calibration_calibrate_def f set_image_sizes_replicate bind_error.simps
    by (simp add: getitem_list_Inr len t o Let_def)
qed

text \<open>On a vector of the layout's length every slice of \<open>fit_function\<close> succeeds, and
  the objective is the one the layout gives.\<close>

lemma sum_errors_cong:
  "(\<And>x. x \<in> set xs \<Longrightarrow> f x = g x) \<Longrightarrow> sum_errors f xs = sum_errors g xs"
  by (induction xs) simp_all

lemma Calibration_fit_function_layout:
  assumes len: "length x0 = 7 + nb_targets c * 6 + length (others c) * 8"
  shows "Calibration_fit_function c layouts ref_obs others_obs x0 = layout_objective c layouts ref_obs others_obs x0"
proof -
  have r: "fit_unpack_reference x0 = Inr (x0 ! 0, x0 ! 1, x0 ! 2, x0 ! 3, x0 ! 4, x0 ! 5, x0 ! 6)"
    by (rule fit_unpack_reference_slots) (simp add: len)
  have t: "fit_unpack_target x0 i =
           Inr (x0 ! (7 + i * 6), x0 ! (7 + i * 6 + 1), x0 ! (7 + i * 6 + 2),
                x0 ! (7 + i * 6 + 3), x0 ! (7 + i * 6 + 4), x0 ! (7 + i * 6 + 5))"
    if "i < nb_targets c" for i
  proof -
    from that have "7 + i * 6 + 6 \<le> length x0" by (simp add: len)
    then show ?thesis by (rule fit_unpack_target_slots)
  qed
  have o: "fit_unpack_other c x0 j =
           Inr (x0 ! (7 + nb_targets c * 6 + j * 8), x0 ! (7 + nb_targets c * 6 + j * 8 + 1),
                x0 ! (7 + nb_targets c * 6 + j * 8 + 2), x0 ! (7 + nb_targets c * 6 + j * 8 + 3),
                x0 ! (7 + nb_targets c * 6 + j * 8 + 4), x0 ! (7 + nb_targets c * 6 + j * 8 + 5),
                x0 ! (7 + nb_targets c * 6 + j * 8 + 6), x0 ! (7 + nb_targets c * 6 + j * 8 + 7))"
    if "j < length (others c)" for j
  proof -
    from that have "7 + nb_targets c * 6 + j * 8 + 8 \<le> length x0" by (simp add: len)
    from fit_unpack_other_slots [OF this] show ?thesis by (simp add: Let_def)
  qed
  have inner: "sum_errors (\<lambda>i. bind_error (fit_unpack_target x0 i) (F i)) [0 ..< nb_targets c]
          = sum_errors (\<lambda>i. F i (x0 ! (7 + i * 6), x0 ! (7 + i * 6 + 1), x0 ! (7 + i * 6 + 2),
                x0 ! (7 + i * 6 + 3), x0 ! (7 + i * 6 + 4), x0 ! (7 + i * 6 + 5)))
              [0 ..< nb_targets c]" for F :: "nat \<Rightarrow> _ \<Rightarrow> error + real"
    by (rule sum_errors_cong) (simp add: t)
  have obs: "sum_errors (\<lambda>observation. bind_error (fit_unpack_target x0 i) (\<lambda>pose. G pose observation)) xs
          = sum_errors (G (x0 ! (7 + i * 6), x0 ! (7 + i * 6 + 1), x0 ! (7 + i * 6 + 2),
                x0 ! (7 + i * 6 + 3), x0 ! (7 + i * 6 + 4), x0 ! (7 + i * 6 + 5))) xs"
    if "i < nb_targets c" for i xs and G :: "_ \<Rightarrow> _ \<Rightarrow> error + real"
    by (simp add: t [OF that])
  have ref: "sum_errors (\<lambda>i.
                 bind_error (getitem_list ref_obs i) (\<lambda>observations.
                 sum_errors (\<lambda>observation.
                   bind_error (fit_unpack_target x0 i) (\<lambda>pose.
                   observation_error c layouts fr w h fx fy fac pose i observation))
                   observations))
                 [0 ..< nb_targets c]
           = sum_errors (\<lambda>i.
              bind_error (getitem_list ref_obs i) (\<lambda>observations.
              sum_errors
                (observation_error c layouts fr w h fx fy fac
                   (x0 ! (7 + i * 6), x0 ! (7 + i * 6 + 1), x0 ! (7 + i * 6 + 2),
                    x0 ! (7 + i * 6 + 3), x0 ! (7 + i * 6 + 4), x0 ! (7 + i * 6 + 5)) i)
                observations))
              [0 ..< nb_targets c]" for fr w h fx fy fac
    by (rule sum_errors_cong) (simp add: t)
  have oth: "sum_errors (\<lambda>(i, camera).
                 bind_error (fit_unpack_other c x0 i) (H i camera)) (enumerate 0 (others c))
           = sum_errors (\<lambda>(j, camera). H j camera
               (x0 ! (7 + nb_targets c * 6 + j * 8), x0 ! (7 + nb_targets c * 6 + j * 8 + 1),
                x0 ! (7 + nb_targets c * 6 + j * 8 + 2), x0 ! (7 + nb_targets c * 6 + j * 8 + 3),
                x0 ! (7 + nb_targets c * 6 + j * 8 + 4), x0 ! (7 + nb_targets c * 6 + j * 8 + 5),
                x0 ! (7 + nb_targets c * 6 + j * 8 + 6), x0 ! (7 + nb_targets c * 6 + j * 8 + 7)))
              (enumerate 0 (others c))" for H :: "nat \<Rightarrow> _ \<Rightarrow> _ \<Rightarrow> error + real"
    by (rule sum_errors_cong) (auto simp add: in_set_enumerate_eq o)
  show ?thesis
    unfolding Calibration_fit_function_def layout_objective_def Let_def r bind_error.simps
      prod.case ref oth inner
    by simp
qed


lemma target_frame_position:
  "target_frame px py pz 0 0 0 0 = Frame ((1,0,0),(0,1,0),(0,0,1)) (px, py, pz)"
  by (simp add: target_frame_def rotation_matrix_zero concatenate_matrices_def mat4_mul_identity4)
     (simp add: identity4_def)

lemma camera_frame_position:
  "camera_frame px py pz 0 0 0 identity4 = Frame ((1,0,0),(0,1,0),(0,0,1)) (px, py, pz)"
  by (simp add: camera_frame_def rotation_matrix_zero concatenate_matrices_def mat4_mul_identity4)
     (simp add: identity4_def)

lemma identity_axes: "cam_origin_axis_from_axes ((1, 0, 0), (0, 1, 0), (0, 0, 1)) = identity4"
  by (simp add: cam_origin_axis_from_axes_def rotation_to_global_def Frame_def identity4_def)

lemma c4_layout_objective:
  "layout_objective c4_calibration [ [(0, 0, 0)]] [ [(0, [(50, 52)])]] [ [ [(0, [(51, 50)])]]] c4_fit_x0
     = Inr 3"
proof -
  have nb: "nb_targets c4_calibration = 1" "clockwise c4_calibration"
    "cameras_origin_axis c4_calibration = ((1, 0, 0), (0, 1, 0), (0, 0, 1))"
    "others c4_calibration =
       [CalibrationCamera_init\<lparr>cam_width_image := JNum 100, cam_height_image := JNum 100\<rparr>]"
    "cam_width_image c4_calibration = JNum 100" "cam_height_image c4_calibration = JNum 100"
    by (simp_all add: c4_calibration_def Calibration_init_def)
  have x: "c4_fit_x0 ! 0 = 2" "c4_fit_x0 ! 1 = 2" "c4_fit_x0 ! Suc 0 = 2" "c4_fit_x0 ! 2 = - 1" "c4_fit_x0 ! 3 = 0"
    "c4_fit_x0 ! 4 = 0" "c4_fit_x0 ! 5 = 0" "c4_fit_x0 ! 6 = 1"
    "c4_fit_x0 ! 7 = 0" "c4_fit_x0 ! 8 = 0" "c4_fit_x0 ! 9 = 2" "c4_fit_x0 ! 10 = 0"
    "c4_fit_x0 ! 11 = 0" "c4_fit_x0 ! 12 = 0"
    "c4_fit_x0 ! 13 = 3" "c4_fit_x0 ! 14 = 3" "c4_fit_x0 ! 15 = 1" "c4_fit_x0 ! 16 = 0"
    "c4_fit_x0 ! 17 = - 1" "c4_fit_x0 ! 18 = 0" "c4_fit_x0 ! 19 = 0" "c4_fit_x0 ! 20 = 0"
    by (simp_all add: c4_fit_x0_def eval_nat_numeral)
  have obs_ref: "observation_error c4_calibration [ [(0, 0, 0)]]
               (Frame ((1,0,0),(0,1,0),(0,0,1)) (0, - 1, 0)) (JNum 100) (JNum 100) 2 2 1
               (0, 0, 2, 0, 0, 0) 0 (0, [(50, 52)]) = Inr 1"
    by (simp add: observation_error_def nb radians_def target_frame_position getitem_list_def
        global_points_def global_point_def local_points_def local_point_def
        Frame_def pixel_coordinates_batch_def residual_def distance_2d_def)
  have obs_other: "observation_error c4_calibration [ [(0, 0, 0)]]
               (Frame ((1,0,0),(0,1,0),(0,0,1)) (1, 0, - 1)) (JNum 100) (JNum 100) 3 3 1
               (0, 0, 2, 0, 0, 0) 0 (0, [(51, 50)]) = Inr 2"
    by (simp add: observation_error_def nb radians_def target_frame_position getitem_list_def
        global_points_def global_point_def local_points_def local_point_def
        Frame_def pixel_coordinates_batch_def residual_def distance_2d_def)
  show ?thesis
    by (simp add: layout_objective_def nb identity_axes x camera_frame_position
        getitem_list_def obs_ref obs_other CalibrationCamera_init_def)
qed

text \<open>
  Claim C4. For \<open>T\<close> targets and \<open>A\<close> additional cameras, the initial guess of the
  generalized calibration is the 7 reference-camera values followed by \<open>T\<close> blocks of 6
  and \<open>A\<close> blocks of 8; on a vector of that length \<open>fit_function\<close> unpacks the reference
  camera from slots 0..6, target \<open>i\<close> from the 6 slots at \<open>7 + i * 6\<close> and additional
  camera \<open>j\<close> from the 8 slots at \<open>7 + T * 6 + j * 8\<close>, and \<open>calibrate\<close> stores each
  attribute from the same slot (a rotation after its post-processing). The value of
  \<open>fit_function\<close> on an object with \<open>T\<close> targets and \<open>A\<close> additional cameras, whatever
  its corner layouts and observations, is the objective in which every parameter is
  read by its role from its slot of the layout.
\<close>

theorem C4_parameter_layout:
  assumes "length x0 = 7 + T * 6 + A * 8" and "length sizes = A"
  shows
    "(\<exists>tb ob g'.
        Calibration_initial uniform (Calibration_init T (Suc A) axes cw) g
          = ([5500, 5500, - 5500, 0, 0, 0, 1] @ concat tb @ concat ob, g')
        \<and> length tb = T \<and> list_all target_block tb
        \<and> length ob = A \<and> list_all other_block ob)
     \<and> fit_unpack_reference x0 = Inr (x0 ! 0, x0 ! 1, x0 ! 2, x0 ! 3, x0 ! 4, x0 ! 5, x0 ! 6)
     \<and> (\<forall>i < T. fit_unpack_target x0 i =
           Inr (x0 ! (7 + i * 6), x0 ! (7 + i * 6 + 1), x0 ! (7 + i * 6 + 2),
                x0 ! (7 + i * 6 + 3), x0 ! (7 + i * 6 + 4), x0 ! (7 + i * 6 + 5)))
     \<and> (\<forall>j < A. fit_unpack_other (Calibration_init T (Suc A) axes cw) x0 j =
           Inr (x0 ! (7 + T * 6 + j * 8), x0 ! (7 + T * 6 + j * 8 + 1),
                x0 ! (7 + T * 6 + j * 8 + 2), x0 ! (7 + T * 6 + j * 8 + 3),
                x0 ! (7 + T * 6 + j * 8 + 4), x0 ! (7 + T * 6 + j * 8 + 5),
                x0 ! (7 + T * 6 + j * 8 + 6), x0 ! (7 + T * 6 + j * 8 + 7)))
     \<and> (\<forall>c layouts ref_obs others_obs.
           nb_targets c = T \<and> length (others c) = A \<longrightarrow>
           Calibration_fit_function c layouts ref_obs others_obs x0
             = layout_objective c layouts ref_obs others_obs x0)
     \<and> Calibration_calibrate (Calibration_init T (Suc A) axes cw) size_image sizes x0 =
           Inr ((Calibration_init T (Suc A) axes cw)
                  \<lparr>cam_width_image := JNum (fst size_image),
                   cam_height_image := JNum (snd size_image),
                   cam_focal_length_x := JNum (x0 ! 0),
                   cam_focal_length_y := JNum (x0 ! 1),
                   cam_pos_y := JNum (x0 ! 2),
                   cam_rot_x := JNum (py_fmod (x0 ! 3) pi * 2),
                   cam_rot_y := JNum (py_fmod (x0 ! 4) pi * 2),
                   cam_rot_z := JNum (py_fmod (x0 ! 5) pi * 2),
                   angle_factor := JNum (x0 ! 6),
                   targets_parameters := map (stored_target x0) [0 ..< T],
                   others := map (\<lambda>js. stored_other x0 (7 + T * 6) (fst js) (snd js))
                               (enumerate 0 sizes)\<rparr>)"
proof -
  let ?c = "Calibration_init T (Suc A) axes cw"
  have c: "nb_targets ?c = T" "length (others ?c) = A"
    by (simp_all add: Calibration_init_def)
  have init: "\<exists>tb ob g'.
        Calibration_initial uniform ?c g
          = ([5500, 5500, - 5500, 0, 0, 0, 1] @ concat tb @ concat ob, g')
        \<and> length tb = T \<and> list_all target_block tb
        \<and> length ob = A \<and> list_all other_block ob"
    using Calibration_initial_layout [of uniform ?c g] by (simp only: c)
  have r: "fit_unpack_reference x0 = Inr (x0 ! 0, x0 ! 1, x0 ! 2, x0 ! 3, x0 ! 4, x0 ! 5, x0 ! 6)"
    by (rule fit_unpack_reference_slots) (simp add: assms)
  have t: "\<forall>i < T. fit_unpack_target x0 i =
           Inr (x0 ! (7 + i * 6), x0 ! (7 + i * 6 + 1), x0 ! (7 + i * 6 + 2),
                x0 ! (7 + i * 6 + 3), x0 ! (7 + i * 6 + 4), x0 ! (7 + i * 6 + 5))"
  proof (intro allI impI)
    fix i assume "i < T"
    then have "7 + i * 6 + 6 \<le> length x0" by (simp add: assms)
    then show "fit_unpack_target x0 i =
           Inr (x0 ! (7 + i * 6), x0 ! (7 + i * 6 + 1), x0 ! (7 + i * 6 + 2),
                x0 ! (7 + i * 6 + 3), x0 ! (7 + i * 6 + 4), x0 ! (7 + i * 6 + 5))"
      by (rule fit_unpack_target_slots)
  qed
  have o: "\<forall>j < A. fit_unpack_other ?c x0 j =
           Inr (x0 ! (7 + T * 6 + j * 8), x0 ! (7 + T * 6 + j * 8 + 1),
                x0 ! (7 + T * 6 + j * 8 + 2), x0 ! (7 + T * 6 + j * 8 + 3),
                x0 ! (7 + T * 6 + j * 8 + 4), x0 ! (7 + T * 6 + j * 8 + 5),
                x0 ! (7 + T * 6 + j * 8 + 6), x0 ! (7 + T * 6 + j * 8 + 7))"
  proof (intro allI impI)
    fix j assume "j < A"
    then have "7 + nb_targets ?c * 6 + j * 8 + 8 \<le> length x0" by (simp add: assms c)
    from fit_unpack_other_slots [OF this]
    show "fit_unpack_other ?c x0 j =
           Inr (x0 ! (7 + T * 6 + j * 8), x0 ! (7 + T * 6 + j * 8 + 1),
                x0 ! (7 + T * 6 + j * 8 + 2), x0 ! (7 + T * 6 + j * 8 + 3),
                x0 ! (7 + T * 6 + j * 8 + 4), x0 ! (7 + T * 6 + j * 8 + 5),
                x0 ! (7 + T * 6 + j * 8 + 6), x0 ! (7 + T * 6 + j * 8 + 7))"
      by (simp add: c Let_def)
  qed
  have f: "\<forall>c layouts ref_obs others_obs.
           nb_targets c = T \<and> length (others c) = A \<longrightarrow>
           Calibration_fit_function c layouts ref_obs others_obs x0
             = layout_objective c layouts ref_obs others_obs x0"
    by (intro allI impI, rule Calibration_fit_function_layout) (simp add: assms)
  from init r t o f Calibration_calibrate_fresh [OF assms, of axes cw size_image]
  show ?thesis by (intro conjI)
qed

theorem C4_parameter_layout_witness:
  "length c4_x0 = 7 + 1 * 6 + 1 * 8
   \<and> fit_unpack_reference c4_x0 = Inr (1, 2, 3, 4, 5, 6, 7)
   \<and> fit_unpack_target c4_x0 0 = Inr (8, 9, 10, 11, 12, 13)
   \<and> fit_unpack_other (Calibration_init 1 (Suc 1) default_cameras_origin_axis True) c4_x0 0
       = Inr (14, 15, 16, 17, 18, 19, 20, 21)
   \<and> map_sum id (\<lambda>c. map tp_pos_x (targets_parameters c))
        (Calibration_calibrate (Calibration_init 1 (Suc 1) default_cameras_origin_axis True)
           (640, 480) [(640, 480)] c4_x0) = Inr [JNum 8]
   \<and> map_sum id (\<lambda>c. map cam_focal_length_x (others c))
        (Calibration_calibrate (Calibration_init 1 (Suc 1) default_cameras_origin_axis True)
           (640, 480) [(640, 480)] c4_x0) = Inr [JNum 14]
   \<and> length c4_fit_x0 = 7 + 1 * 6 + 1 * 8
   \<and> nb_targets c4_calibration = 1 \<and> length (others c4_calibration) = 1
   \<and> Calibration_fit_function c4_calibration [ [(0, 0, 0)]] [ [(0, [(50, 52)])]]
        [ [ [(0, [(51, 50)])]]] c4_fit_x0 = Inr 3"
proof -
  have l: "length c4_x0 = 7 + 1 * 6 + 1 * 8" by (simp add: c4_x0_def)
  have s: "length [(640, 480) :: real \<times> real] = 1" by simp
  have l2: "length c4_fit_x0 = 7 + 1 * 6 + 1 * 8" by (simp add: c4_fit_x0_def)
  have nb: "nb_targets c4_calibration = 1 \<and> length (others c4_calibration) = 1"
    by (simp add: c4_calibration_def Calibration_init_def)
  have "Calibration_fit_function c4_calibration [ [(0, 0, 0)]] [ [(0, [(50, 52)])]]
          [ [ [(0, [(51, 50)])]]] c4_fit_x0
        = layout_objective c4_calibration [ [(0, 0, 0)]] [ [(0, [(50, 52)])]]
            [ [ [(0, [(51, 50)])]]] c4_fit_x0"
    using C4_parameter_layout [OF l2 s, of w6_uniform default_cameras_origin_axis True 0 "(640, 480)"]
      nb
    by blast
  then have fit: "Calibration_fit_function c4_calibration [ [(0, 0, 0)]] [ [(0, [(50, 52)])]]
        [ [ [(0, [(51, 50)])]]] c4_fit_x0 = Inr 3"
    by (simp only: c4_layout_objective)
  from C4_parameter_layout [OF l s, of w6_uniform default_cameras_origin_axis True 0 "(640, 480)"]
    l l2 nb fit
  show ?thesis
    by (simp add: c4_x0_def stored_target_def stored_other_def enumerate_eq_zip)
qed

section \<open>The objective of the generalized calibration on additional cameras\<close>

lemma camera_frame_identity:
  "camera_frame px py pz 0 0 0 identity4 = Frame ((1,0,0),(0,1,0),(0,0,1)) (px, py, pz)"
  by (simp add: camera_frame_def rotation_matrix_zero concatenate_matrices_def mat4_mul_identity4)
     (simp add: identity4_def)

lemma target_frame_zero:
  "target_frame 0 0 0 0 0 0 0 = Frame ((1,0,0),(0,1,0),(0,0,1)) (0, 0, 0)"
  by (simp add: target_frame_def rotation_matrix_zero concatenate_matrices_def mat4_mul_identity4)
     (simp add: identity4_def)

lemma c5_axis: "cam_origin_axis_from_axes ((1, 0, 0), (0, 1, 0), (0, 0, 1)) = identity4"
  by (simp add: cam_origin_axis_from_axes_def rotation_to_global_def Frame_def identity4_def)

lemma c5_unpack:
  "fit_unpack_reference c5_x0 = Inr (1, 1, - 1, 0, 0, 0, 1)"
  "fit_unpack_target c5_x0 0 = Inr (0, 0, 0, 0, 0, 0)"
  "fit_unpack_target c5_x0 (Suc 0) = Inr (0, 0, 0, 0, 0, 0)"
  "fit_unpack_other c5_calibration c5_x0 0 = Inr (1, 1, 0, 0, - 1, 0, 0, 0)"
  by (simp_all add: fit_unpack_reference_def fit_unpack_target_def fit_unpack_other_def
      c5_x0_def py_slice_def c5_calibration_def Calibration_init_def)

lemma upt2: "[0 ..< 2] = [0, Suc 0]"
  by (simp add: upt_rec)

text \<open>
  Claim C5 (the code departs from it). In the loop over additional cameras the residual
  for camera \<open>i\<close> and target \<open>j\<close> should map target \<open>j\<close>'s own corner layout into the
  world. The code indexes the layouts with the camera number \<open>i\<close>. With the additional
  camera 0 observing target 1 exactly where the model projects target 1's layout, at
  pixel \<open>(51, 50)\<close>, the objective is not 0 but 1: the code projects target 0's layout,
  to pixel \<open>(50, 50)\<close>.
\<close>

theorem C5_wrong_layout:
  "Calibration_fit_function c5_calibration c5_layouts [ [], []] [ [ [], [(0, [(51, 50)])]]] c5_x0
     = Inr 1
   \<and> pixel_coordinates_batch
        (local_points (camera_frame 0 0 (- 1) 0 0 0 identity4)
           (global_points (target_frame 0 0 0 0 0 0 (radians (0 * 1 * (- 1)))) (c5_layouts ! 1)))
        100 100 1 1 = [(51, 50)]
   \<and> pixel_coordinates_batch
        (local_points (camera_frame 0 0 (- 1) 0 0 0 identity4)
           (global_points (target_frame 0 0 0 0 0 0 (radians (0 * 1 * (- 1)))) (c5_layouts ! 0)))
        100 100 1 1 = [(50, 50)]"
proof -
  have nb: "nb_targets c5_calibration = 2" "clockwise c5_calibration"
    "cameras_origin_axis c5_calibration = ((1, 0, 0), (0, 1, 0), (0, 0, 1))"
    "others c5_calibration =
       [CalibrationCamera_init\<lparr>cam_width_image := JNum 100, cam_height_image := JNum 100\<rparr>]"
    by (simp_all add: c5_calibration_def Calibration_init_def)
  have obs: "observation_error c5_calibration c5_layouts
               (Frame ((1,0,0),(0,1,0),(0,0,1)) (0, 0, - 1)) (JNum 100) (JNum 100) 1 1 1
               (0, 0, 0, 0, 0, 0) 0 (0, [(51, 50)]) = Inr 1"
    by (simp add: observation_error_def nb radians_def target_frame_zero getitem_list_def
        c5_layouts_def global_points_def global_point_def local_points_def local_point_def
        Frame_def pixel_coordinates_batch_def residual_def distance_2d_def)
  have "Calibration_fit_function c5_calibration c5_layouts [ [], []] [ [ [], [(0, [(51, 50)])]]] c5_x0
     = Inr 1"
    by (simp add: Calibration_fit_function_def nb c5_axis c5_unpack upt2 camera_frame_identity
        getitem_list_def obs CalibrationCamera_init_def)
  moreover have "pixel_coordinates_batch
        (local_points (camera_frame 0 0 (- 1) 0 0 0 identity4)
           (global_points (target_frame 0 0 0 0 0 0 (radians (0 * 1 * (- 1)))) (c5_layouts ! 1)))
        100 100 1 1 = [(51, 50)]"
    by (simp add: radians_def target_frame_zero camera_frame_identity
        c5_layouts_def global_points_def global_point_def local_points_def local_point_def
        Frame_def pixel_coordinates_batch_def)
  moreover have "pixel_coordinates_batch
        (local_points (camera_frame 0 0 (- 1) 0 0 0 identity4)
           (global_points (target_frame 0 0 0 0 0 0 (radians (0 * 1 * (- 1)))) (c5_layouts ! 0)))
        100 100 1 1 = [(50, 50)]"
    by (simp add: radians_def target_frame_zero camera_frame_identity
        c5_layouts_def global_points_def global_point_def local_points_def local_point_def
        Frame_def pixel_coordinates_batch_def)
  ultimately show ?thesis by simp
qed

section \<open>The wrapping of rotations in calibrate\<close>

lemma py_fmod_zero: "py_fmod 0 b = 0"
  by (simp add: py_fmod_def)

lemma py_fmod_minus_one: "py_fmod (- 1) (pi * 2) = 2 * pi - 1"
proof -
  have "2 \<le> pi" by (rule pi_ge_two)
  then have "\<lfloor>- 1 / (pi * 2)\<rfloor> = - 1"
    by (simp add: floor_eq_iff field_simps)
  then show ?thesis by (simp add: py_fmod_def)
qed

lemma py_fmod_one_pi: "py_fmod 1 pi = 1"
  by (rule py_fmod_id) (use pi_ge_two in simp_all)

lemma c1_wrapped:
  "wrap_rotations [4, 6, 10, 11, 12, 16, 17, 18] c1_parameters =
     Inr [1000, 1000, 0, - 5000, 0, - 1, 2 * pi - 1, 0, 0, 0, 0, 0, 0, 0, 0, 0, 0, 0, 0]"
  by (simp add: c1_parameters_def py_fmod_zero py_fmod_minus_one eval_nat_numeral)

lemma two_not_congruent_one: "\<not> (\<exists>k::int. (2::real) = 1 + 2 * pi * of_int k)"
proof
  assume "\<exists>k::int. (2::real) = 1 + 2 * pi * of_int k"
  then obtain k :: int where k: "2 * pi * of_int k = 1" by auto
  have pi2: "2 \<le> pi" by (rule pi_ge_two)
  show False
  proof (cases "k \<le> 0")
    case True
    then have "2 * pi * of_int k \<le> 0"
      using pi2 by (simp add: mult_nonneg_nonpos)
    with k show False by simp
  next
    case False
    then have "1 \<le> k" by simp
    then have "(1::real) \<le> of_int k" by simp
    then have "2 * pi * 1 \<le> 2 * pi * of_int k"
      using pi2 by (intro mult_left_mono) simp_all
    with k pi2 show False by simp
  qed
qed

text \<open>
  Claim C1 (the code departs from it). After \<open>calibrate\<close> every rotation, and only the
  rotations, should be the optimizer's value wrapped modulo \<open>2 * pi\<close> into \<open>[0, 2 * pi)\<close>.
  The two-target side camera wraps index 6 (the angle factor) instead of index 5
  (\<open>cam_rot_z\<close>): from the vector \<open>c1_parameters\<close> it stores \<open>cam_rot_z = - 1\<close>, outside the
  interval, and \<open>angle_factor = 2 * pi - 1\<close> instead of \<open>- 1\<close>. The generalized calibration
  computes \<open>(p mod pi) * 2\<close>: from \<open>cam_rot_x = 1\<close> it stores 2, where the value wrapped
  modulo \<open>2 * pi\<close> is 1, and 2 is not congruent to 1 modulo \<open>2 * pi\<close>.
\<close>

theorem C1_rotation_wrapping:
  "map_sum id cam_rot_z
     (CalibrationCameraSideWith2TargetYXZ_calibrate CalibrationCameraSideWith2TargetYXZ_init
        (100, 100) c1_parameters) = Inr (JNum (- 1))
   \<and> map_sum id angle_factor
     (CalibrationCameraSideWith2TargetYXZ_calibrate CalibrationCameraSideWith2TargetYXZ_init
        (100, 100) c1_parameters) = Inr (JNum (2 * pi - 1))
   \<and> c1_parameters ! 5 = - 1 \<and> c1_parameters ! 6 = - 1
   \<and> map_sum id cam_rot_x
     (Calibration_calibrate (Calibration_init 1 1 default_cameras_origin_axis True)
        (100, 100) [] c1_general_parameters) = Inr (JNum 2)
   \<and> c1_general_parameters ! 3 = 1
   \<and> py_fmod 1 (pi * 2) = 1
   \<and> \<not> (\<exists>k::int. (2::real) = 1 + 2 * pi * of_int k)"
proof -
  have a: "map_sum id cam_rot_z
     (CalibrationCameraSideWith2TargetYXZ_calibrate CalibrationCameraSideWith2TargetYXZ_init
        (100, 100) c1_parameters) = Inr (JNum (- 1))"
    and b: "map_sum id angle_factor
     (CalibrationCameraSideWith2TargetYXZ_calibrate CalibrationCameraSideWith2TargetYXZ_init
        (100, 100) c1_parameters) = Inr (JNum (2 * pi - 1))"
    by (simp_all add: CalibrationCameraSideWith2TargetYXZ_calibrate_def c1_wrapped
        del: wrap_rotations.simps)
  have l: "length c1_general_parameters = 7 + 1 * 6 + 0 * 8" "length ([] :: (real \<times> real) list) = 0"
    by (simp_all add: c1_general_parameters_def)
  have c: "map_sum id cam_rot_x
     (Calibration_calibrate (Calibration_init 1 1 default_cameras_origin_axis True)
        (100, 100) [] c1_general_parameters) = Inr (JNum 2)"
    using Calibration_calibrate_fresh [OF l, of default_cameras_origin_axis True "(100, 100)"]
    by (simp add: c1_general_parameters_def py_fmod_one_pi)
  have d: "py_fmod 1 (pi * 2) = 1"
    by (rule py_fmod_id) (use pi_ge_two in simp_all)
  from a b c d two_not_congruent_one show ?thesis
    by (simp add: c1_parameters_def c1_general_parameters_def)
qed


section \<open>Persistence of a calibrated object\<close>

lemma bind_error_Inr_iff: "bind_error m f = Inr r \<longleftrightarrow> (\<exists>v. m = Inr v \<and> f v = Inr r)"
  by (cases m) simp_all

lemma Calibration_calibrate_origin_axis:
  assumes "Calibration_calibrate c size_image sizes x0 = Inr c'"
  shows "cam_origin_axis c' = cam_origin_axis c"
  using assms
  by (auto simp add: Calibration_calibrate_def bind_error_Inr_iff Let_def)

lemma Calibration_dump_unset: "cam_origin_axis c = None \<Longrightarrow> Calibration_dump c = Inl AttributeError"
  by (simp add: Calibration_dump_def dump_camera_fields_def)

lemma Calibration_dump_after_calibrate:
  "(case Calibration_calibrate (Calibration_init T A axes cw) size_image sizes x0 of
      Inl e \<Rightarrow> True
    | Inr c \<Rightarrow> Calibration_dump c = Inl AttributeError)"
proof (cases "Calibration_calibrate (Calibration_init T A axes cw) size_image sizes x0")
  case (Inl e)
  then show ?thesis by simp
next
  case (Inr c)
  from Calibration_calibrate_origin_axis [OF Inr]
  have "cam_origin_axis c = None" by (simp add: Calibration_init_def)
  with Inr show ?thesis by (simp add: Calibration_dump_unset)
qed

text \<open>
  Claim C3 (the code departs from it). For every calibration object populated by
  \<open>calibrate\<close> or \<open>load\<close>, \<open>load (dump c)\<close> should reproduce every numeric field. The
  constructor of the generalized \<open>Calibration\<close> keeps its axes in
  \<open>cameras_origin_axis\<close> and leaves the attribute \<open>cam_origin_axis\<close> unset, and \<open>calibrate\<close>
  does not set it either: whatever vector the search returns, \<open>dump\<close> of the calibrated
  object raises AttributeError and there is no record to load. The top camera, whose
  constructor sets the attribute, is dumped after \<open>calibrate\<close> and loaded back unchanged
  (with a cast that leaves the entries of its axis as they are).
\<close>

theorem C3_dump_after_calibrate:
  "map_sum id cam_origin_axis
     (Calibration_calibrate (Calibration_init 1 1 default_cameras_origin_axis True)
        (100, 100) [] c3_parameters) = Inr None
   \<and> bind_error
       (Calibration_calibrate (Calibration_init 1 1 default_cameras_origin_axis True)
          (100, 100) [] c3_parameters)
       Calibration_dump = Inl AttributeError
   \<and> (case Calibration_calibrate (Calibration_init T A axes cw) size_image sizes x0 of
         Inl e \<Rightarrow> True
       | Inr c \<Rightarrow> Calibration_dump c = Inl AttributeError)
   \<and> bind_error (CalibrationCameraTop_calibrate CalibrationCameraTop_init (100, 100) 1
                    c3_top_parameters)
       (\<lambda>c. bind_error (CalibrationCamera_dump c) (\<lambda>s.
            bind_error (CalibrationCameraTop_load id s) (\<lambda>c'. Inr (c' = c)))) = Inr True"
proof -
  have l: "length c3_parameters = 7 + 1 * 6 + 0 * 8" "length ([] :: (real \<times> real) list) = 0"
    by (simp_all add: c3_parameters_def)
  obtain c where c: "Calibration_calibrate (Calibration_init 1 1 default_cameras_origin_axis True)
        (100, 100) [] c3_parameters = Inr c"
    using Calibration_calibrate_fresh [OF l, of default_cameras_origin_axis True "(100, 100)"]
    by simp
  from Calibration_calibrate_origin_axis [OF c]
  have none: "cam_origin_axis c = None" by (simp add: Calibration_init_def)
  have top: "wrap_rotations [5, 6, 7] c3_top_parameters = Inr c3_top_parameters"
    by (simp add: c3_top_parameters_def py_fmod_zero eval_nat_numeral)
  obtain ct where ct: "CalibrationCameraTop_calibrate CalibrationCameraTop_init (100, 100) 1
                    c3_top_parameters = Inr ct"
    and axis: "cam_origin_axis ct
                 = Some (cam_origin_axis_from_axes ((1, 0, 0), (0, - 1, 0), (0, 0, - 1)))"
    by (simp add: CalibrationCameraTop_calibrate_def top CalibrationCameraTop_init_def
        del: wrap_rotations.simps)
  obtain st where st: "CalibrationCamera_dump ct = Inr st"
    using dump_camera_fields_Some [OF axis] by (auto simp add: CalibrationCamera_dump_def)
  from CalibrationCameraTop_roundtrip [OF st, of id, unfolded map_mat4_id]
  obtain ax where ax: "cam_origin_axis ct = Some ax"
    "CalibrationCameraTop_load id st = Inr (ct\<lparr>cam_origin_axis := Some ax\<rparr>)"
    by blast
  have "ct\<lparr>cam_origin_axis := Some ax\<rparr> = ct"
    using ax(1) by (cases ct) simp
  with ax(2) have "CalibrationCameraTop_load id st = Inr ct"
    by simp
  with c none ct st Calibration_dump_after_calibrate [of T A axes cw size_image sizes x0]
  show ?thesis
    by (simp add: Calibration_dump_unset)
qed

end
